(* ===== verification/Py_Base.thy ===== *)
theory Py_Base
  imports Main "HOL-Library.Char_ord" "HOL-Library.List_Lexorder" "HOL-Library.Sublist"
begin

text \<open>
  Prelude of the MediVision development: the fragment of Python's built-in semantics that
  the repository's code relies on.  Python exceptions are the values of \<open>py_exc\<close>,
  a fallible call returns \<open>py_exc + 'a\<close>.  Strings are \<open>string\<close>: a Python \<open>str\<close> is
  the list of the bytes of its UTF-8 encoding (8-bit \<open>char\<close>s), so ASCII text is itself and
  the page's emoji are their UTF-8 bytes; \<open>latin1_text\<close> says when the \<open>str\<close> can be
  encoded as Latin-1 (every code point below U+0100).  The case and whitespace functions (\<open>str.lower\<close>, \<open>str.upper\<close>,
  \<open>str.title\<close>, \<open>str.strip\<close>) are given Python's meaning on ASCII, which is every
  string the application passes through them (city names of a fixed selectbox and the
  classifier's disease labels).  A Python dict literal is an association list, looked up
  with \<open>map_of\<close> (\<open>dict.get\<close> is \<open>dict_get\<close>); \<open>str.join\<close> is
  \<open>py_join\<close>; decimal printing and zero padding (\<open>str(n)\<close>, \<open>%02d\<close>) are
  \<open>show_nat\<close> and \<open>zpad\<close>.
\<close>

named_theorems py_char_simps "evaluation rules of the ASCII character classes"

datatype py_exc =
    TypeError           \<comment> \<open>e.g. \<open>str.join\<close> meeting a non-string item\<close>
  | ValueError          \<comment> \<open>e.g. \<open>max\<close> of an empty array\<close>
  | OperationalError    \<comment> \<open>sqlite3: missing table, or the database file cannot be opened\<close>
  | SqliteFull          \<comment> \<open>sqlite3: AUTOINCREMENT reached the largest rowid\<close>
  | UnicodeEncodeError  \<comment> \<open>\<^verbatim>\<open>str.encode("latin-1")\<close> on a character above U+00FF\<close>
  | DatabaseError       \<comment> \<open>pandas: \<^verbatim>\<open>read_sql_query\<close> re-raising a database error\<close>

type_synonym 'a py_result = "py_exc + 'a"

subsection \<open>Characters\<close>

definition is_upper_char :: "char \<Rightarrow> bool" where
  "is_upper_char c \<longleftrightarrow> (let n = of_char c :: nat in 65 \<le> n \<and> n \<le> 90)"

definition is_lower_char :: "char \<Rightarrow> bool" where
  "is_lower_char c \<longleftrightarrow> (let n = of_char c :: nat in 97 \<le> n \<and> n \<le> 122)"

definition is_cased_char :: "char \<Rightarrow> bool" where
  "is_cased_char c \<longleftrightarrow> is_upper_char c \<or> is_lower_char c"

definition lower_char :: "char \<Rightarrow> char" where
  "lower_char c = (if is_upper_char c then char_of (of_char c + (32::nat)) else c)"

definition upper_char :: "char \<Rightarrow> char" where
  "upper_char c = (if is_lower_char c then char_of (of_char c - (32::nat)) else c)"

text \<open>\<open>str.isspace\<close> on ASCII: tab to carriage return and the separators 0x1C to 0x1F, and
  the space.\<close>

definition py_isspace :: "char \<Rightarrow> bool" where
  "py_isspace c \<longleftrightarrow> (let n = of_char c :: nat in (9 \<le> n \<and> n \<le> 13) \<or> (28 \<le> n \<and> n \<le> 32))"

definition digit_char :: "nat \<Rightarrow> char" where
  "digit_char d = char_of (48 + d)"

subsection \<open>Strings\<close>

definition py_lower :: "string \<Rightarrow> string" where
  "py_lower s = map lower_char s"

definition py_upper :: "string \<Rightarrow> string" where
  "py_upper s = map upper_char s"

text \<open>\<open>str.title\<close> (CPython \<open>do_title\<close>): a character that follows a cased character is
  lowered, any other is title-cased (upper-cased, on ASCII); the flag is taken from the
  original character.\<close>

fun title_from :: "bool \<Rightarrow> string \<Rightarrow> string" where
  "title_from prev [] = []"
| "title_from prev (c # cs) =
     (if prev then lower_char c else upper_char c) # title_from (is_cased_char c) cs"

definition py_title :: "string \<Rightarrow> string" where
  "py_title s = title_from False s"

definition py_strip :: "string \<Rightarrow> string" where
  "py_strip s = rev (dropWhile py_isspace (rev (dropWhile py_isspace s)))"

definition dict_get :: "('k \<times> 'v) list \<Rightarrow> 'k \<Rightarrow> 'v \<Rightarrow> 'v" where
  "dict_get d k dflt = (case map_of d k of None \<Rightarrow> dflt | Some v \<Rightarrow> v)"

fun py_join :: "string \<Rightarrow> string list \<Rightarrow> string" where
  "py_join sep [] = []"
| "py_join sep [x] = x"
| "py_join sep (x # y # ys) = x @ sep @ py_join sep (y # ys)"

text \<open>A cell read by \<^verbatim>\<open>pandas.read_csv\<close>: a string, or \<open>NaN\<close> (a float) for an empty
  field.  \<^verbatim>\<open>sep.join(items)\<close> raises \<open>TypeError\<close> on an item that is not a string.\<close>

datatype cell = Str string | NaN

fun cell_strs :: "cell list \<Rightarrow> string list option" where
  "cell_strs [] = Some []"
| "cell_strs (Str s # cs) = map_option (Cons s) (cell_strs cs)"
| "cell_strs (NaN # cs) = None"

definition py_join_cells :: "string \<Rightarrow> cell list \<Rightarrow> string py_result" where
  "py_join_cells sep cs = (case cell_strs cs of None \<Rightarrow> Inl TypeError | Some ss \<Rightarrow> Inr (py_join sep ss))"

definition is_ascii :: "string \<Rightarrow> bool" where
  "is_ascii s \<longleftrightarrow> list_all (\<lambda>c. (of_char c :: nat) < 128) s"

text \<open>A UTF-8 byte string encodes only code points below U+0100 when every byte is ASCII
  or one of the two-byte sequences \<open>C2 80\<close> .. \<open>C3 BF\<close>.\<close>

fun latin1_text :: "string \<Rightarrow> bool" where
  "latin1_text [] = True"
| "latin1_text (c # cs) =
     (if (of_char c :: nat) < 128 then latin1_text cs
      else ((of_char c :: nat) = 194 \<or> (of_char c :: nat) = 195)
           \<and> (case cs of
                [] \<Rightarrow> False
              | d # ds \<Rightarrow> 128 \<le> (of_char d :: nat) \<and> (of_char d :: nat) < 192 \<and> latin1_text ds))"

fun show_nat :: "nat \<Rightarrow> string" where
  "show_nat n = (if n < 10 then [digit_char n] else show_nat (n div 10) @ [digit_char (n mod 10)])"

declare show_nat.simps [simp del]

definition zpad :: "nat \<Rightarrow> nat \<Rightarrow> string" where
  "zpad w n = replicate (w - length (show_nat n)) CHR ''0'' @ show_nat n"

text \<open>The \<open>w\<close> lowest decimal digits of \<open>n\<close>, most significant first.\<close>

fun fixed_digits :: "nat \<Rightarrow> nat \<Rightarrow> nat list" where
  "fixed_digits 0 n = []"
| "fixed_digits (Suc w) n = fixed_digits w (n div 10) @ [n mod 10]"

subsection \<open>Character classes\<close>

lemma of_char_lower_char:
  "of_char (lower_char c) = (if is_upper_char c then of_char c + 32 else (of_char c :: nat))"
  by (simp add: lower_char_def is_upper_char_def of_char_of Let_def)

lemma of_char_upper_char:
  "of_char (upper_char c) = (if is_lower_char c then of_char c - 32 else (of_char c :: nat))"
proof -
  have "of_char c - 32 < (256::nat)"
    using nat_of_char_less_256 [of c] by linarith
  then show ?thesis
    by (simp add: upper_char_def is_lower_char_def of_char_of Let_def)
qed

lemma char_eq_by_code: "(of_char c :: nat) = of_char d \<Longrightarrow> c = d"
  by (rule of_char_eqI)

lemmas char_class_defs [py_char_simps] =
  of_char_lower_char of_char_upper_char is_upper_char_def is_lower_char_def
  is_cased_char_def py_isspace_def Let_def

lemma lower_char_idem [simp]: "lower_char (lower_char c) = lower_char c"
  by (rule char_eq_by_code) (simp add: py_char_simps)

lemma lower_upper_char [simp]: "lower_char (upper_char c) = lower_char c"
  by (rule char_eq_by_code) (auto simp add: py_char_simps)

lemma upper_char_idem [simp]: "upper_char (upper_char c) = upper_char c"
  by (rule char_eq_by_code) (auto simp add: py_char_simps)

lemma upper_lower_char [simp]: "upper_char (lower_char c) = upper_char c"
  by (rule char_eq_by_code) (auto simp add: py_char_simps)



lemma is_cased_lower_char [simp]: "is_cased_char (lower_char c) = is_cased_char c"
  by (auto simp add: py_char_simps)

lemma is_cased_upper_char [simp]: "is_cased_char (upper_char c) = is_cased_char c"
  by (auto simp add: py_char_simps)

lemma isspace_lower_char [simp]: "py_isspace (lower_char c) = py_isspace c"
  by (auto simp add: py_char_simps)

lemma isspace_upper_char [simp]: "py_isspace (upper_char c) = py_isspace c"
  by (auto simp add: py_char_simps)

lemma isspace_not_cased: "py_isspace c \<Longrightarrow> \<not> is_cased_char c"
  by (auto simp add: py_char_simps)

lemma py_lower_idem [simp]: "py_lower (py_lower s) = py_lower s"
  by (simp add: py_lower_def)

lemma py_lower_upper [simp]: "py_lower (py_upper s) = py_lower s"
  by (simp add: py_lower_def py_upper_def)

subsection \<open>\<open>str.title\<close> and \<open>str.strip\<close>\<close>

lemma length_title_from [simp]: "length (title_from p s) = length s"
  by (induction s arbitrary: p) simp_all

lemma title_from_idem: "title_from p (title_from p s) = title_from p s"
  by (induction s arbitrary: p) auto

lemma map_isspace_title_from: "map py_isspace (title_from p s) = map py_isspace s"
  by (induction s arbitrary: p) auto

lemma take_title_from: "take k (title_from p s) = title_from p (take k s)"
  by (induction s arbitrary: p k) (auto simp: take_Cons split: nat.splits)

lemma dropWhile_title_from:
  "dropWhile py_isspace (title_from False s) = title_from False (dropWhile py_isspace s)"
  by (induction s) (auto dest: isspace_not_cased)

lemma length_takeWhile_cong:
  "map P xs = map P ys \<Longrightarrow> length (takeWhile P xs) = length (takeWhile P ys)"
proof (induction xs arbitrary: ys)
  case Nil
  then show ?case by simp
next
  case (Cons x xs)
  then obtain y ys' where "ys = y # ys'" and "P x = P y" and "map P xs = map P ys'"
    by (cases ys) auto
  with Cons.IH show ?case by simp
qed

lemma rev_dropWhile_rev:
  "rev (dropWhile P (rev xs)) = take (length xs - length (takeWhile P (rev xs))) xs"
proof -
  let ?t = "rev (takeWhile P (rev xs))"
  have split: "xs = rev (dropWhile P (rev xs)) @ ?t"
    by (metis rev_append rev_rev_ident takeWhile_dropWhile_id)
  have "length ?t = length (takeWhile P (rev xs))" by simp
  then show ?thesis
    by (metis split append_eq_conv_conj add_diff_cancel_right' length_append)
qed




lemma py_strip_title: "py_strip (py_title s) = py_title (py_strip s)"
proof -
  let ?d = "dropWhile py_isspace s"
  let ?T = "title_from False ?d"
  have len: "length (takeWhile py_isspace (rev ?T)) = length (takeWhile py_isspace (rev ?d))"
    by (rule length_takeWhile_cong) (simp only: rev_map [symmetric] map_isspace_title_from)
  have "py_strip (py_title s) = rev (dropWhile py_isspace (rev ?T))"
    by (simp only: py_strip_def py_title_def dropWhile_title_from)
  also have "\<dots> = take (length ?d - length (takeWhile py_isspace (rev ?d))) ?T"
    by (simp only: rev_dropWhile_rev len length_title_from)
  also have "\<dots> = py_title (py_strip s)"
    by (simp only: take_title_from py_title_def py_strip_def rev_dropWhile_rev)
  finally show ?thesis .
qed

lemma py_title_idem [simp]: "py_title (py_title s) = py_title s"
  by (simp add: py_title_def title_from_idem)

lemma dropWhile_take_dropWhile:
  "dropWhile P (take k (dropWhile P xs)) = take k (dropWhile P xs)"
proof (cases "dropWhile P xs")
  case Nil
  then show ?thesis by (simp only: take_Nil dropWhile.simps(1))
next
  case (Cons y ys)
  then have "\<not> P y" by (metis dropWhile_eq_Cons_conv)
  with Cons show ?thesis by (cases k) simp_all
qed

lemma py_strip_idem [simp]: "py_strip (py_strip s) = py_strip s"
proof -
  let ?d = "dropWhile py_isspace s"
  let ?k = "length ?d - length (takeWhile py_isspace (rev ?d))"
  have strip: "py_strip s = take ?k ?d"
    by (simp only: py_strip_def rev_dropWhile_rev)
  have front: "dropWhile py_isspace (py_strip s) = py_strip s"
    by (simp only: strip dropWhile_take_dropWhile)
  have "rev (py_strip s) = dropWhile py_isspace (rev ?d)"
    by (simp add: py_strip_def)
  then have rear: "dropWhile py_isspace (rev (py_strip s)) = rev (py_strip s)"
    by simp
  show ?thesis
    by (simp only: py_strip_def [of "py_strip s"] front rear rev_rev_ident)
qed

subsection \<open>\<open>str.join\<close>\<close>

lemma cell_strs_None_iff: "cell_strs cs = None \<longleftrightarrow> NaN \<in> set cs"
  by (induction cs rule: cell_strs.induct) auto

lemma cell_strs_map_Str [simp]: "cell_strs (map Str ss) = Some ss"
  by (induction ss) simp_all

lemma py_join_cells_map_Str [simp]: "py_join_cells sep (map Str ss) = Inr (py_join sep ss)"
  by (simp add: py_join_cells_def)

lemma py_join_cells_Inr: "NaN \<notin> set cs \<Longrightarrow> \<exists>s. py_join_cells sep cs = Inr s"
  by (auto simp: py_join_cells_def cell_strs_None_iff [symmetric] split: option.splits)

lemma py_join_cells_NaN: "NaN \<in> set cs \<Longrightarrow> py_join_cells sep cs = Inl TypeError"
  by (simp add: py_join_cells_def cell_strs_None_iff [symmetric])

lemma py_join_Cons: "ys \<noteq> [] \<Longrightarrow> py_join sep (x # ys) = x @ sep @ py_join sep ys"
  by (cases ys) simp_all

lemma set_py_join: "set (py_join sep xs) \<subseteq> set sep \<union> \<Union> (set ` set xs)"
  by (induction sep xs rule: py_join.induct) auto

lemma append_comma_cancel:
  assumes "CHR '','' \<notin> set x" and "CHR '','' \<notin> set y"
    and "x @ CHR '','' # u = y @ CHR '','' # v"
  shows "x = y \<and> u = v"
  using assms
proof (induction x arbitrary: y)
  case Nil
  then show ?case by (cases y) auto
next
  case (Cons a x)
  then show ?case by (cases y) auto
qed

lemma comma_in_py_join:
  "length xs \<ge> 2 \<Longrightarrow> CHR '','' \<in> set (py_join '', '' xs)"
  by (induction "'', ''" xs rule: py_join.induct) auto


lemma py_join_comma_inj:
  assumes "\<forall>x \<in> set xs. CHR '','' \<notin> set x" and "\<forall>y \<in> set ys. CHR '','' \<notin> set y"
    and "xs \<noteq> []" and "ys \<noteq> []"
    and "py_join '', '' xs = py_join '', '' ys"
  shows "xs = ys"
  using assms
proof (induction xs arbitrary: ys)
  case Nil
  then show ?case by simp
next
  case (Cons x xs')
  from Cons.prems(4) obtain y ys' where ys: "ys = y # ys'" by (cases ys) auto
  consider "xs' = [] \<and> ys' = []" | "xs' = [] \<and> ys' \<noteq> []" | "xs' \<noteq> [] \<and> ys' = []"
    | "xs' \<noteq> [] \<and> ys' \<noteq> []" by blast
  then show ?case
  proof cases
    case 1
    with Cons.prems(5) ys show ?thesis by simp
  next
    case 2
    then have "CHR '','' \<in> set (py_join '', '' ys)"
      using ys by (intro comma_in_py_join) (cases ys', auto)
    moreover have "CHR '','' \<notin> set (py_join '', '' (x # xs'))"
      using 2 Cons.prems(1) by simp
    ultimately show ?thesis using Cons.prems(5) by simp
  next
    case 3
    then have "CHR '','' \<in> set (py_join '', '' (x # xs'))"
      by (intro comma_in_py_join) (cases xs', auto)
    moreover have "CHR '','' \<notin> set (py_join '', '' ys)"
      using 3 ys Cons.prems(2) by simp
    ultimately show ?thesis using Cons.prems(5) by simp
  next
    case 4
    have "x @ CHR '','' # (CHR '' '' # py_join '', '' xs')
        = y @ CHR '','' # (CHR '' '' # py_join '', '' ys')"
      using Cons.prems(5) ys 4 by (simp add: py_join_Cons)
    moreover have "CHR '','' \<notin> set x" and "CHR '','' \<notin> set y"
      using Cons.prems(1,2) ys by simp_all
    ultimately have "x = y" and "py_join '', '' xs' = py_join '', '' ys'"
      using append_comma_cancel by blast+
    moreover have "xs' = ys'"
      using Cons.IH [of ys'] Cons.prems(1,2) ys 4 \<open>py_join '', '' xs' = py_join '', '' ys'\<close>
      by simp
    ultimately show ?thesis using ys by simp
  qed
qed

subsection \<open>ASCII and Latin-1 text\<close>

lemma is_ascii_append [simp]: "is_ascii (xs @ ys) \<longleftrightarrow> is_ascii xs \<and> is_ascii ys"
  by (simp add: is_ascii_def)

lemma is_ascii_Cons [simp]: "is_ascii (c # cs) \<longleftrightarrow> (of_char c :: nat) < 128 \<and> is_ascii cs"
  by (simp add: is_ascii_def)

lemma is_ascii_Nil [simp]: "is_ascii []"
  by (simp add: is_ascii_def)

lemma ascii_latin1: "is_ascii s \<Longrightarrow> latin1_text s"
  by (induction s) simp_all

lemma latin1_text_append: "latin1_text xs \<Longrightarrow> latin1_text ys \<Longrightarrow> latin1_text (xs @ ys)"
  by (induction xs rule: latin1_text.induct) (auto split: list.splits if_splits)

lemma is_ascii_digit_char: "n < 10 \<Longrightarrow> is_ascii [digit_char n]"
  by (simp add: digit_char_def)

lemma is_ascii_show_nat [simp]: "is_ascii (show_nat n)"
proof (induction n rule: show_nat.induct)
  case (1 n)
  have "n mod 10 < 80" by simp
  with 1 show ?case by (subst show_nat.simps) (simp add: digit_char_def)
qed

lemma is_ascii_zpad [simp]: "is_ascii (zpad w n)"
  by (simp add: zpad_def) (simp add: is_ascii_def list_all_iff)

subsection \<open>Decimal digits\<close>

lemma length_fixed_digits [simp]: "length (fixed_digits w n) = w"
  by (induction w arbitrary: n) simp_all

lemma length_show_nat_pos: "length (show_nat n) \<ge> 1"
  by (subst show_nat.simps) simp

lemma digit_char_0: "digit_char 0 = CHR ''0''"
  by code_simp

lemma fixed_digits_zero [simp]: "fixed_digits w 0 = replicate w 0"
  by (induction w) (simp_all add: replicate_append_same)

lemma fixed_digits_small: "n < 10 \<Longrightarrow> fixed_digits (Suc w) n = replicate w 0 @ [n]"
proof (induction w arbitrary: n)
  case 0
  then show ?case by simp
next
  case (Suc w)
  have "fixed_digits (Suc (Suc w)) n = fixed_digits (Suc w) 0 @ [n]"
    using Suc.prems by simp
  also have "\<dots> = replicate (Suc w) 0 @ [n]"
    using Suc.IH [of 0] by (simp add: replicate_append_same)
  finally show ?case .
qed

lemma zpad_fixed_digits:
  "n < 10 ^ w \<Longrightarrow> 0 < w \<Longrightarrow> zpad w n = map digit_char (fixed_digits w n)"
proof (induction w arbitrary: n)
  case 0
  then show ?case by simp
next
  case (Suc w)
  show ?case
  proof (cases "n < 10")
    case True
    then show ?thesis
      by (simp add: zpad_def fixed_digits_small show_nat.simps [of n] digit_char_0)
  next
    case False
    then have w: "0 < w" using Suc.prems(1) by (cases w) auto
    have small: "n div 10 < 10 ^ w" using Suc.prems(1) by (simp add: div_less_iff_less_mult)
    have sn: "show_nat n = show_nat (n div 10) @ [digit_char (n mod 10)]"
      using False by (simp add: show_nat.simps [of n])
    have "zpad (Suc w) n = zpad w (n div 10) @ [digit_char (n mod 10)]"
      by (simp add: zpad_def sn)
    also have "\<dots> = map digit_char (fixed_digits (Suc w) n)"
      using Suc.IH [OF small w] by simp
    finally show ?thesis .
  qed
qed

lemma length_zpad: "n < 10 ^ w \<Longrightarrow> 0 < w \<Longrightarrow> length (zpad w n) = w"
  by (simp add: zpad_fixed_digits)

lemma less_append_same_length:
  "length xs = length ys \<Longrightarrow>
   ((xs @ us :: 'a::linorder list) < ys @ vs) \<longleftrightarrow> (xs < ys \<or> xs = ys \<and> us < vs)"
  by (induction xs ys rule: list_induct2) auto

lemma fixed_digits_bound: "set (fixed_digits w n) \<subseteq> {..<10}"
  by (induction w arbitrary: n) auto

lemma decimal_step_less:
  "(a::nat) < b \<longleftrightarrow> a div 10 < b div 10 \<or> a div 10 = b div 10 \<and> a mod 10 < b mod 10"
proof -
  have "a = 10 * (a div 10) + a mod 10" and "b = 10 * (b div 10) + b mod 10"
    by simp_all
  moreover have "a mod 10 < 10" and "b mod 10 < 10" by simp_all
  ultimately show ?thesis by linarith
qed

lemma decimal_step_eq:
  "(a::nat) = b \<longleftrightarrow> a div 10 = b div 10 \<and> a mod 10 = b mod 10"
  by (metis div_mult_mod_eq)

lemma fixed_digits_eq_iff:
  "a < 10 ^ w \<Longrightarrow> b < 10 ^ w \<Longrightarrow> fixed_digits w a = fixed_digits w b \<longleftrightarrow> a = b"
proof (induction w arbitrary: a b)
  case 0
  then show ?case by simp
next
  case (Suc w)
  have "a div 10 < 10 ^ w" "b div 10 < 10 ^ w"
    using Suc.prems by (simp_all add: div_less_iff_less_mult)
  with Suc.IH show ?case
    by (auto simp: decimal_step_eq [of a b])
qed

lemma fixed_digits_less_iff:
  "a < 10 ^ w \<Longrightarrow> b < 10 ^ w \<Longrightarrow> fixed_digits w a < fixed_digits w b \<longleftrightarrow> a < b"
proof (induction w arbitrary: a b)
  case 0
  then show ?case by simp
next
  case (Suc w)
  have small: "a div 10 < 10 ^ w" "b div 10 < 10 ^ w"
    using Suc.prems by (simp_all add: div_less_iff_less_mult)
  have "fixed_digits (Suc w) a < fixed_digits (Suc w) b \<longleftrightarrow>
        fixed_digits w (a div 10) < fixed_digits w (b div 10)
        \<or> fixed_digits w (a div 10) = fixed_digits w (b div 10) \<and> [a mod 10] < [b mod 10]"
    by (simp add: less_append_same_length)
  also have "\<dots> \<longleftrightarrow> a < b"
    using Suc.IH [OF small] fixed_digits_eq_iff [OF small]
    by (simp add: decimal_step_less [of a b])
  finally show ?case .
qed

lemma map_less_iff:
  assumes "\<forall>x \<in> A. \<forall>y \<in> A. (f x < f y \<longleftrightarrow> x < y) \<and> (f x = f y \<longleftrightarrow> x = y)"
    and "set xs \<subseteq> A" and "set ys \<subseteq> A"
  shows "(map f xs :: 'b::linorder list) < map f ys \<longleftrightarrow> (xs :: 'a::linorder list) < ys"
  using assms(2,3)
proof (induction xs arbitrary: ys)
  case Nil
  then show ?case by (cases ys) simp_all
next
  case (Cons x xs)
  then show ?case using assms(1) by (cases ys) auto
qed

lemma digit_char_order:
  "\<forall>x \<in> {..<10::nat}. \<forall>y \<in> {..<10}.
     (digit_char x < digit_char y \<longleftrightarrow> x < y) \<and> (digit_char x = digit_char y \<longleftrightarrow> x = y)"
proof -
  have code: "x < 10 \<Longrightarrow> (of_char (digit_char x) :: nat) = 48 + x" for x
    by (simp add: digit_char_def of_char_of)
  show ?thesis
    by (auto simp: less_char_def code dest!: arg_cong [where f = "of_char :: char \<Rightarrow> nat"])
qed

lemma zpad_less_iff:
  "a < 10 ^ w \<Longrightarrow> b < 10 ^ w \<Longrightarrow> 0 < w \<Longrightarrow> zpad w a < zpad w b \<longleftrightarrow> a < b"
  by (simp add: zpad_fixed_digits map_less_iff [OF digit_char_order] fixed_digits_bound
      fixed_digits_less_iff)

lemma zpad_eq_iff:
  "a < 10 ^ w \<Longrightarrow> b < 10 ^ w \<Longrightarrow> 0 < w \<Longrightarrow> zpad w a = zpad w b \<longleftrightarrow> a = b"
  using zpad_less_iff [of a w b] zpad_less_iff [of b w a] by (metis linorder_neq_iff)


end
