(* ===== verification/Doctors.thy ===== *)
theory Doctors
  imports Py_Base
begin

text \<open>
  Doctor recommender, \<^verbatim>\<open>src/backend/patient_data.py\<close>: the static tables
  \<^verbatim>\<open>doctors_by_city\<close> (city \<open>\<rightarrow>\<close> specialty \<open>\<rightarrow>\<close> doctor) and
  \<^verbatim>\<open>specialist_map\<close> (lower-cased disease \<open>\<rightarrow>\<close> specialty) as association lists
  in the source's order, and \<^verbatim>\<open>recommend_doctor\<close> as a pure function.  The lemmas show
  that the directory covers every specialty the map can produce, so a known city always
  yields a directory doctor and the "no specialist" answer is dead code; that an unknown
  city yields the fallback naming the specialty and the normalised city; and that the
  answer depends on the city only through \<open>strip().title()\<close>, an idempotent
  normalisation.
\<close>

definition doctors_by_city :: "(string \<times> (string \<times> string) list) list" where
  "doctors_by_city = [
    (''Lahore'', [
      (''Cardiology'', ''Dr. Usman Tariq - Punjab Institute of Cardiology''),
      (''Dermatology'', ''Dr. Sarah Malik - Cosmo Clinic''),
      (''Neurology'', ''Dr. Ahsan Raza - Hameed Latif Hospital''),
      (''General'', ''Dr. Huma Khan - Lahore General Hospital'')]),
    (''Gujranwala'', [
      (''Cardiology'', ''Dr. Shabbir Ahmed - City Hospital''),
      (''Dermatology'', ''Dr. Neelam Bashir - Skin Clinic Gujranwala''),
      (''Neurology'', ''Dr. Haris Javed - DHQ Gujranwala''),
      (''General'', ''Dr. Faiza Anwar - Civil Hospital Gujranwala'')]),
    (''Islamabad'', [
      (''Cardiology'', ''Dr. Imran Nisar - PIMS''),
      (''Dermatology'', ''Dr. Nadia Anwar - SkinTech Islamabad''),
      (''Neurology'', ''Dr. Talha Malik - Shifa International Hospital''),
      (''General'', ''Dr. Saima Zubair - Polyclinic Islamabad'')]),
    (''Rawalpindi'', [
      (''Cardiology'', ''Dr. Rizwan Aziz - Rawalpindi Institute of Cardiology''),
      (''Dermatology'', ''Dr. Mahnoor Khan - Skin Wellness Center''),
      (''Neurology'', ''Dr. Muneeb Khan - Benazir Bhutto Hospital''),
      (''General'', ''Dr. Maria Qureshi - Holy Family Hospital'')]),
    (''Karachi'', [
      (''Cardiology'', ''Dr. Sameer Ansari - NICVD''),
      (''Dermatology'', ''Dr. Hina Khan - Agha Khan Dermatology''),
      (''Neurology'', ''Dr. Sohail Yousuf - Liaquat National Hospital''),
      (''General'', ''Dr. Farah Hussain - Jinnah Hospital'')])]"

definition specialist_map :: "(string \<times> string) list" where
  "specialist_map = [
    (''heart attack'', ''Cardiology''),
    (''hypertension'', ''Cardiology''),
    (''skin infection'', ''Dermatology''),
    (''acne'', ''Dermatology''),
    (''migraine'', ''Neurology''),
    (''epilepsy'', ''Neurology''),
    (''flu'', ''General''),
    (''fever'', ''General''),
    (''cold'', ''General'')]"

text \<open>The three steps of \<^verbatim>\<open>recommend_doctor\<close>: \<^verbatim>\<open>city.strip().title()\<close>,
  \<^verbatim>\<open>specialist_map.get(disease_name.lower(), "General")\<close>, and the guarded directory
  lookup (\<^verbatim>\<open>if city_doctors:\<close> is false for a missing city and for an empty dict).\<close>

definition city_norm :: "string \<Rightarrow> string" where
  "city_norm city = py_title (py_strip city)"

definition specialty_of :: "string \<Rightarrow> string" where
  "specialty_of disease_name = dict_get specialist_map (py_lower disease_name) ''General''"

definition no_doctor_msg :: "string \<Rightarrow> string \<Rightarrow> string" where
  "no_doctor_msg area city =
     ''No doctor found for '' @ area @ '' in '' @ city @ ''. Try selecting a nearby city.''"

definition recommend_doctor :: "string \<Rightarrow> string \<Rightarrow> string" where
  "recommend_doctor disease_name city0 =
     (let city = city_norm city0;
          specialist_area = specialty_of disease_name;
          city_doctors = map_of doctors_by_city city
      in case city_doctors of
           Some docs \<Rightarrow>
             if docs \<noteq> [] then dict_get docs specialist_area ''No specialist available in your city.''
             else no_doctor_msg specialist_area city
         | None \<Rightarrow> no_doctor_msg specialist_area city)"

subsection \<open>Shape of the static tables\<close>

definition specialties :: "string set" where
  "specialties = {''Cardiology'', ''Dermatology'', ''Neurology'', ''General''}"

lemma specialty_of_in_specialties: "specialty_of d \<in> specialties"
  by (auto simp: specialty_of_def dict_get_def specialist_map_def specialties_def
      split: option.splits if_splits)

lemma directory_entry:
  assumes "map_of doctors_by_city city = Some docs"
  shows "docs \<noteq> [] \<and> (\<forall>sp \<in> specialties. \<exists>doc. map_of docs sp = Some doc)
         \<and> (\<forall>doc \<in> ran (map_of docs). take 4 doc = ''Dr. '')"
  using assms
  by (auto simp: doctors_by_city_def specialties_def ran_def split: if_splits)

lemma recommend_doctor_known_entry:
  assumes "map_of doctors_by_city (city_norm c) = Some docs"
  shows "map_of docs (specialty_of d) = Some (recommend_doctor d c)"
proof -
  from assms have "docs \<noteq> []" and "\<forall>sp \<in> specialties. \<exists>doc. map_of docs sp = Some doc"
    by (auto dest: directory_entry)
  then obtain doc where doc: "map_of docs (specialty_of d) = Some doc"
    using specialty_of_in_specialties by blast
  with assms \<open>docs \<noteq> []\<close> show ?thesis
    by (simp add: recommend_doctor_def dict_get_def)
qed

lemma recommend_doctor_unknown:
  "map_of doctors_by_city (city_norm c) = None \<Longrightarrow>
   recommend_doctor d c = no_doctor_msg (specialty_of d) (city_norm c)"
  by (simp add: recommend_doctor_def)

lemma recommend_doctor_prefix:
  "take 4 (recommend_doctor d c) \<in> {''Dr. '', ''No d''}"
proof (cases "map_of doctors_by_city (city_norm c)")
  case None
  then show ?thesis by (simp add: recommend_doctor_unknown no_doctor_msg_def)
next
  case (Some docs)
  then have "recommend_doctor d c \<in> ran (map_of docs)"
    using recommend_doctor_known_entry [OF Some] by (auto simp: ran_def)
  with Some show ?thesis by (auto dest: directory_entry)
qed

lemma directory_ascii:
  "map_of doctors_by_city city = Some docs \<Longrightarrow> \<forall>doc \<in> ran (map_of docs). is_ascii doc"
  by (auto simp: doctors_by_city_def ran_def split: if_splits)

lemma recommend_doctor_ascii:
  assumes "is_ascii (city_norm c)"
  shows "is_ascii (recommend_doctor d c)"
proof (cases "map_of doctors_by_city (city_norm c)")
  case None
  have "is_ascii (specialty_of d)"
    using specialty_of_in_specialties [of d] by (auto simp: specialties_def)
  with None assms show ?thesis by (simp add: recommend_doctor_unknown no_doctor_msg_def)
next
  case (Some docs)
  then have "recommend_doctor d c \<in> ran (map_of docs)"
    using recommend_doctor_known_entry [OF Some] by (auto simp: ran_def)
  with directory_ascii [OF Some] show ?thesis by blast
qed

lemma city_norm_idem: "city_norm (city_norm c) = city_norm c"
  by (simp add: city_norm_def py_strip_title)

lemma no_doctor_msg_mentions: "sublist a (no_doctor_msg a c) \<and> sublist c (no_doctor_msg a c)"
proof -
  have "sublist c ((''No doctor found for '' @ a @ '' in '') @ c @ ''. Try selecting a nearby city.'')"
    by (rule sublist_appendI)
  moreover have "sublist a (''No doctor found for '' @ a @ ('' in '' @ c @ ''. Try selecting a nearby city.''))"
    by (rule sublist_appendI)
  ultimately show ?thesis by (simp add: no_doctor_msg_def)
qed

subsection \<open>Properties of the recommender\<close>

text \<open>C21: For a city whose normalised name is a key of \<^verbatim>\<open>doctors_by_city\<close>,
  \<^verbatim>\<open>recommend_doctor\<close> returns exactly the directory entry of that city for the
  specialty of the disease (the "No specialist available" default is never taken), and
  that entry names a doctor.\<close>

theorem recommend_known_city:
  assumes "map_of doctors_by_city (city_norm c) = Some docs"
  shows "map_of docs (specialty_of d) = Some (recommend_doctor d c)
         \<and> take 4 (recommend_doctor d c) = ''Dr. ''"
proof -
  have entry: "map_of docs (specialty_of d) = Some (recommend_doctor d c)"
    using assms by (rule recommend_doctor_known_entry)
  then have "recommend_doctor d c \<in> ran (map_of docs)" by (auto simp: ran_def)
  with assms have "take 4 (recommend_doctor d c) = ''Dr. ''" by (auto dest: directory_entry)
  with entry show ?thesis by simp
qed

text \<open>The spec's example \<open>recommend("Acne", "lahore ")\<close>: the city normalises to
  Lahore and the answer is the Lahore dermatologist.\<close>

theorem recommend_known_city_witness:
  "map_of doctors_by_city (city_norm ''lahore '') = Some (the (map_of doctors_by_city ''Lahore''))
   \<and> map_of (the (map_of doctors_by_city ''Lahore'')) (specialty_of ''Acne'')
       = Some (recommend_doctor ''Acne'' ''lahore '')
   \<and> take 4 (recommend_doctor ''Acne'' ''lahore '') = ''Dr. ''
   \<and> recommend_doctor ''Acne'' ''lahore '' = ''Dr. Sarah Malik - Cosmo Clinic''"
proof -
  have h: "map_of doctors_by_city (city_norm ''lahore '') = Some (the (map_of doctors_by_city ''Lahore''))"
    by code_simp
  have e: "recommend_doctor ''Acne'' ''lahore '' = ''Dr. Sarah Malik - Cosmo Clinic''"
    by code_simp
  show ?thesis using recommend_known_city [OF h] h e by simp
qed

text \<open>C22: \<^verbatim>\<open>recommend_doctor\<close> never answers "No specialist available in your
  city.": every specialty that \<^verbatim>\<open>specialist_map\<close> or the "General" default can produce
  is listed for every city of the directory, so that branch of the code is dead.\<close>

theorem recommend_never_no_specialist:
  "recommend_doctor d c \<noteq> ''No specialist available in your city.''"
  using recommend_doctor_prefix [of d c] by auto

text \<open>C23: For a city that is not in the directory after normalisation, the answer is the
  fallback message, and it mentions both the resolved specialty and the normalised city.\<close>

theorem recommend_unknown_city:
  "map_of doctors_by_city (city_norm c) = None \<Longrightarrow>
   sublist (specialty_of d) (recommend_doctor d c) \<and> sublist (city_norm c) (recommend_doctor d c)"
  by (simp add: recommend_doctor_unknown no_doctor_msg_mentions)

text \<open>The spec's example \<open>recommend("flu", "multan")\<close>: the fallback names General and
  the normalised city \<open>"Multan"\<close>; the city as given, \<open>"multan"\<close>, does not occur in it,
  against the spec's "the given city verbatim".\<close>

theorem recommend_unknown_city_witness:
  "map_of doctors_by_city (city_norm ''multan'') = None
   \<and> sublist (specialty_of ''flu'') (recommend_doctor ''flu'' ''multan'')
   \<and> sublist (city_norm ''multan'') (recommend_doctor ''flu'' ''multan'')
   \<and> recommend_doctor ''flu'' ''multan''
       = ''No doctor found for General in Multan. Try selecting a nearby city.''
   \<and> \<not> sublist ''multan'' (recommend_doctor ''flu'' ''multan'')"
proof -
  have h: "map_of doctors_by_city (city_norm ''multan'') = None" by code_simp
  have e: "recommend_doctor ''flu'' ''multan''
       = ''No doctor found for General in Multan. Try selecting a nearby city.''" by code_simp
  have v: "\<not> sublist ''multan'' (recommend_doctor ''flu'' ''multan'')" by code_simp
  show ?thesis using recommend_unknown_city [OF h, of "''flu''"] h e v by simp
qed

text \<open>C24: The recommendation is invariant under the input normalisation the code applies:
  upper-casing the disease name and replacing the city by \<open>city.strip().title()\<close> do not
  change it (the disease lookup is case-insensitive, and the city normalisation is
  idempotent).\<close>

theorem recommend_input_normalisation:
  "recommend_doctor (py_upper d) (city_norm c) = recommend_doctor d c"
  by (simp add: recommend_doctor_def specialty_of_def city_norm_idem)

end
