(* ===== verification/Timestamp.thy ===== *)
theory Timestamp
  imports Py_Base "HOL-Library.Product_Lexorder"
begin

text \<open>
  The timestamp that \<^verbatim>\<open>store_patient_history\<close> writes into the \<^verbatim>\<open>date\<close> column:
  \<^verbatim>\<open>datetime.datetime.now().strftime("%Y-%m-%d %H:%M")\<close>.  A \<open>datetime\<close> is the record
  of the fields the format reads, valid when it is a date of Python's \<^verbatim>\<open>datetime\<close>
  (years 1 to 9999, the Gregorian month lengths) and a time of day; \<open>%Y\<close> is the
  four-digit zero-padded year and the other directives two-digit fields.  The lemmas show
  that the text has 16 characters and that comparing two texts as strings (which is what
  SQLite's \<^verbatim>\<open>ORDER BY date\<close> does on a TEXT column) is comparing the instants
  chronologically, to the minute.
\<close>

record datetime =
  dt_year :: nat
  dt_month :: nat
  dt_day :: nat
  dt_hour :: nat
  dt_minute :: nat

definition is_leap :: "nat \<Rightarrow> bool" where
  "is_leap y \<longleftrightarrow> 4 dvd y \<and> (\<not> 100 dvd y \<or> 400 dvd y)"

definition days_in_month :: "nat \<Rightarrow> nat \<Rightarrow> nat" where
  "days_in_month y m =
     (if m = 2 then (if is_leap y then 29 else 28)
      else if m \<in> {4, 6, 9, 11} then 30 else 31)"

definition valid_datetime :: "datetime \<Rightarrow> bool" where
  "valid_datetime t \<longleftrightarrow>
     1 \<le> dt_year t \<and> dt_year t \<le> 9999 \<and> 1 \<le> dt_month t \<and> dt_month t \<le> 12
     \<and> 1 \<le> dt_day t \<and> dt_day t \<le> days_in_month (dt_year t) (dt_month t)
     \<and> dt_hour t < 24 \<and> dt_minute t < 60"

definition strftime_ymdhm :: "datetime \<Rightarrow> string" where
  "strftime_ymdhm t =
     zpad 4 (dt_year t) @ ''-'' @ zpad 2 (dt_month t) @ ''-'' @ zpad 2 (dt_day t) @ '' ''
     @ zpad 2 (dt_hour t) @ '':'' @ zpad 2 (dt_minute t)"

text \<open>The chronological order of instants, to the minute: lexicographic on the fields.\<close>

definition dt_key :: "datetime \<Rightarrow> nat \<times> nat \<times> nat \<times> nat \<times> nat" where
  "dt_key t = (dt_year t, dt_month t, dt_day t, dt_hour t, dt_minute t)"

lemma days_in_month_le: "days_in_month y m \<le> 31"
  by (simp add: days_in_month_def)

lemma valid_datetime_bounds:
  assumes "valid_datetime t"
  shows "dt_year t < 10 ^ 4" "dt_month t < 10 ^ 2" "dt_day t < 10 ^ 2"
    "dt_hour t < 10 ^ 2" "dt_minute t < 10 ^ 2"
  using assms days_in_month_le [of "dt_year t" "dt_month t"]
  by (simp_all add: valid_datetime_def)

lemma strftime_ymdhm_less_iff:
  assumes "valid_datetime t1" and "valid_datetime t2"
  shows "strftime_ymdhm t1 < strftime_ymdhm t2 \<longleftrightarrow> dt_key t1 < dt_key t2"
  using valid_datetime_bounds [OF assms(1)] valid_datetime_bounds [OF assms(2)]
  by (simp add: strftime_ymdhm_def dt_key_def less_append_same_length length_zpad
      zpad_less_iff zpad_eq_iff less_prod_def) auto


subsection \<open>Properties of the timestamp\<close>

text \<open>C20: For valid instants, the \<^verbatim>\<open>%Y-%m-%d %H:%M\<close> texts compare as strings
  exactly as the instants compare chronologically to the minute, and two texts are equal
  exactly when the instants fall in the same minute: text order is time order.\<close>

theorem strftime_chronological:
  assumes "valid_datetime t1" and "valid_datetime t2"
  shows "(strftime_ymdhm t1 < strftime_ymdhm t2 \<longleftrightarrow> dt_key t1 < dt_key t2)
         \<and> (strftime_ymdhm t1 = strftime_ymdhm t2 \<longleftrightarrow> dt_key t1 = dt_key t2)"
proof -
  have lt: "strftime_ymdhm t1 < strftime_ymdhm t2 \<longleftrightarrow> dt_key t1 < dt_key t2"
    and gt: "strftime_ymdhm t2 < strftime_ymdhm t1 \<longleftrightarrow> dt_key t2 < dt_key t1"
    using assms by (simp_all add: strftime_ymdhm_less_iff)
  have "strftime_ymdhm t1 = strftime_ymdhm t2 \<longleftrightarrow> dt_key t1 = dt_key t2"
    using lt gt by (metis linorder_neq_iff)
  with lt show ?thesis by simp
qed

theorem strftime_chronological_witness:
  "valid_datetime \<lparr>dt_year = 2024, dt_month = 12, dt_day = 31, dt_hour = 23, dt_minute = 59\<rparr>
   \<and> valid_datetime \<lparr>dt_year = 2025, dt_month = 1, dt_day = 1, dt_hour = 0, dt_minute = 0\<rparr>
   \<and> strftime_ymdhm \<lparr>dt_year = 2024, dt_month = 12, dt_day = 31, dt_hour = 23, dt_minute = 59\<rparr>
     < strftime_ymdhm \<lparr>dt_year = 2025, dt_month = 1, dt_day = 1, dt_hour = 0, dt_minute = 0\<rparr>"
proof -
  have v1: "valid_datetime \<lparr>dt_year = 2024, dt_month = 12, dt_day = 31, dt_hour = 23, dt_minute = 59\<rparr>"
    by (simp add: valid_datetime_def days_in_month_def)
  have v2: "valid_datetime \<lparr>dt_year = 2025, dt_month = 1, dt_day = 1, dt_hour = 0, dt_minute = 0\<rparr>"
    by (simp add: valid_datetime_def days_in_month_def)
  show ?thesis using strftime_chronological [OF v1 v2] v1 v2 by (simp add: dt_key_def)
qed

text \<open>The text written into the \<^verbatim>\<open>date\<close> column for a valid instant has exactly 16
  characters, and for the instant 2024-03-05 09:07 it is \<open>"2024-03-05 09:07"\<close>.\<close>

theorem strftime_fixed_width:
  "valid_datetime t \<Longrightarrow> length (strftime_ymdhm t) = 16"
  using valid_datetime_bounds [of t] by (simp add: strftime_ymdhm_def length_zpad)

theorem strftime_fixed_width_witness:
  "valid_datetime \<lparr>dt_year = 2024, dt_month = 3, dt_day = 5, dt_hour = 9, dt_minute = 7\<rparr>
   \<and> length (strftime_ymdhm \<lparr>dt_year = 2024, dt_month = 3, dt_day = 5, dt_hour = 9, dt_minute = 7\<rparr>) = 16
   \<and> strftime_ymdhm \<lparr>dt_year = 2024, dt_month = 3, dt_day = 5, dt_hour = 9, dt_minute = 7\<rparr>
     = ''2024-03-05 09:07''"
proof -
  have v: "valid_datetime \<lparr>dt_year = 2024, dt_month = 3, dt_day = 5, dt_hour = 9, dt_minute = 7\<rparr>"
    by (simp add: valid_datetime_def days_in_month_def)
  have e: "strftime_ymdhm \<lparr>dt_year = 2024, dt_month = 3, dt_day = 5, dt_hour = 9, dt_minute = 7\<rparr>
     = ''2024-03-05 09:07''"
    by code_simp
  show ?thesis using strftime_fixed_width [OF v] v e by simp
qed

end
