(* ===== verification/History.thy ===== *)
theory History
  imports Timestamp "HOL-Library.Multiset"
begin

text \<open>
  History store, \<^verbatim>\<open>src/backend/patient_data.py\<close>.  The SQLite database is a record:
  the \<^verbatim>\<open>history\<close> table as the list of its rows in rowid order (\<open>None\<close> while the
  table does not exist) and the AUTOINCREMENT counter of \<^verbatim>\<open>sqlite_sequence\<close>.
  \<^verbatim>\<open>initialize_db\<close> is \<^verbatim>\<open>CREATE TABLE IF NOT EXISTS\<close>; \<^verbatim>\<open>store_patient_history\<close>
  evaluates its parameter tuple (the two \<^verbatim>\<open>', '.join\<close> calls and the timestamp) and
  then runs the INSERT, each failure an exception that leaves the database unchanged;
  \<^verbatim>\<open>get_patient_history\<close> is \<^verbatim>\<open>SELECT * ... ORDER BY date DESC\<close>, whose order
  among rows with the same \<^verbatim>\<open>date\<close> SQLite leaves unspecified, so the query is the
  relation \<open>history_listing\<close> between a database and its admissible results, and
  \<open>get_patient_history\<close> one deterministic evaluation of it (a missing table makes
  \<^verbatim>\<open>pandas.read_sql_query\<close> raise \<open>DatabaseError\<close>).
\<close>

record history_row =
  row_id :: nat
  row_name :: string
  row_gender :: string
  row_city :: string
  row_symptoms :: string
  row_predicted_disease :: string
  row_precautions :: string
  row_doctor :: string
  row_date :: string

record db_state =
  history_table :: "history_row list option"
  sqlite_seq :: nat

text \<open>The largest rowid; AUTOINCREMENT fails with \<open>SQLITE_FULL\<close> instead of reusing one.\<close>

definition sqlite_max_rowid :: nat where
  "sqlite_max_rowid = 9223372036854775807"

definition initialize_db :: "db_state \<Rightarrow> db_state" where
  "initialize_db db =
     (case history_table db of
        None \<Rightarrow> db\<lparr>history_table := Some [], sqlite_seq := 0\<rparr>
      | Some _ \<Rightarrow> db)"

definition join_list :: "string list \<Rightarrow> string" where
  "join_list xs = py_join '', '' xs"

definition store_patient_history ::
  "string \<Rightarrow> string \<Rightarrow> string list \<Rightarrow> string \<Rightarrow> cell list \<Rightarrow> string \<Rightarrow> string \<Rightarrow> datetime
   \<Rightarrow> db_state \<Rightarrow> db_state py_result" where
  "store_patient_history name gender symptoms predicted_disease precautions doctor city now db =
     (case py_join_cells '', '' precautions of
        Inl e \<Rightarrow> Inl e
      | Inr precs \<Rightarrow>
          (case history_table db of
             None \<Rightarrow> Inl OperationalError
           | Some rows \<Rightarrow>
               if sqlite_max_rowid \<le> sqlite_seq db then Inl SqliteFull
               else
                 (let rid = Suc (sqlite_seq db);
                      row = \<lparr>row_id = rid, row_name = name, row_gender = gender, row_city = city,
                             row_symptoms = join_list symptoms,
                             row_predicted_disease = predicted_disease,
                             row_precautions = precs, row_doctor = doctor,
                             row_date = strftime_ymdhm now\<rparr>
                  in Inr (db\<lparr>history_table := Some (rows @ [row]), sqlite_seq := rid\<rparr>))))"

definition history_listing :: "db_state \<Rightarrow> history_row list \<Rightarrow> bool" where
  "history_listing db out \<longleftrightarrow>
     (case history_table db of
        None \<Rightarrow> False
      | Some rows \<Rightarrow> mset out = mset rows \<and> sorted_wrt (\<lambda>a b. row_date b \<le> row_date a) out)"

definition get_patient_history :: "db_state \<Rightarrow> history_row list py_result" where
  "get_patient_history db =
     (case history_table db of
        None \<Rightarrow> Inl DatabaseError
      | Some rows \<Rightarrow> Inr (rev (sort_key row_date (rev rows))))"

definition db_inv :: "db_state \<Rightarrow> bool" where
  "db_inv db \<longleftrightarrow> sqlite_seq db \<le> sqlite_max_rowid \<and>
     (case history_table db of
        None \<Rightarrow> True
      | Some rows \<Rightarrow> sorted_wrt (<) (map row_id rows)
                     \<and> (\<forall>r \<in> set rows. 0 < row_id r \<and> row_id r \<le> sqlite_seq db))"

subsection \<open>Behaviour of the operations\<close>

abbreviation new_row ::
  "nat \<Rightarrow> string \<Rightarrow> string \<Rightarrow> string list \<Rightarrow> string \<Rightarrow> string \<Rightarrow> string \<Rightarrow> string \<Rightarrow> datetime
   \<Rightarrow> history_row" where
  "new_row rid name gender symptoms predicted_disease precs doctor city now \<equiv>
     \<lparr>row_id = rid, row_name = name, row_gender = gender, row_city = city,
      row_symptoms = join_list symptoms, row_predicted_disease = predicted_disease,
      row_precautions = precs, row_doctor = doctor, row_date = strftime_ymdhm now\<rparr>"

abbreviation demo_time :: datetime where
  "demo_time \<equiv> \<lparr>dt_year = 2025, dt_month = 6, dt_day = 1, dt_hour = 10, dt_minute = 30\<rparr>"

abbreviation demo_row1 :: history_row where
  "demo_row1 \<equiv> new_row 1 ''Ali'' ''Male'' [''cough''] ''Flu'' ''rest'' ''Dr. X'' ''Lahore''
     \<lparr>dt_year = 2025, dt_month = 6, dt_day = 1, dt_hour = 9, dt_minute = 0\<rparr>"

abbreviation demo_row2 :: history_row where
  "demo_row2 \<equiv> new_row 2 ''Sara'' ''Female'' [''fever''] ''Flu'' (join_list []) ''Dr. Y'' ''Lahore''
     demo_time"

lemma store_patient_history_Inr:
  "store_patient_history name gender symptoms dis precautions doctor city now db = Inr db' \<longleftrightarrow>
   (\<exists>rows precs. history_table db = Some rows \<and> py_join_cells '', '' precautions = Inr precs
      \<and> sqlite_seq db < sqlite_max_rowid
      \<and> db' = db\<lparr>history_table := Some (rows @ [new_row (Suc (sqlite_seq db)) name gender symptoms
                                                  dis precs doctor city now]),
                 sqlite_seq := Suc (sqlite_seq db)\<rparr>)"
  by (auto simp: store_patient_history_def Let_def not_le split: sum.splits option.splits if_splits)

lemma store_patient_history_Inl:
  "store_patient_history name gender symptoms dis precautions doctor city now db = Inl e \<Longrightarrow>
   e = TypeError \<or> e = OperationalError \<or> e = SqliteFull"
  by (auto simp: store_patient_history_def py_join_cells_def Let_def
      split: option.splits sum.splits if_splits)

lemma db_inv_initialize: "db_inv db \<Longrightarrow> db_inv (initialize_db db)"
  by (auto simp: db_inv_def initialize_db_def split: option.splits)

text \<open>With AUTOINCREMENT starting from an empty table the rowids are \<open>1, 2, ...\<close>
  up to the counter.\<close>

lemma store_ids:
  assumes "history_table db = Some rows" and "map row_id rows = [1..<Suc (sqlite_seq db)]"
    and "store_patient_history n g s d p doc c now db = Inr db'"
  shows "\<exists>rows'. history_table db' = Some rows' \<and> map row_id rows' = [1..<Suc (sqlite_seq db')]"
  using assms by (auto simp: store_patient_history_Inr)

lemma db_inv_store:
  assumes "db_inv db"
    and "store_patient_history name gender symptoms dis precautions doctor city now db = Inr db'"
  shows "db_inv db'"
proof -
  from assms(2) obtain rows precs where rows: "history_table db = Some rows"
    and lim: "sqlite_seq db < sqlite_max_rowid"
    and db': "db' = db\<lparr>history_table := Some (rows @ [new_row (Suc (sqlite_seq db)) name gender
                 symptoms dis precs doctor city now]), sqlite_seq := Suc (sqlite_seq db)\<rparr>"
    by (auto simp: store_patient_history_Inr)
  from assms(1) rows have "sorted_wrt (<) (map row_id rows)"
    and "\<forall>r \<in> set rows. 0 < row_id r \<and> row_id r \<le> sqlite_seq db"
    by (simp_all add: db_inv_def)
  with lim db' show ?thesis
    by (auto simp: db_inv_def sorted_wrt_append)
qed

lemma store_inv:
  assumes "db_inv db" and "store_patient_history n g s d p doc c now db = Inr db'"
  shows "db_inv db' \<and> history_table db' \<noteq> None"
proof
  show "history_table db' \<noteq> None" using assms(2) by (auto simp: store_patient_history_Inr)
  show "db_inv db'" using assms by (rule db_inv_store)
qed

subsection \<open>The listing query\<close>

lemma sorted_wrt_mset_unique:
  assumes asym: "\<And>a b. R a b \<Longrightarrow> \<not> R b a"
  shows "sorted_wrt R xs \<Longrightarrow> sorted_wrt R ys \<Longrightarrow> mset xs = mset ys \<Longrightarrow> xs = ys"
proof (induction xs arbitrary: ys)
  case Nil
  then show ?case by simp
next
  case (Cons x xs)
  from Cons.prems(3) obtain y ys' where ys: "ys = y # ys'" by (cases ys) auto
  have "x = y"
  proof (rule ccontr)
    assume "x \<noteq> y"
    with Cons.prems(3) ys have "x \<in> set ys'" and "y \<in> set xs"
      by (metis list.set_intros(1) set_ConsD set_mset_mset)+
    with Cons.prems(1,2) ys have "R y x" and "R x y" by simp_all
    with asym show False by blast
  qed
  with Cons.prems ys show ?case using Cons.IH [of ys'] by simp
qed

lemma sorted_desc_distinct_strict:
  "sorted_wrt (\<lambda>a b. f b \<le> f a) xs \<Longrightarrow> distinct (map f xs)
   \<Longrightarrow> sorted_wrt (\<lambda>a b. (f b :: 'b::linorder) < f a) xs"
proof (induction xs)
  case (Cons a xs)
  have "\<forall>x \<in> set xs. f x < f a"
  proof
    fix x assume x: "x \<in> set xs"
    with Cons.prems(1) have "f x \<le> f a" by simp
    moreover from Cons.prems(2) x have "f x \<noteq> f a" by (metis distinct.simps(2) image_eqI list.set_map list.simps(9))
    ultimately show "f x < f a" by simp
  qed
  with Cons show ?case by simp
qed simp

lemma sorted_asc_distinct:
  "sorted_wrt (\<lambda>a b. (f a :: 'b::linorder) < f b) xs \<Longrightarrow> distinct (map f xs)"
  by (induction xs) auto


lemma history_listing_unique:
  assumes "history_table db = Some rows"
    and "sorted_wrt (\<lambda>a b. row_date a < row_date b) rows"
  shows "history_listing db out \<longleftrightarrow> out = rev rows"
proof
  assume out: "history_listing db out"
  with assms(1) have m: "mset out = mset rows"
    and s: "sorted_wrt (\<lambda>a b. row_date b \<le> row_date a) out"
    by (simp_all add: history_listing_def)
  have md: "mset (map row_date out) = mset (map row_date rows)" using m by simp
  have "distinct (map row_date out)"
    using sorted_asc_distinct [OF assms(2)] mset_eq_imp_distinct_iff [OF md] by simp
  with s have s': "sorted_wrt (\<lambda>a b. row_date b < row_date a) out"
    by (rule sorted_desc_distinct_strict)
  have "sorted_wrt (\<lambda>a b. row_date b < row_date a) (rev rows)"
    using assms(2) by (simp add: sorted_wrt_rev)
  with s' m show "out = rev rows"
    by (intro sorted_wrt_mset_unique [where R = "\<lambda>a b. row_date b < row_date a"]) auto
next
  assume "out = rev rows"
  with assms show "history_listing db out"
    by (auto simp: history_listing_def sorted_wrt_rev elim: sorted_wrt_mono_rel [rotated])
qed


lemma get_patient_history_listing:
  assumes "get_patient_history db = Inr out"
  shows "history_listing db out"
proof -
  from assms obtain rows where rows: "history_table db = Some rows"
    and out: "out = rev (sort_key row_date (rev rows))"
    by (auto simp: get_patient_history_def split: option.splits)
  have "sorted (map row_date (sort_key row_date (rev rows)))"
    by (rule sorted_sort_key)
  then have "sorted_wrt (\<lambda>a b. row_date b \<le> row_date a) out"
    by (simp add: out sorted_wrt_rev sorted_map)
  moreover have "mset out = mset rows" by (simp add: out)
  ultimately show ?thesis by (simp add: history_listing_def rows)
qed

lemma last_filter_last:
  assumes "xs \<noteq> []" and "P (last xs)"
  shows "last (filter P xs) = last xs"
proof -
  obtain ys y where "xs = ys @ [y]" using assms(1) by (metis append_butlast_last_id)
  with assms(2) show ?thesis by simp
qed

lemma sort_key_last_not_first:
  assumes "r \<in> set ys" and "f r = f n"
  shows "last (sort_key f (n # ys)) \<in> set ys"
proof -
  let ?S = "sort_key f (n # ys)"
  let ?k = "f (last ?S)"
  have "length ?S = Suc (length ys)" by simp
  then have ne: "?S \<noteq> []" by auto
  have "last ?S \<in> set ?S" by (rule last_in_set [OF ne])
  then have in_xs: "last ?S \<in> set (n # ys)" by (simp only: set_sort)
  show ?thesis
  proof (cases "?k = f n")
    case True
    have "last ?S = last (filter (\<lambda>y. f y = ?k) ?S)"
      using ne by (simp add: last_filter_last)
    also have "\<dots> = last (filter (\<lambda>y. f y = ?k) (n # ys))"
      by (simp only: sort_key_stable)
    also have "\<dots> = last (filter (\<lambda>y. f y = ?k) ys)"
      using assms True by (cases "filter (\<lambda>y. f y = ?k) ys") (auto simp: filter_empty_conv)
    also have "\<dots> \<in> set ys"
    proof -
      have "filter (\<lambda>y. f y = ?k) ys \<noteq> []" using assms True by (auto simp: filter_empty_conv)
      from last_in_set [OF this] show ?thesis by simp
    qed
    finally show ?thesis .
  next
    case False
    then have "last ?S \<noteq> n" by auto
    with in_xs show ?thesis by simp
  qed
qed

lemma listing_head_newest:
  assumes "history_listing db out" and "history_table db = Some (rows @ [r])"
    and "\<forall>x \<in> set rows. row_date x < row_date r"
  shows "out \<noteq> [] \<and> hd out = r"
proof -
  from assms(1,2) have m: "mset out = mset (rows @ [r])"
    and s: "sorted_wrt (\<lambda>a b. row_date b \<le> row_date a) out"
    by (simp_all add: history_listing_def)
  from m have set_out: "set out = insert r (set rows)"
    by (metis mset_eq_setD set_append empty_set list.set(2) Un_insert_right sup_bot.right_neutral)
  then obtain h t where out: "out = h # t" by (cases out) auto
  have "h = r"
  proof (rule ccontr)
    assume hr: "h \<noteq> r"
    with set_out out have "r \<in> set t" and "h \<in> set rows" by auto
    with s out assms(3) show False by fastforce
  qed
  with out show ?thesis by simp
qed


subsection \<open>Properties of the history store\<close>

text \<open>C9: \<^verbatim>\<open>store_patient_history\<close> on an existing table, with precautions that are
  all strings and the AUTOINCREMENT counter below its limit, appends one row carrying the
  next rowid, the given fields, the two \<^verbatim>\<open>', '\<close>-joined lists and the
  \<^verbatim>\<open>%Y-%m-%d %H:%M\<close> timestamp, and advances the counter.\<close>

theorem store_patient_history_success:
  assumes "history_table db = Some rows" and "sqlite_seq db < sqlite_max_rowid"
  shows "store_patient_history name gender symptoms dis (map Str precs) doctor city now db
       = Inr (db\<lparr>history_table := Some (rows @ [new_row (Suc (sqlite_seq db)) name gender symptoms
                                                dis (join_list precs) doctor city now]),
                 sqlite_seq := Suc (sqlite_seq db)\<rparr>)"
  using assms by (simp add: store_patient_history_Inr join_list_def)

theorem store_patient_history_success_witness:
  "history_table \<lparr>history_table = Some [], sqlite_seq = 0\<rparr> = Some []
   \<and> sqlite_seq \<lparr>history_table = Some [], sqlite_seq = 0\<rparr> < sqlite_max_rowid
   \<and> store_patient_history ''Ali'' ''Male'' [''cough'', ''fever''] ''Flu'' (map Str [''rest''])
       ''Dr. X'' ''Lahore'' \<lparr>dt_year = 2025, dt_month = 1, dt_day = 2, dt_hour = 3, dt_minute = 4\<rparr>
       \<lparr>history_table = Some [], sqlite_seq = 0\<rparr>
     = Inr (\<lparr>history_table = Some [], sqlite_seq = 0\<rparr>\<lparr>history_table := Some ([] @
          [new_row (Suc 0) ''Ali'' ''Male'' [''cough'', ''fever''] ''Flu'' (join_list [''rest''])
             ''Dr. X'' ''Lahore'' \<lparr>dt_year = 2025, dt_month = 1, dt_day = 2, dt_hour = 3, dt_minute = 4\<rparr>]),
          sqlite_seq := Suc 0\<rparr>)"
proof -
  have h1: "history_table \<lparr>history_table = Some [], sqlite_seq = 0\<rparr> = Some []" by simp
  have h2: "sqlite_seq \<lparr>history_table = Some [], sqlite_seq = 0\<rparr> < sqlite_max_rowid"
    by (simp add: sqlite_max_rowid_def)
  show ?thesis
    using store_patient_history_success [OF h1 h2, where name = "''Ali''" and gender = "''Male''"
        and symptoms = "[''cough'', ''fever'']" and dis = "''Flu''" and precs = "[''rest'']"
        and doctor = "''Dr. X''" and city = "''Lahore''"
        and now = "\<lparr>dt_year = 2025, dt_month = 1, dt_day = 2, dt_hour = 3, dt_minute = 4\<rparr>"]
      h1 h2
    by simp
qed

text \<open>C3: The error paths of \<^verbatim>\<open>store_patient_history\<close>, and nothing else, raise:
  a \<open>NaN\<close> precaution makes \<^verbatim>\<open>', '.join\<close> raise \<open>TypeError\<close>; otherwise a
  missing table raises \<open>OperationalError\<close>; otherwise an exhausted AUTOINCREMENT
  counter raises \<open>SQLITE_FULL\<close>.  In each case no row is written.\<close>

theorem store_patient_history_errors:
  "store_patient_history name gender symptoms dis precautions doctor city now db = Inl e \<longleftrightarrow>
     (NaN \<in> set precautions \<and> e = TypeError)
   \<or> (NaN \<notin> set precautions \<and> history_table db = None \<and> e = OperationalError)
   \<or> (NaN \<notin> set precautions \<and> history_table db \<noteq> None \<and> sqlite_max_rowid \<le> sqlite_seq db
      \<and> e = SqliteFull)"
  by (auto simp: store_patient_history_def py_join_cells_def cell_strs_None_iff [symmetric]
      Let_def split: option.splits if_splits)

theorem store_patient_history_errors_witness:
  "store_patient_history ''Ali'' ''Male'' [''cough''] ''Flu'' [Str ''rest'', NaN] ''Dr. X'' ''Lahore''
     \<lparr>dt_year = 2025, dt_month = 1, dt_day = 2, dt_hour = 3, dt_minute = 4\<rparr>
     \<lparr>history_table = Some [], sqlite_seq = 0\<rparr> = Inl TypeError"
  using store_patient_history_errors [of "''Ali''" "''Male''" "[''cough'']" "''Flu''"
      "[Str ''rest'', NaN]" "''Dr. X''" "''Lahore''"
      "\<lparr>dt_year = 2025, dt_month = 1, dt_day = 2, dt_hour = 3, dt_minute = 4\<rparr>"
      "\<lparr>history_table = Some [], sqlite_seq = 0\<rparr>" TypeError]
  by simp

text \<open>C7: The database invariant (the counter within SQLite's rowid range, rowids positive,
  strictly increasing in table order and never above the counter) holds after
  \<^verbatim>\<open>initialize_db\<close> and after every successful \<^verbatim>\<open>store_patient_history\<close>.\<close>

theorem db_inv_preserved:
  assumes "db_inv db"
  shows "db_inv (initialize_db db)
         \<and> (store_patient_history name gender symptoms dis precautions doctor city now db = Inr db'
            \<longrightarrow> db_inv db')"
  using assms db_inv_initialize db_inv_store by blast

theorem db_inv_preserved_witness:
  "db_inv \<lparr>history_table = None, sqlite_seq = 0\<rparr>
   \<and> db_inv (initialize_db \<lparr>history_table = None, sqlite_seq = 0\<rparr>)"
proof -
  have h: "db_inv \<lparr>history_table = None, sqlite_seq = 0\<rparr>"
    by (simp add: db_inv_def sqlite_max_rowid_def)
  show ?thesis
    using db_inv_preserved [OF h, of "''A''" "''F''" "[]" "''Flu''" "[]" "''D''" "''Lahore''"
        "\<lparr>dt_year = 2025, dt_month = 1, dt_day = 2, dt_hour = 3, dt_minute = 4\<rparr>"
        "\<lparr>history_table = None, sqlite_seq = 0\<rparr>"] h
    by simp
qed

text \<open>C8: The store is append-only with fresh keys: a successful
  \<^verbatim>\<open>store_patient_history\<close> keeps every existing row in place and adds one row
  whose rowid is larger than every rowid already in the table.\<close>

theorem store_append_only:
  assumes "db_inv db"
    and "store_patient_history name gender symptoms dis precautions doctor city now db = Inr db'"
  shows "\<exists>rows r. history_table db = Some rows \<and> history_table db' = Some (rows @ [r])
           \<and> (\<forall>x \<in> set rows. row_id x < row_id r)"
proof -
  from assms(2) obtain rows precs where rows: "history_table db = Some rows"
    and db': "db' = db\<lparr>history_table := Some (rows @ [new_row (Suc (sqlite_seq db)) name gender
                 symptoms dis precs doctor city now]), sqlite_seq := Suc (sqlite_seq db)\<rparr>"
    by (auto simp: store_patient_history_Inr)
  from assms(1) rows have "\<forall>x \<in> set rows. row_id x \<le> sqlite_seq db"
    by (simp add: db_inv_def)
  with rows db' show ?thesis by fastforce
qed

theorem store_append_only_witness:
  "db_inv \<lparr>history_table = Some [demo_row1], sqlite_seq = 1\<rparr>
   \<and> store_patient_history ''Sara'' ''Female'' [''fever''] ''Flu'' [] ''Dr. Y'' ''Lahore'' demo_time
       \<lparr>history_table = Some [demo_row1], sqlite_seq = 1\<rparr>
     = Inr \<lparr>history_table = Some [demo_row1, demo_row2], sqlite_seq = 2\<rparr>
   \<and> row_id demo_row1 < row_id demo_row2"
proof -
  have h1: "db_inv \<lparr>history_table = Some [demo_row1], sqlite_seq = 1\<rparr>"
    by (simp add: db_inv_def sqlite_max_rowid_def)
  have h2: "store_patient_history ''Sara'' ''Female'' [''fever''] ''Flu'' [] ''Dr. Y'' ''Lahore'' demo_time
       \<lparr>history_table = Some [demo_row1], sqlite_seq = 1\<rparr>
     = Inr \<lparr>history_table = Some [demo_row1, demo_row2], sqlite_seq = 2\<rparr>"
    by (simp add: store_patient_history_def py_join_cells_def sqlite_max_rowid_def join_list_def)
  show ?thesis using store_append_only [OF h1 h2] h1 h2 by simp
qed


text \<open>C16: Newest first: if the new record's timestamp is later than every stored one,
  then after \<^verbatim>\<open>store_patient_history\<close> every admissible result of the listing query
  starts with the record just stored.\<close>

theorem listing_newest_first:
  assumes "history_table db = Some rows"
    and "\<forall>x \<in> set rows. row_date x < strftime_ymdhm now"
    and "store_patient_history name gender symptoms dis precautions doctor city now db = Inr db'"
    and "history_listing db' out"
  shows "\<exists>r. history_table db' = Some (rows @ [r]) \<and> row_date r = strftime_ymdhm now
             \<and> out \<noteq> [] \<and> hd out = r"
proof -
  from assms(1,3) obtain precs where db': "history_table db' = Some (rows @ [new_row
      (Suc (sqlite_seq db)) name gender symptoms dis precs doctor city now])"
    by (auto simp: store_patient_history_Inr)
  with assms(2,4) show ?thesis
    using listing_head_newest [of db' out rows] by auto
qed

theorem listing_newest_first_witness:
  "history_table \<lparr>history_table = Some [demo_row1], sqlite_seq = 1\<rparr> = Some [demo_row1]
   \<and> row_date demo_row1 < strftime_ymdhm demo_time
   \<and> store_patient_history ''Sara'' ''Female'' [''fever''] ''Flu'' [] ''Dr. Y'' ''Lahore'' demo_time
       \<lparr>history_table = Some [demo_row1], sqlite_seq = 1\<rparr>
     = Inr \<lparr>history_table = Some [demo_row1, demo_row2], sqlite_seq = 2\<rparr>
   \<and> history_listing \<lparr>history_table = Some [demo_row1, demo_row2], sqlite_seq = 2\<rparr>
       [demo_row2, demo_row1]
   \<and> hd [demo_row2, demo_row1] = demo_row2"
proof -
  have h1: "history_table \<lparr>history_table = Some [demo_row1], sqlite_seq = 1\<rparr> = Some [demo_row1]"
    by simp
  have h2: "\<forall>x \<in> set [demo_row1]. row_date x < strftime_ymdhm demo_time"
    by code_simp
  have h3: "store_patient_history ''Sara'' ''Female'' [''fever''] ''Flu'' [] ''Dr. Y'' ''Lahore'' demo_time
       \<lparr>history_table = Some [demo_row1], sqlite_seq = 1\<rparr>
     = Inr \<lparr>history_table = Some [demo_row1, demo_row2], sqlite_seq = 2\<rparr>"
    by (simp add: store_patient_history_def py_join_cells_def sqlite_max_rowid_def join_list_def)
  have h4: "history_listing \<lparr>history_table = Some [demo_row1, demo_row2], sqlite_seq = 2\<rparr>
       [demo_row2, demo_row1]"
    using h2 by (simp add: history_listing_def add_mset_commute less_imp_le)
  show ?thesis using listing_newest_first [OF h1 h2 h3 h4] h1 h2 h3 h4 by simp
qed

text \<open>C17: Against the spec's "append then listAll returns the new record first": whenever
  the table already holds a record stamped in the same minute as the clock, the store's new
  record ties with it on the \<^verbatim>\<open>date\<close> text, and some admissible result of
  \<^verbatim>\<open>ORDER BY date DESC\<close> (for instance the stable one) does not list the new record
  first.\<close>

theorem listing_same_minute_tie:
  assumes "db_inv db" and "history_table db = Some rows"
    and "r \<in> set rows" and "row_date r = strftime_ymdhm now"
    and "store_patient_history name gender symptoms dis precautions doctor city now db = Inr db'"
  shows "\<exists>out. history_listing db' out \<and> out \<noteq> [] \<and> row_id (hd out) \<noteq> Suc (sqlite_seq db)"
proof -
  from assms(2,5) obtain precs where db': "history_table db' = Some (rows @ [new_row
      (Suc (sqlite_seq db)) name gender symptoms dis precs doctor city now])"
    by (auto simp: store_patient_history_Inr)
  let ?n = "new_row (Suc (sqlite_seq db)) name gender symptoms dis precs doctor city now"
  let ?out = "rev (sort_key row_date (rev (rows @ [?n])))"
  have "get_patient_history db' = Inr ?out" by (simp add: get_patient_history_def db')
  then have lst: "history_listing db' ?out" by (rule get_patient_history_listing)
  have "r \<in> set (rev rows)" and "row_date r = row_date ?n" using assms(3,4) by simp_all
  from sort_key_last_not_first [OF this] have "hd ?out \<in> set rows"
    by (simp add: hd_rev)
  with assms(1,2) have "row_id (hd ?out) \<le> sqlite_seq db" by (auto simp: db_inv_def)
  then have "row_id (hd ?out) \<noteq> Suc (sqlite_seq db)" by simp
  moreover have "length ?out = Suc (length rows)" by simp
  then have "?out \<noteq> []" by (metis list.size(3) nat.distinct(1))
  ultimately show ?thesis using lst by blast
qed

theorem listing_same_minute_tie_witness:
  "db_inv \<lparr>history_table = Some [demo_row2\<lparr>row_id := 1\<rparr>], sqlite_seq = 1\<rparr>
   \<and> row_date (demo_row2\<lparr>row_id := 1\<rparr>) = strftime_ymdhm demo_time
   \<and> store_patient_history ''Sara'' ''Female'' [''fever''] ''Flu'' [] ''Dr. Y'' ''Lahore'' demo_time
       \<lparr>history_table = Some [demo_row2\<lparr>row_id := 1\<rparr>], sqlite_seq = 1\<rparr>
     = Inr \<lparr>history_table = Some [demo_row2\<lparr>row_id := 1\<rparr>, demo_row2], sqlite_seq = 2\<rparr>
   \<and> (\<exists>out. history_listing \<lparr>history_table = Some [demo_row2\<lparr>row_id := 1\<rparr>, demo_row2], sqlite_seq = 2\<rparr> out
        \<and> out \<noteq> [] \<and> row_id (hd out) \<noteq> 2)"
proof -
  have h1: "db_inv \<lparr>history_table = Some [demo_row2\<lparr>row_id := 1\<rparr>], sqlite_seq = 1\<rparr>"
    by (simp add: db_inv_def sqlite_max_rowid_def)
  have h2: "history_table \<lparr>history_table = Some [demo_row2\<lparr>row_id := 1\<rparr>], sqlite_seq = 1\<rparr>
      = Some [demo_row2\<lparr>row_id := 1\<rparr>]" by simp
  have h3: "demo_row2\<lparr>row_id := 1\<rparr> \<in> set [demo_row2\<lparr>row_id := 1\<rparr>]" by simp
  have h4: "row_date (demo_row2\<lparr>row_id := 1\<rparr>) = strftime_ymdhm demo_time" by simp
  have h5: "store_patient_history ''Sara'' ''Female'' [''fever''] ''Flu'' [] ''Dr. Y'' ''Lahore'' demo_time
       \<lparr>history_table = Some [demo_row2\<lparr>row_id := 1\<rparr>], sqlite_seq = 1\<rparr>
     = Inr \<lparr>history_table = Some [demo_row2\<lparr>row_id := 1\<rparr>, demo_row2], sqlite_seq = 2\<rparr>"
    by (simp add: store_patient_history_def py_join_cells_def sqlite_max_rowid_def join_list_def)
  show ?thesis using listing_same_minute_tie [OF h1 h2 h3 h4 h5] h1 h4 h5 by (simp add: numeral_2_eq_2)
qed

text \<open>C36: The \<^verbatim>\<open>', '\<close>-joined text stored for a non-empty list of symptoms (or
  precautions) determines the list, provided no item contains a comma: the serialisation
  can be split back consistently.\<close>

theorem join_list_injective:
  assumes "\<forall>x \<in> set xs. CHR '','' \<notin> set x" and "\<forall>y \<in> set ys. CHR '','' \<notin> set y"
    and "xs \<noteq> []" and "ys \<noteq> []" and "join_list xs = join_list ys"
  shows "xs = ys"
  using assms py_join_comma_inj by (simp add: join_list_def)

theorem join_list_injective_witness:
  "CHR '','' \<notin> set ''cough'' \<and> CHR '','' \<notin> set ''high fever''
   \<and> join_list [''cough'', ''high fever''] = ''cough, high fever''
   \<and> [''cough'', ''high fever''] = [''cough'', ''high fever'']"
proof -
  have h: "\<forall>x \<in> set [''cough'', ''high fever'']. CHR '','' \<notin> set x" by simp
  have "[''cough'', ''high fever''] = [''cough'', ''high fever'']"
    by (rule join_list_injective [OF h h]) simp_all
  then show ?thesis by (simp add: join_list_def)
qed

end
