(* ===== verification/Precautions.thy ===== *)
theory Precautions
  imports Py_Base
begin

text \<open>
  Precaution resolver, the nested \<^verbatim>\<open>get_precautions\<close> of \<^verbatim>\<open>src/main.py\<close>.  The
  table \<^verbatim>\<open>data/symptom_precaution.csv\<close> is the list of its rows as
  \<^verbatim>\<open>pandas.read_csv\<close> yields them: the disease name and the four precaution cells,
  each a string or \<open>NaN\<close> for an empty field.  The boolean mask
  \<^verbatim>\<open>precautions_df['Disease'].str.lower() == disease_name.lower()\<close> followed by
  \<^verbatim>\<open>.values[0]\<close> takes the first matching row; no match gives \<^verbatim>\<open>[]\<close>.  The lemmas
  show the result has zero or exactly four entries (never "up to four"), is empty exactly
  when no row matches case-insensitively, and otherwise holds the four cells of the first
  matching row, \<open>NaN\<close>s included.
\<close>

record precaution_row =
  pr_disease :: string
  pr_precaution_1 :: cell
  pr_precaution_2 :: cell
  pr_precaution_3 :: cell
  pr_precaution_4 :: cell

definition disease_matches :: "string \<Rightarrow> precaution_row \<Rightarrow> bool" where
  "disease_matches disease_name r \<longleftrightarrow> py_lower (pr_disease r) = py_lower disease_name"

definition row_precautions :: "precaution_row \<Rightarrow> cell list" where
  "row_precautions r = [pr_precaution_1 r, pr_precaution_2 r, pr_precaution_3 r, pr_precaution_4 r]"

definition get_precautions :: "precaution_row list \<Rightarrow> string \<Rightarrow> cell list" where
  "get_precautions precautions_df disease_name =
     (case filter (disease_matches disease_name) precautions_df of
        [] \<Rightarrow> []
      | r # _ \<Rightarrow> row_precautions r)"

lemma get_precautions_Nil_iff:
  "get_precautions t d = [] \<longleftrightarrow> (\<forall>r \<in> set t. \<not> disease_matches d r)"
proof (cases "filter (disease_matches d) t")
  case Nil
  then show ?thesis by (simp add: get_precautions_def filter_empty_conv)
next
  case (Cons r rs)
  then have "r \<in> set (filter (disease_matches d) t)" by simp
  then have "r \<in> set t" and "disease_matches d r" by simp_all
  with Cons show ?thesis by (auto simp: get_precautions_def row_precautions_def)
qed

lemma length_get_precautions: "length (get_precautions t d) \<in> {0, 4}"
  by (simp add: get_precautions_def row_precautions_def split: list.splits)

subsection \<open>Properties of the resolver\<close>

text \<open>C29: \<^verbatim>\<open>get_precautions\<close> returns either no entry or exactly four entries, and
  returns none exactly when no row's disease equals the label case-insensitively.\<close>

theorem get_precautions_shape:
  "(get_precautions t d = [] \<longleftrightarrow> (\<forall>r \<in> set t. py_lower (pr_disease r) \<noteq> py_lower d))
   \<and> length (get_precautions t d) \<in> {0, 4}"
  using length_get_precautions [of t d] get_precautions_Nil_iff [of t d]
  by (auto simp: disease_matches_def)

theorem get_precautions_shape_witness:
  "get_precautions [\<lparr>pr_disease = ''Acne'', pr_precaution_1 = Str ''bath twice'',
       pr_precaution_2 = Str ''avoid fatty food'', pr_precaution_3 = Str ''drink water'',
       pr_precaution_4 = NaN\<rparr>] ''Flu'' = []
   \<and> length (get_precautions [\<lparr>pr_disease = ''Acne'', pr_precaution_1 = Str ''bath twice'',
       pr_precaution_2 = Str ''avoid fatty food'', pr_precaution_3 = Str ''drink water'',
       pr_precaution_4 = NaN\<rparr>] ''ACNE'') = 4"
  using get_precautions_shape [of "[\<lparr>pr_disease = ''Acne'', pr_precaution_1 = Str ''bath twice'',
       pr_precaution_2 = Str ''avoid fatty food'', pr_precaution_3 = Str ''drink water'',
       pr_precaution_4 = NaN\<rparr>]" "''Flu''"]
  by code_simp

text \<open>C30: When several rows match, \<^verbatim>\<open>get_precautions\<close> returns the four cells of the
  first one in table order, whatever the later rows hold.\<close>

theorem get_precautions_first_match:
  assumes "\<forall>x \<in> set pre. py_lower (pr_disease x) \<noteq> py_lower d"
    and "py_lower (pr_disease r) = py_lower d"
  shows "get_precautions (pre @ r # post) d
         = [pr_precaution_1 r, pr_precaution_2 r, pr_precaution_3 r, pr_precaution_4 r]"
  using assms by (simp add: get_precautions_def disease_matches_def row_precautions_def)

theorem get_precautions_first_match_witness:
  "py_lower (pr_disease \<lparr>pr_disease = ''Acne'', pr_precaution_1 = Str ''a'', pr_precaution_2 = Str ''b'',
       pr_precaution_3 = Str ''c'', pr_precaution_4 = NaN\<rparr>) = py_lower ''acne''
   \<and> get_precautions ([] @ \<lparr>pr_disease = ''Acne'', pr_precaution_1 = Str ''a'', pr_precaution_2 = Str ''b'',
       pr_precaution_3 = Str ''c'', pr_precaution_4 = NaN\<rparr>
       # [\<lparr>pr_disease = ''acne'', pr_precaution_1 = Str ''x'', pr_precaution_2 = Str ''y'',
          pr_precaution_3 = Str ''z'', pr_precaution_4 = Str ''w''\<rparr>]) ''acne''
     = [Str ''a'', Str ''b'', Str ''c'', NaN]"
proof -
  have h: "py_lower (pr_disease \<lparr>pr_disease = ''Acne'', pr_precaution_1 = Str ''a'', pr_precaution_2 = Str ''b'',
       pr_precaution_3 = Str ''c'', pr_precaution_4 = NaN\<rparr>) = py_lower ''acne''"
    by code_simp
  have e: "\<forall>x \<in> set []. py_lower (pr_disease x) \<noteq> py_lower ''acne''" by simp
  show ?thesis using get_precautions_first_match [OF e h] h by simp
qed

text \<open>The lookup is case-insensitive in the disease name: lower-casing or upper-casing
  the predicted label does not change the precautions found.\<close>

theorem get_precautions_case_insensitive:
  "get_precautions df (py_lower d) = get_precautions df d
   \<and> get_precautions df (py_upper d) = get_precautions df d"
proof -
  have "disease_matches (py_lower d) = disease_matches d"
    and "disease_matches (py_upper d) = disease_matches d"
    by (simp_all add: fun_eq_iff disease_matches_def)
  then show ?thesis by (simp add: get_precautions_def)
qed

end
