(* ===== verification/Classifier.thy ===== *)
theory Classifier
  imports Py_Base Complex_Main
begin

text \<open>
  Symptom encoder and classifier, \<^verbatim>\<open>src/main.py\<close> lines 20-24 and 168-171.  The two
  artifacts loaded with \<^verbatim>\<open>joblib\<close> are not code of the repository.  The encoder
  (\<^verbatim>\<open>encoder.transform\<close>, scikit-learn's \<^verbatim>\<open>MultiLabelBinarizer\<close> fitted on the
  ordered vocabulary \<^verbatim>\<open>encoder.classes_\<close>) is \<open>mlb_transform\<close>, modelled on that
  library's behaviour: the 0/1 indicator vector over the vocabulary, where a label outside
  it only triggers a warning and is ignored.  The classifier is an interface, the record of
  its two methods, so that
  every lemma holds for any trained model: \<^verbatim>\<open>predict\<close> gives the label and
  \<^verbatim>\<open>predict_proba\<close> the per-class probabilities of the one input row (exact rationals
  standing for the floats).  \<open>classify_request\<close> is lines 168-171: encode, predict, and
  \<^verbatim>\<open>predict_proba(...).max() * 100\<close>, where NumPy's \<^verbatim>\<open>max\<close> of an empty array
  raises \<open>ValueError\<close>.
\<close>

record classifier =
  predict :: "nat list \<Rightarrow> string"
  predict_proba :: "nat list \<Rightarrow> rat list"

definition mlb_transform :: "string list \<Rightarrow> string list \<Rightarrow> nat list" where
  "mlb_transform classes selected = map (\<lambda>c. if c \<in> set selected then 1 else 0) classes"

definition confidence_score :: "classifier \<Rightarrow> nat list \<Rightarrow> rat py_result" where
  "confidence_score model input_vector =
     (case predict_proba model input_vector of
        [] \<Rightarrow> Inl ValueError
      | p # ps \<Rightarrow> Inr (fold max ps p * 100))"

definition classify_request ::
  "classifier \<Rightarrow> string list \<Rightarrow> string list \<Rightarrow> (string \<times> rat \<times> nat list) py_result" where
  "classify_request model all_symptoms selected_symptoms =
     (let input_vector = mlb_transform all_symptoms selected_symptoms;
          predicted_disease = predict model input_vector
      in case confidence_score model input_vector of
           Inl e \<Rightarrow> Inl e
         | Inr c \<Rightarrow> Inr (predicted_disease, c, input_vector))"

definition valid_proba :: "rat list \<Rightarrow> bool" where
  "valid_proba ps \<longleftrightarrow> ps \<noteq> [] \<and> list_all (\<lambda>p. 0 \<le> p \<and> p \<le> 1) ps \<and> sum_list ps = 1"

lemma indicator_sum:
  assumes "distinct classes" and "set selected \<subseteq> set classes"
  shows "sum_list (map (\<lambda>c. if c \<in> set selected then 1 else 0 :: nat) classes) = card (set selected)"
proof -
  have "sum_list (map (\<lambda>c. if c \<in> set selected then 1 else 0 :: nat) classes)
        = (\<Sum>c \<in> set classes. if c \<in> set selected then 1 else 0)"
    using assms(1) by (simp add: sum_list_distinct_conv_sum_set)
  also have "\<dots> = card {c \<in> set classes. c \<in> set selected}"
    by (simp add: sum.inter_filter [symmetric])
  also have "{c \<in> set classes. c \<in> set selected} = set selected"
    using assms(2) by blast
  finally show ?thesis .
qed

lemma confidence_score_Max:
  "confidence_score model v = Inr c \<longleftrightarrow>
   predict_proba model v \<noteq> [] \<and> c = Max (set (predict_proba model v)) * 100"
  by (auto simp: confidence_score_def Max.set_eq_fold [symmetric] split: list.splits)

lemma sum_list_le_length_Max:
  "ps \<noteq> [] \<Longrightarrow> sum_list ps \<le> of_nat (length ps) * Max (set (ps :: rat list))"
proof -
  assume ne: "ps \<noteq> []"
  have "sum_list ps = sum_list (map (\<lambda>p. p) ps)" by simp
  also have "\<dots> \<le> sum_list (map (\<lambda>_. Max (set ps)) ps)"
    by (rule sum_list_mono) simp
  also have "\<dots> = of_nat (length ps) * Max (set ps)"
    by (simp add: sum_list_triv)
  finally show ?thesis .
qed


lemma classify_request_Inr:
  "classify_request model classes selected = Inr (d, c, v) \<longleftrightarrow>
   v = map (\<lambda>c. if c \<in> set selected then 1 else 0) classes
   \<and> d = predict model v \<and> confidence_score model v = Inr c"
  by (auto simp: classify_request_def mlb_transform_def Let_def split: sum.splits)

lemma classify_request_Inl: "classify_request model classes selected = Inl e \<Longrightarrow> e = ValueError"
  by (auto simp: classify_request_def confidence_score_def Let_def split: sum.splits list.splits)

lemma confidence_score_range:
  assumes "confidence_score m v = Inr c" and "valid_proba (predict_proba m v)"
  shows "0 \<le> c \<and> c \<le> 100"
proof -
  let ?ps = "predict_proba m v"
  from assms(1) have ne: "?ps \<noteq> []" and c: "c = Max (set ?ps) * 100"
    by (simp_all add: confidence_score_Max)
  have "Max (set ?ps) \<in> set ?ps" using ne by simp
  with assms(2) have "0 \<le> Max (set ?ps) \<and> Max (set ?ps) \<le> 1"
    by (auto simp: valid_proba_def list_all_iff)
  with c show ?thesis by simp
qed

subsection \<open>Properties of the classification step\<close>

text \<open>C31: With a vocabulary without repetitions and symptoms drawn from it, the vector
  handed to the classifier has one entry per vocabulary item and exactly as many ones as
  distinct symptoms were selected, and the reported disease is the classifier's
  prediction on that vector.\<close>

theorem classify_request_vector:
  assumes "distinct classes" and "set selected \<subseteq> set classes"
    and "classify_request model classes selected = Inr (d, c, v)"
  shows "length v = length classes \<and> sum_list v = card (set selected) \<and> d = predict model v"
  using assms indicator_sum [OF assms(1,2)] by (auto simp: classify_request_Inr)

abbreviation demo_model :: classifier where
  "demo_model \<equiv> \<lparr>predict = (\<lambda>v. ''Flu''), predict_proba = (\<lambda>v. [1/4, 3/4])\<rparr>"

theorem classify_request_vector_witness:
  "distinct [''cough'', ''fever'', ''headache'']
   \<and> set [''fever'', ''cough''] \<subseteq> set [''cough'', ''fever'', ''headache'']
   \<and> classify_request demo_model [''cough'', ''fever'', ''headache''] [''fever'', ''cough'']
     = Inr (''Flu'', 75, [1, 1, 0])
   \<and> sum_list [1, 1, 0 :: nat] = card (set [''fever'', ''cough''])"
proof -
  have h1: "distinct [''cough'', ''fever'', ''headache'']" by simp
  have h2: "set [''fever'', ''cough''] \<subseteq> set [''cough'', ''fever'', ''headache'']" by auto
  have h3: "classify_request demo_model [''cough'', ''fever'', ''headache''] [''fever'', ''cough'']
     = Inr (''Flu'', 75, [1, 1, 0])"
    by (simp add: classify_request_def mlb_transform_def confidence_score_def)
  show ?thesis using classify_request_vector [OF h1 h2 h3] h1 h2 h3 by simp
qed

text \<open>C32: The classification step fails only when the model returns no class
  probabilities (\<open>ValueError\<close> from \<^verbatim>\<open>max\<close> of an empty array).  A selected label
  outside the vocabulary raises nothing: the encoder ignores it, so the request is classified
  as if only the known labels had been selected (the spec's \<open>UnknownSymptom\<close> never
  occurs).\<close>

theorem classify_request_errors:
  "(classify_request model classes selected = Inl e \<longleftrightarrow>
      predict_proba model (mlb_transform classes selected) = [] \<and> e = ValueError)
   \<and> classify_request model classes selected
       = classify_request model classes (filter (\<lambda>s. s \<in> set classes) selected)"
proof -
  have "mlb_transform classes (filter (\<lambda>s. s \<in> set classes) selected) = mlb_transform classes selected"
    by (simp add: mlb_transform_def)
  then show ?thesis
    by (auto simp: classify_request_def confidence_score_def Let_def split: sum.splits list.splits)
qed

text \<open>C33: When the model returns a probability distribution (non-empty, entries in
  \<open>[0, 1]\<close>, summing to 1), the confidence shown and written into the report lies between
  \<open>100 / k\<close> for \<open>k\<close> classes and 100: the code never clamps, and needs no clamp.\<close>

theorem confidence_bounds:
  assumes "confidence_score model v = Inr c" and "valid_proba (predict_proba model v)"
  shows "100 / of_nat (length (predict_proba model v)) \<le> c \<and> c \<le> 100"
proof -
  let ?ps = "predict_proba model v"
  from assms(1) have ne: "?ps \<noteq> []" and c: "c = Max (set ?ps) * 100"
    by (simp_all add: confidence_score_Max)
  from assms(2) have bnd: "\<forall>p \<in> set ?ps. 0 \<le> p \<and> p \<le> 1" and sum: "sum_list ?ps = 1"
    by (simp_all add: valid_proba_def list_all_iff)
  have "Max (set ?ps) \<in> set ?ps" using ne by simp
  with bnd have le1: "Max (set ?ps) \<le> 1" by blast
  have len: "0 < (of_nat (length ?ps) :: rat)" using ne by simp
  have "1 \<le> of_nat (length ?ps) * Max (set ?ps)"
    using sum_list_le_length_Max [OF ne] sum by simp
  then have "1 / of_nat (length ?ps) \<le> Max (set ?ps)"
    by (simp add: pos_divide_le_eq [OF len] mult.commute)
  then have "100 * (1 / of_nat (length ?ps)) \<le> 100 * Max (set ?ps)"
    by (rule mult_left_mono) simp
  then have "100 / of_nat (length ?ps) \<le> Max (set ?ps) * 100"
    by (simp add: mult.commute)
  with le1 c show ?thesis by simp
qed

theorem confidence_bounds_witness:
  "confidence_score demo_model [1, 1, 0] = Inr 75 \<and> valid_proba (predict_proba demo_model [1, 1, 0])
   \<and> 100 / 2 \<le> (75::rat) \<and> (75::rat) \<le> 100"
proof -
  have h1: "confidence_score demo_model [1, 1, 0] = Inr 75" by (simp add: confidence_score_def)
  have h2: "valid_proba (predict_proba demo_model [1, 1, 0])" by (simp add: valid_proba_def)
  show ?thesis using confidence_bounds [OF h1 h2] h1 h2 by simp
qed

end
