(* ===== verification/Report.thy ===== *)
theory Report
  imports Timestamp Complex_Main
begin

text \<open>
  Report generator, \<^verbatim>\<open>generate_pdf\<close> of \<^verbatim>\<open>src/main.py\<close> (lines 76-137).  The
  FPDF document is the list of layout calls the function makes, in order
  (\<open>pdf_op\<close>, one constructor per FPDF method it calls), so that the report's content is
  a function of the arguments.  The effects are explicit: the only branch is
  \<^verbatim>\<open>os.path.exists(logo_path)\<close>, an input; \<^verbatim>\<open>datetime.today()\<close> is an input;
  \<^verbatim>\<open>tempfile.NamedTemporaryFile(delete=False)\<close> leaves a file holding the PDF in the
  temporary directory, which is the state \<open>tmp_state\<close> (the list of leftover report
  files); the returned HTML link embeds the document.  \<^verbatim>\<open>f"{x:.2f}"\<close> is
  \<open>fmt_2f\<close>: the exact value of the float rounded half-to-even at two decimals, with
  Python's sign rule.  A precaution cell is printed with \<^verbatim>\<open>f"- {p}"\<close>, so a
  \<open>NaN\<close> cell would print \<open>"nan"\<close>.
\<close>

datatype align = AlignLeft | AlignCenter

datatype pdf_op =
    AddPage
  | Image string nat nat nat
  | Ln nat
  | SetFont string string nat
  | SetTextColor nat nat nat
  | Cell nat nat string bool align
  | MultiCell nat nat string

record tmp_state =
  tmp_files :: "pdf_op list list"

definition round_half_even :: "rat \<Rightarrow> int" where
  "round_half_even q =
     (let n = \<lfloor>q\<rfloor>; f = q - of_int n
      in if f < 1/2 then n else if 1/2 < f then n + 1 else if even n then n else n + 1)"

definition fmt_2f :: "rat \<Rightarrow> string" where
  "fmt_2f x =
     (let k = nat (round_half_even (\<bar>x\<bar> * 100))
      in (if x < 0 then ''-'' else '''') @ show_nat (k div 100) @ ''.'' @ zpad 2 (k mod 100))"

definition month_name :: "nat \<Rightarrow> string" where
  "month_name m = [''January'', ''February'', ''March'', ''April'', ''May'', ''June'', ''July'',
     ''August'', ''September'', ''October'', ''November'', ''December''] ! (m - 1)"

definition strftime_dBY :: "datetime \<Rightarrow> string" where
  "strftime_dBY t = zpad 2 (dt_day t) @ '' '' @ month_name (dt_month t) @ '', '' @ zpad 4 (dt_year t)"

fun cell_text :: "cell \<Rightarrow> string" where
  "cell_text (Str s) = s"
| "cell_text NaN = ''nan''"

definition generate_pdf ::
  "bool \<Rightarrow> datetime \<Rightarrow> string \<Rightarrow> nat \<Rightarrow> string \<Rightarrow> string \<Rightarrow> string \<Rightarrow> rat \<Rightarrow> string list
   \<Rightarrow> cell list \<Rightarrow> string \<Rightarrow> pdf_op list" where
  "generate_pdf logo_exists today name age gender city disease confidence symptoms precautions doctor =
     [AddPage]
     @ (if logo_exists then [Image ''app/logo.png'' 80 10 50] else [])
     @ [Ln 50,
        SetFont ''Arial'' ''B'' 16, SetTextColor 0 51 102,
        Cell 0 10 ''MediVision AI - Health Report'' True AlignCenter,
        SetFont ''Arial'' '''' 11, SetTextColor 100 100 100,
        Cell 0 10 (''Date: '' @ strftime_dBY today) True AlignCenter,
        Ln 10,
        SetFont ''Arial'' ''B'' 12, SetTextColor 0 0 0,
        Cell 0 10 (''Patient Name: '' @ name) True AlignLeft,
        Cell 0 10 (''Age: '' @ show_nat age) True AlignLeft,
        Cell 0 10 (''Gender: '' @ gender) True AlignLeft,
        Cell 0 10 (''City: '' @ city) True AlignLeft,
        Ln 5,
        SetFont ''Arial'' ''B'' 13,
        Cell 0 10 (''Predicted Disease: '' @ disease) True AlignLeft,
        SetFont ''Arial'' '''' 11,
        Cell 0 10 (''Confidence: '' @ fmt_2f confidence @ ''%'') True AlignLeft,
        Ln 5,
        SetFont ''Arial'' ''B'' 12,
        Cell 0 10 ''Symptoms:'' True AlignLeft,
        SetFont ''Arial'' '''' 11]
     @ map (\<lambda>s. Cell 0 8 (''- '' @ s) True AlignLeft) symptoms
     @ [Ln 5,
        SetFont ''Arial'' ''B'' 12,
        Cell 0 10 ''Precautions:'' True AlignLeft,
        SetFont ''Arial'' '''' 11]
     @ map (\<lambda>p. Cell 0 8 (''- '' @ cell_text p) True AlignLeft) precautions
     @ [Ln 5,
        SetFont ''Arial'' ''B'' 12,
        Cell 0 10 ''Recommended Doctor:'' True AlignLeft,
        SetFont ''Arial'' '''' 11,
        MultiCell 0 8 doctor]"

text \<open>The text a reader sees: the strings of the cells, in order.\<close>

fun op_text :: "pdf_op \<Rightarrow> string list" where
  "op_text (Cell w h s nl al) = [s]"
| "op_text (MultiCell w h s) = [s]"
| "op_text _ = []"

definition report_text :: "pdf_op list \<Rightarrow> string list" where
  "report_text doc = concat (map op_text doc)"

text \<open>PyFPDF 1.7 keeps the text of the cells as \<open>str\<close> and encodes the finished page as
  Latin-1 in \<^verbatim>\<open>pdf.output\<close> (line 128), with the core Arial font; a text outside
  Latin-1 raises \<open>UnicodeEncodeError\<close> there.\<close>

definition pdf_text_ok :: "pdf_op list \<Rightarrow> bool" where
  "pdf_text_ok doc \<longleftrightarrow> list_all latin1_text (report_text doc)"

text \<open>The temporary file (lines 127-137): \<^verbatim>\<open>NamedTemporaryFile(delete=False)\<close> creates it,
  \<^verbatim>\<open>pdf.output\<close> writes the document into it and the link embeds it; it is never
  deleted.  When \<^verbatim>\<open>pdf.output\<close> raises, the file stays behind empty (written as the
  empty document \<open>[]\<close>; a rendered document always starts with \<open>AddPage\<close>).\<close>

definition save_report ::
  "pdf_op list \<Rightarrow> tmp_state \<Rightarrow> (py_exc \<times> tmp_state) + (pdf_op list \<times> tmp_state)" where
  "save_report doc tmp =
     (if pdf_text_ok doc then Inr (doc, tmp\<lparr>tmp_files := tmp_files tmp @ [doc]\<rparr>)
      else Inl (UnicodeEncodeError, tmp\<lparr>tmp_files := tmp_files tmp @ [[]]\<rparr>))"

fun is_image :: "pdf_op \<Rightarrow> bool" where
  "is_image (Image p x y w) = True"
| "is_image _ = False"


lemma report_text_append [simp]: "report_text (xs @ ys) = report_text xs @ report_text ys"
  by (simp add: report_text_def)

lemma report_text_Nil [simp]: "report_text [] = []"
  by (simp add: report_text_def)

lemma report_text_Cons [simp]: "report_text (op # ops) = op_text op @ report_text ops"
  by (simp add: report_text_def)

lemma report_text_cells [simp]:
  "report_text (map (\<lambda>x. Cell w h (f x) nl al) xs) = map f xs"
  by (induction xs) simp_all

lemma report_text_fields:
  "(''Patient Name: '' @ name) \<in> set (report_text (generate_pdf l t name a g c d conf s p doc))
   \<and> (''Predicted Disease: '' @ d) \<in> set (report_text (generate_pdf l t name a g c d conf s p doc))
   \<and> doc \<in> set (report_text (generate_pdf l t name a g c d conf s p doc))"
  by (simp add: generate_pdf_def del: fmt_2f_def strftime_dBY_def)

lemma round_half_even_int [simp]: "round_half_even (of_int k) = k"
  by (simp add: round_half_even_def)

lemma round_half_even_nat [simp]: "round_half_even (of_nat k) = int k"
  using round_half_even_int [of "int k"] by simp

lemma round_half_even_bounds:
  assumes "0 \<le> q" and "q \<le> of_int m"
  shows "0 \<le> round_half_even q \<and> round_half_even q \<le> m"
proof (cases "\<lfloor>q\<rfloor> = m")
  case True
  then have "q - of_int \<lfloor>q\<rfloor> = 0" using assms(2) by linarith
  with True assms(1) show ?thesis by (simp add: round_half_even_def Let_def)
next
  case False
  have "\<lfloor>q\<rfloor> \<le> m" using assms(2) by (simp add: floor_le_iff)
  with False have "\<lfloor>q\<rfloor> + 1 \<le> m" by simp
  moreover have "0 \<le> \<lfloor>q\<rfloor>" using assms(1) by simp
  ultimately show ?thesis by (simp add: round_half_even_def Let_def)
qed

text \<open>A value in \<open>[0, 100]\<close> prints as at most \<open>"100.00"\<close>, with no sign.\<close>

lemma fmt_2f_range:
  assumes "0 \<le> x" and "x \<le> 100"
  shows "\<exists>k \<le> 10000. fmt_2f x = show_nat (k div 100) @ ''.'' @ zpad 2 (k mod 100)"
proof -
  have "0 \<le> \<bar>x\<bar> * 100" and "\<bar>x\<bar> * 100 \<le> of_int 10000" using assms by simp_all
  from round_half_even_bounds [OF this]
  have "nat (round_half_even (\<bar>x\<bar> * 100)) \<le> 10000" by (simp add: nat_le_iff)
  moreover have "\<not> x < 0" using assms(1) by simp
  ultimately show ?thesis by (auto simp: fmt_2f_def Let_def)
qed

lemma is_ascii_fmt_2f [simp]: "is_ascii (fmt_2f x)"
  by (simp add: fmt_2f_def Let_def)

lemma is_ascii_month_name: "1 \<le> m \<Longrightarrow> m \<le> 12 \<Longrightarrow> is_ascii (month_name m)"
proof -
  assume "1 \<le> m" and "m \<le> 12"
  then have i: "m - 1 < 12" by simp
  let ?ms = "[''January'', ''February'', ''March'', ''April'', ''May'', ''June'', ''July'',
     ''August'', ''September'', ''October'', ''November'', ''December'']"
  have mem: "month_name m \<in> set ?ms"
    unfolding month_name_def by (rule nth_mem) (use i in simp)
  have "\<forall>s \<in> set ?ms. is_ascii s" by simp
  with mem show ?thesis by blast
qed

lemma latin1_text_ascii_prefix: "is_ascii xs \<Longrightarrow> latin1_text (xs @ ys) \<longleftrightarrow> latin1_text ys"
  by (induction xs) simp_all

text \<open>The generated report encodes as Latin-1 when every text passed in does.\<close>

lemma generate_pdf_text_ok:
  assumes "1 \<le> dt_month today" and "dt_month today \<le> 12"
    and "latin1_text name" and "latin1_text gender" and "latin1_text city"
    and "latin1_text disease" and "latin1_text doctor"
    and "\<forall>s \<in> set symptoms. latin1_text s" and "\<forall>p \<in> set precautions. latin1_text (cell_text p)"
  shows "pdf_text_ok (generate_pdf logo today name age gender city disease conf symptoms precautions doctor)"
proof -
  have "is_ascii (strftime_dBY today)"
    using is_ascii_month_name [OF assms(1,2)] by (simp add: strftime_dBY_def)
  then show ?thesis
    using assms(3-9)
    by (auto simp: pdf_text_ok_def generate_pdf_def list_all_iff latin1_text_ascii_prefix ascii_latin1)
qed

text \<open>A patient name outside Latin-1 makes the report fail to encode.\<close>

lemma generate_pdf_name_not_latin1:
  "\<not> latin1_text name \<Longrightarrow>
   \<not> pdf_text_ok (generate_pdf logo today name age gender city disease conf symptoms precautions doctor)"
proof
  assume n: "\<not> latin1_text name"
    and ok: "pdf_text_ok (generate_pdf logo today name age gender city disease conf symptoms precautions doctor)"
  have mem: "(''Patient Name: '' @ name)
      \<in> set (report_text (generate_pdf logo today name age gender city disease conf symptoms precautions doctor))"
    using report_text_fields by blast
  have "latin1_text (''Patient Name: '' @ name) = latin1_text name"
    by (rule latin1_text_ascii_prefix) simp
  with n mem ok show False by (auto simp: pdf_text_ok_def list_all_iff)
qed

subsection \<open>Properties of the report\<close>

text \<open>C27: The text of the report, read top to bottom, is the fixed title, the date, the
  four patient fields, the disease, the confidence with two decimals and a per-cent sign,
  the heading "Symptoms:" and one "- " line per symptom, the heading "Precautions:" and
  one "- " line per precaution cell, and the doctor.  Both headings are printed even when
  their list is empty.\<close>

theorem report_text_layout:
  "report_text (generate_pdf logo today name age gender city disease confidence symptoms
                  precautions doctor)
   = [''MediVision AI - Health Report'', ''Date: '' @ strftime_dBY today,
      ''Patient Name: '' @ name, ''Age: '' @ show_nat age, ''Gender: '' @ gender,
      ''City: '' @ city, ''Predicted Disease: '' @ disease,
      ''Confidence: '' @ fmt_2f confidence @ ''%'', ''Symptoms:'']
     @ map (\<lambda>s. ''- '' @ s) symptoms
     @ [''Precautions:'']
     @ map (\<lambda>p. ''- '' @ cell_text p) precautions
     @ [''Recommended Doctor:'', doctor]"
  by (simp add: generate_pdf_def)

text \<open>C28: A missing logo file never makes the report fail: the document generated without
  the logo is the one generated with it, minus the image call, and the text is the same.\<close>

theorem report_logo_optional:
  "filter (\<lambda>op. \<not> is_image op)
      (generate_pdf True today name age gender city disease confidence symptoms precautions doctor)
   = generate_pdf False today name age gender city disease confidence symptoms precautions doctor
   \<and> report_text (generate_pdf True today name age gender city disease confidence symptoms
                   precautions doctor)
     = report_text (generate_pdf False today name age gender city disease confidence symptoms
                   precautions doctor)"
  by (simp add: generate_pdf_def filter_map o_def)

end
