(* ===== verification/App.thy ===== *)
theory App
  imports Doctors History Precautions Classifier Report
begin

text \<open>
  The prediction request handler, \<^verbatim>\<open>src/main.py\<close> lines 164-198, with the
  start-up of \<^verbatim>\<open>src/backend/patient_data.py\<close> (line 102, \<^verbatim>\<open>initialize_db()\<close> on
  import).  The process-wide inputs (the two artifacts, the precaution table, whether the
  logo file exists, and the clock readings of the request) are the record \<open>app_env\<close>;
  the form is \<open>form_input\<close>; the state that outlives a request is the database and the
  temporary directory (\<open>app_state\<close>).  \<open>predict_handler\<close> is one press of the button,
  with the elements it puts on the page (\<open>ui_elem\<close>), and \<open>predict_click\<close> its
  outcome and new state:
  the guard \<^verbatim>\<open>if not patient_name or not selected_symptoms\<close>, then encode and
  classify, resolve precautions and doctor, store the history row, render the report, in
  the code's order; an exception at any step ends the Streamlit run, which is the outcome
  \<open>Failed\<close>.  Before the store it leaves the state as it was (those steps write
  nothing).  The only step after the store that can raise is the report's
  \<^verbatim>\<open>pdf.output\<close> (\<open>save_report\<close>): a text outside Latin-1 gives \<open>UnicodeEncodeError\<close>
  after the row was committed and the empty temporary file was created.  \<open>is_stored\<close>
  and \<open>leftover_files\<close> read off an outcome whether a row was stored and which files
  were left.
  \<open>app_reachable\<close> is the set of states a running app can be in, and \<open>run_clicks\<close>
  a sequence of requests.
\<close>

record app_env =
  model :: classifier
  all_symptoms :: "string list"
  precautions_df :: "precaution_row list"
  logo_exists :: bool
  clock_now :: datetime
  clock_today :: datetime

record form_input =
  patient_name :: string
  age :: nat
  gender :: string
  city :: string
  selected_symptoms :: "string list"

record app_state =
  db :: db_state
  tmp :: tmp_state

datatype outcome =
    ValidationWarning
  | Failed py_exc
  | Reported string rat "cell list" string "pdf_op list"

definition ui_cities :: "string list" where
  "ui_cities = [''Lahore'', ''Gujranwala'', ''Islamabad'', ''Rawalpindi'', ''Karachi'', ''Other'']"

text \<open>The values the form's widgets can produce: \<^verbatim>\<open>st.number_input\<close> between 1 and
  120, the three radio options, the six cities, and a multiselect over
  \<^verbatim>\<open>sorted(all_symptoms)\<close> (distinct labels of the vocabulary).\<close>

definition widget_form :: "string list \<Rightarrow> form_input \<Rightarrow> bool" where
  "widget_form vocab inp \<longleftrightarrow>
     1 \<le> age inp \<and> age inp \<le> 120 \<and> gender inp \<in> set [''Male'', ''Female'', ''Other'']
     \<and> city inp \<in> set ui_cities \<and> distinct (selected_symptoms inp)
     \<and> set (selected_symptoms inp) \<subseteq> set (sort vocab)"

definition app_start :: "db_state \<Rightarrow> tmp_state \<Rightarrow> app_state" where
  "app_start d t = \<lparr>db = initialize_db d, tmp = t\<rparr>"

text \<open>Importing the backend (\<^verbatim>\<open>main.py\<close> line 17) runs \<^verbatim>\<open>initialize_db()\<close>, whose
  \<^verbatim>\<open>sqlite3.connect\<close> opens the hard-coded file
  \<^verbatim>\<open>D:/ML Projects/diseases_predictor/data/patient_history.db\<close>: it raises
  \<open>OperationalError\<close> unless that directory exists, and the script stops there.\<close>

definition app_import :: "bool \<Rightarrow> db_state \<Rightarrow> tmp_state \<Rightarrow> app_state py_result" where
  "app_import db_dir_exists d t = (if db_dir_exists then Inr (app_start d t) else Inl OperationalError)"

datatype ui_elem =
    Warning string
  | Success string
  | Markdown string
  | Write string
  | Info string
  | DownloadLink "pdf_op list"
  | Exception py_exc
  | PageConfig string string
  | Html string
  | Sidebar "ui_elem list"
  | BarChart "(string \<times> nat) list"
  | Columns "ui_elem list" "ui_elem list"
  | TextInput string
  | NumberInput string nat nat nat
  | Radio string "string list"
  | Selectbox string "string list"
  | Multiselect string "string list"
  | Button string

definition utf8 :: "nat list \<Rightarrow> string" where
  "utf8 bs = map char_of bs"

definition precautions_heading :: string where
  "precautions_heading = ''### '' @ utf8 [240, 159, 155, 161, 239, 184, 143] @ '' Recommended Precautions:''"

definition doctor_heading :: string where
  "doctor_heading =
     ''### '' @ utf8 [240, 159, 145, 168, 226, 128, 141, 226, 154, 149, 239, 184, 143] @ '' Recommended Doctor:''"

definition report_heading :: string where
  "report_heading = ''### '' @ utf8 [240, 159, 147, 132] @ '' Download Full Report:''"

definition success_msg :: "string \<Rightarrow> rat \<Rightarrow> string" where
  "success_msg predicted_disease conf_score =
     utf8 [226, 156, 133] @ '' **'' @ predicted_disease @ ''** detected with **''
     @ fmt_2f conf_score @ ''%** confidence.''"

fun enum_lines :: "nat \<Rightarrow> cell list \<Rightarrow> ui_elem list" where
  "enum_lines i [] = []"
| "enum_lines i (p # ps) = Write (show_nat i @ ''. '' @ cell_text p) # enum_lines (Suc i) ps"

definition predict_handler :: "app_env \<Rightarrow> form_input \<Rightarrow> app_state \<Rightarrow> ui_elem list \<times> outcome \<times> app_state" where
  "predict_handler env inp st =
     (if patient_name inp = [] \<or> selected_symptoms inp = []
      then ([Warning ''Please enter your name and select symptoms.''], ValidationWarning, st)
      else
        (case classify_request (model env) (all_symptoms env) (selected_symptoms inp) of
           Inl e \<Rightarrow> ([Exception e], Failed e, st)
         | Inr (predicted_disease, conf_score, input_vector) \<Rightarrow>
             (let shown_prediction = [Success (success_msg predicted_disease conf_score)];
                  precautions = get_precautions (precautions_df env) predicted_disease;
                  shown_precautions = Markdown precautions_heading # enum_lines 1 precautions;
                  doctor = recommend_doctor predicted_disease (city inp);
                  shown_doctor = [Markdown doctor_heading, Info doctor];
                  shown = shown_prediction @ shown_precautions @ shown_doctor
              in case store_patient_history (patient_name inp) (gender inp) (selected_symptoms inp)
                        predicted_disease precautions doctor (city inp) (clock_now env) (db st) of
                   Inl e \<Rightarrow> (shown @ [Exception e], Failed e, st)
                 | Inr db' \<Rightarrow>
                     (let shown_report = shown @ [Markdown ''---'', Markdown report_heading]
                      in case save_report (generate_pdf (logo_exists env) (clock_today env)
                                (patient_name inp) (age inp) (gender inp) (city inp) predicted_disease
                                conf_score (selected_symptoms inp) precautions doctor) (tmp st) of
                           Inl (e, tmp') \<Rightarrow> (shown_report @ [Exception e], Failed e, \<lparr>db = db', tmp = tmp'\<rparr>)
                         | Inr (pdf_button, tmp') \<Rightarrow>
                             (shown_report @ [DownloadLink pdf_button],
                              Reported predicted_disease conf_score precautions doctor pdf_button,
                              \<lparr>db = db', tmp = tmp'\<rparr>)))))"

definition predict_click :: "app_env \<Rightarrow> form_input \<Rightarrow> app_state \<Rightarrow> outcome \<times> app_state" where
  "predict_click env inp st = snd (predict_handler env inp st)"

definition screen_of :: "app_env \<Rightarrow> form_input \<Rightarrow> app_state \<Rightarrow> ui_elem list" where
  "screen_of env inp st = fst (predict_handler env inp st)"
text \<open>A request stored its row when it reported, or when only the report failed to
  encode; every stored request leaves one temporary file, the report or an empty one.\<close>

fun is_stored :: "outcome \<Rightarrow> bool" where
  "is_stored (Reported d c p doc r) = True"
| "is_stored (Failed UnicodeEncodeError) = True"
| "is_stored _ = False"

fun leftover_files :: "outcome \<Rightarrow> pdf_op list list" where
  "leftover_files (Reported d c p doc r) = [r]"
| "leftover_files (Failed UnicodeEncodeError) = [[]]"
| "leftover_files _ = []"

fun run_clicks :: "(app_env \<times> form_input) list \<Rightarrow> app_state \<Rightarrow> outcome list \<times> app_state" where
  "run_clicks [] st = ([], st)"
| "run_clicks ((env, inp) # reqs) st =
     (let (out, st') = predict_click env inp st;
          (outs, st'') = run_clicks reqs st'
      in (out # outs, st''))"

inductive app_reachable :: "app_state \<Rightarrow> bool" where
  start: "db_inv d \<Longrightarrow> app_reachable (app_start d t)"
| click: "app_reachable st \<Longrightarrow> predict_click env inp st = (out, st') \<Longrightarrow> app_reachable st'"

abbreviation demo_df :: "precaution_row list" where
  "demo_df \<equiv> [\<lparr>pr_disease = ''Flu'', pr_precaution_1 = Str ''rest'', pr_precaution_2 = Str ''fluids'',
      pr_precaution_3 = Str ''paracetamol'', pr_precaution_4 = NaN\<rparr>]"

abbreviation demo_env :: app_env where
  "demo_env \<equiv> \<lparr>model = demo_model, all_symptoms = [''cough'', ''fever'', ''headache''],
     precautions_df = demo_df, logo_exists = True, clock_now = demo_time, clock_today = demo_time\<rparr>"

abbreviation demo_state :: app_state where
  "demo_state \<equiv> \<lparr>db = \<lparr>history_table = Some [], sqlite_seq = 0\<rparr>, tmp = \<lparr>tmp_files = []\<rparr>\<rparr>"

abbreviation demo_form :: "string list \<Rightarrow> form_input" where
  "demo_form syms \<equiv> \<lparr>patient_name = ''Ali'', age = 30, gender = ''Male'', city = ''Lahore'',
     selected_symptoms = syms\<rparr>"

subsection \<open>Shape of one request\<close>

text \<open>The outcome and the new state of a request, without the screen.\<close>

lemma predict_click_eq:
  "predict_click env inp st =
     (if patient_name inp = [] \<or> selected_symptoms inp = [] then (ValidationWarning, st)
      else
        (case classify_request (model env) (all_symptoms env) (selected_symptoms inp) of
           Inl e \<Rightarrow> (Failed e, st)
         | Inr (predicted_disease, conf_score, input_vector) \<Rightarrow>
             (let precautions = get_precautions (precautions_df env) predicted_disease;
                  doctor = recommend_doctor predicted_disease (city inp)
              in case store_patient_history (patient_name inp) (gender inp) (selected_symptoms inp)
                        predicted_disease precautions doctor (city inp) (clock_now env) (db st) of
                   Inl e \<Rightarrow> (Failed e, st)
                 | Inr db' \<Rightarrow>
                     (case save_report (generate_pdf (logo_exists env) (clock_today env)
                              (patient_name inp) (age inp) (gender inp) (city inp) predicted_disease
                              conf_score (selected_symptoms inp) precautions doctor) (tmp st) of
                        Inl (e, tmp') \<Rightarrow> (Failed e, \<lparr>db = db', tmp = tmp'\<rparr>)
                      | Inr (pdf_button, tmp') \<Rightarrow>
                          (Reported predicted_disease conf_score precautions doctor pdf_button,
                           \<lparr>db = db', tmp = tmp'\<rparr>)))))"
  by (simp add: predict_click_def predict_handler_def Let_def split: sum.split prod.split)

text \<open>The four ways a request ends: the warning, a failure before the store (nothing
  written), a report, or a report that fails to encode after the row was stored.\<close>

lemma predict_click_cases:
  "predict_click env inp st = (out, st') \<Longrightarrow>
   (out = ValidationWarning \<and> st' = st)
   \<or> (\<exists>e. out = Failed e \<and> e \<noteq> UnicodeEncodeError \<and> st' = st)
   \<or> (\<exists>d c v p doc r db'. classify_request (model env) (all_symptoms env) (selected_symptoms inp)
          = Inr (d, c, v)
        \<and> p = get_precautions (precautions_df env) d \<and> doc = recommend_doctor d (city inp)
        \<and> store_patient_history (patient_name inp) (gender inp) (selected_symptoms inp) d p doc
            (city inp) (clock_now env) (db st) = Inr db'
        \<and> r = generate_pdf (logo_exists env) (clock_today env) (patient_name inp) (age inp)
              (gender inp) (city inp) d c (selected_symptoms inp) p doc
        \<and> pdf_text_ok r \<and> out = Reported d c p doc r
        \<and> st' = \<lparr>db = db', tmp = \<lparr>tmp_files = tmp_files (tmp st) @ [r]\<rparr>\<rparr>)
   \<or> (\<exists>d c v p doc r db'. classify_request (model env) (all_symptoms env) (selected_symptoms inp)
          = Inr (d, c, v)
        \<and> p = get_precautions (precautions_df env) d \<and> doc = recommend_doctor d (city inp)
        \<and> store_patient_history (patient_name inp) (gender inp) (selected_symptoms inp) d p doc
            (city inp) (clock_now env) (db st) = Inr db'
        \<and> r = generate_pdf (logo_exists env) (clock_today env) (patient_name inp) (age inp)
              (gender inp) (city inp) d c (selected_symptoms inp) p doc
        \<and> \<not> pdf_text_ok r \<and> out = Failed UnicodeEncodeError
        \<and> st' = \<lparr>db = db', tmp = \<lparr>tmp_files = tmp_files (tmp st) @ [[]]\<rparr>\<rparr>)"
  by (auto simp: predict_click_eq save_report_def Let_def split: if_splits sum.splits prod.splits
      dest: classify_request_Inl store_patient_history_Inl)

lemma predict_click_reported:
  assumes "patient_name inp \<noteq> []" and "selected_symptoms inp \<noteq> []"
    and "classify_request (model env) (all_symptoms env) (selected_symptoms inp) = Inr (d, c, v)"
    and "store_patient_history (patient_name inp) (gender inp) (selected_symptoms inp) d
           (get_precautions (precautions_df env) d) (recommend_doctor d (city inp))
           (city inp) (clock_now env) (db st) = Inr db'"
    and "pdf_text_ok (generate_pdf (logo_exists env) (clock_today env) (patient_name inp) (age inp)
           (gender inp) (city inp) d c (selected_symptoms inp)
           (get_precautions (precautions_df env) d) (recommend_doctor d (city inp)))"
  shows "predict_click env inp st =
           (Reported d c (get_precautions (precautions_df env) d) (recommend_doctor d (city inp))
              (generate_pdf (logo_exists env) (clock_today env) (patient_name inp) (age inp)
                 (gender inp) (city inp) d c (selected_symptoms inp)
                 (get_precautions (precautions_df env) d) (recommend_doctor d (city inp))),
            \<lparr>db = db', tmp = \<lparr>tmp_files = tmp_files (tmp st) @ [generate_pdf (logo_exists env)
                 (clock_today env) (patient_name inp) (age inp) (gender inp) (city inp) d c
                 (selected_symptoms inp) (get_precautions (precautions_df env) d)
                 (recommend_doctor d (city inp))]\<rparr>\<rparr>)"
  using assms by (simp add: predict_click_eq save_report_def Let_def)

text \<open>A request of the demo form on an empty table, with no precaution row for the
  predicted disease, produces a report.\<close>

lemma demo_click_reported:
  "\<exists>d c p doc r st'. predict_click (demo_env\<lparr>precautions_df := []\<rparr>) (demo_form [''cough'']) demo_state
      = (Reported d c p doc r, st')"
proof -
  let ?e = "demo_env\<lparr>precautions_df := []\<rparr>"
  have cl: "classify_request (model ?e) (all_symptoms ?e) (selected_symptoms (demo_form [''cough'']))
      = Inr (''Flu'', 75, [1, 0, 0])"
    by (simp add: classify_request_def mlb_transform_def confidence_score_def)
  obtain db' where st: "store_patient_history (patient_name (demo_form [''cough'']))
      (gender (demo_form [''cough''])) (selected_symptoms (demo_form [''cough''])) ''Flu''
      (get_precautions (precautions_df ?e) ''Flu'') (recommend_doctor ''Flu'' (city (demo_form [''cough''])))
      (city (demo_form [''cough''])) (clock_now ?e) (db demo_state) = Inr db'"
    by (simp add: store_patient_history_Inr get_precautions_def py_join_cells_def sqlite_max_rowid_def)
  have doc: "latin1_text (recommend_doctor ''Flu'' ''Lahore'')" by code_simp
  have ok: "pdf_text_ok (generate_pdf (logo_exists ?e) (clock_today ?e) (patient_name (demo_form [''cough'']))
      (age (demo_form [''cough''])) (gender (demo_form [''cough''])) (city (demo_form [''cough''])) ''Flu'' 75
      (selected_symptoms (demo_form [''cough''])) (get_precautions (precautions_df ?e) ''Flu'')
      (recommend_doctor ''Flu'' (city (demo_form [''cough'']))))"
    by (rule generate_pdf_text_ok) (use doc in \<open>simp_all add: get_precautions_def\<close>)
  show ?thesis using predict_click_reported [OF _ _ cl st ok] by simp
qed

lemma predict_handler_store_Inl:
  assumes "patient_name inp \<noteq> []" and "selected_symptoms inp \<noteq> []"
    and "classify_request (model env) (all_symptoms env) (selected_symptoms inp) = Inr (d, c, v)"
    and "store_patient_history (patient_name inp) (gender inp) (selected_symptoms inp) d
           (get_precautions (precautions_df env) d) (recommend_doctor d (city inp))
           (city inp) (clock_now env) (db st) = Inl e"
  shows "predict_handler env inp st =
           (Success (success_msg d c) # Markdown precautions_heading
              # enum_lines 1 (get_precautions (precautions_df env) d)
              @ [Markdown doctor_heading, Info (recommend_doctor d (city inp)), Exception e],
            Failed e, st)"
  using assms by (simp add: predict_handler_def Let_def)

lemma predict_handler_render_failure:
  assumes "patient_name inp \<noteq> []" and "selected_symptoms inp \<noteq> []"
    and "classify_request (model env) (all_symptoms env) (selected_symptoms inp) = Inr (d, c, v)"
    and "store_patient_history (patient_name inp) (gender inp) (selected_symptoms inp) d
           (get_precautions (precautions_df env) d) (recommend_doctor d (city inp))
           (city inp) (clock_now env) (db st) = Inr db'"
    and "\<not> latin1_text (patient_name inp)"
  shows "predict_handler env inp st =
           (Success (success_msg d c) # Markdown precautions_heading
              # enum_lines 1 (get_precautions (precautions_df env) d)
              @ [Markdown doctor_heading, Info (recommend_doctor d (city inp)),
                 Markdown ''---'', Markdown report_heading, Exception UnicodeEncodeError],
            Failed UnicodeEncodeError,
            \<lparr>db = db', tmp = \<lparr>tmp_files = tmp_files (tmp st) @ [[]]\<rparr>\<rparr>)"
  using assms generate_pdf_name_not_latin1 [OF assms(5)]
  by (simp add: predict_handler_def save_report_def Let_def)

lemma demo_cough_classified:
  "classify_request demo_model [''cough'', ''fever'', ''headache''] [''cough''] = Inr (''Flu'', 75, [1, 0, 0])"
  by (simp add: classify_request_def mlb_transform_def confidence_score_def)

lemma demo_store_ok:
  "\<exists>db'. store_patient_history n ''Male'' [''cough''] ''Flu'' [] doc ''Lahore'' demo_time
      \<lparr>history_table = Some [], sqlite_seq = 0\<rparr> = Inr db'"
  by (simp add: store_patient_history_Inr py_join_cells_def sqlite_max_rowid_def)

lemma urdu_name_not_latin1: "\<not> latin1_text (utf8 [216, 185, 217, 132, 219, 140])"
  by (simp add: utf8_def)

text \<open>The demo request with the patient's name written in Urdu script (U+0639 U+0644 U+06CC).\<close>

lemma demo_click_render_failure:
  "\<exists>st'. predict_click (demo_env\<lparr>precautions_df := []\<rparr>)
      ((demo_form [''cough''])\<lparr>patient_name := utf8 [216, 185, 217, 132, 219, 140]\<rparr>) demo_state
      = (Failed UnicodeEncodeError, st')"
proof -
  obtain db' where st: "store_patient_history (utf8 [216, 185, 217, 132, 219, 140]) ''Male'' [''cough''] ''Flu'' []
      (recommend_doctor ''Flu'' ''Lahore'') ''Lahore'' demo_time \<lparr>history_table = Some [], sqlite_seq = 0\<rparr> = Inr db'"
    using demo_store_ok by blast
  let ?i = "(demo_form [''cough''])\<lparr>patient_name := utf8 [216, 185, 217, 132, 219, 140]\<rparr>"
  have "snd (predict_handler (demo_env\<lparr>precautions_df := []\<rparr>) ?i demo_state)
      = (Failed UnicodeEncodeError, \<lparr>db = db', tmp = \<lparr>tmp_files = [[]]\<rparr>\<rparr>)"
    using predict_handler_render_failure [where inp = ?i and env = "demo_env\<lparr>precautions_df := []\<rparr>"
        and d = "''Flu''" and c = 75 and v = "[1, 0, 0]" and st = demo_state and db' = db']
      demo_cough_classified st urdu_name_not_latin1
    by (simp add: get_precautions_def utf8_def)
  then show ?thesis by (auto simp: predict_click_def)
qed

lemma ui_city_doctor_ascii: "c \<in> set ui_cities \<Longrightarrow> is_ascii (recommend_doctor d c)"
proof -
  have "\<forall>c \<in> set ui_cities. is_ascii (city_norm c)" by code_simp
  then show "c \<in> set ui_cities \<Longrightarrow> is_ascii (recommend_doctor d c)"
    by (blast intro: recommend_doctor_ascii)
qed

text \<open>A form of the widgets, with Latin-1 name, vocabulary, disease and precautions and a
  valid date, gives a report PyFPDF can encode.\<close>

lemma widget_form_text_ok:
  assumes "widget_form (all_symptoms env) inp" and "valid_datetime (clock_today env)"
    and "latin1_text (patient_name inp)" and "latin1_text d"
    and "\<forall>s \<in> set (all_symptoms env). latin1_text s"
    and "\<forall>p \<in> set (get_precautions (precautions_df env) d). latin1_text (cell_text p)"
  shows "pdf_text_ok (generate_pdf (logo_exists env) (clock_today env) (patient_name inp) (age inp)
           (gender inp) (city inp) d c (selected_symptoms inp)
           (get_precautions (precautions_df env) d) (recommend_doctor d (city inp)))"
proof (rule generate_pdf_text_ok)
  show "1 \<le> dt_month (clock_today env)" and "dt_month (clock_today env) \<le> 12"
    using assms(2) by (simp_all add: valid_datetime_def)
  show "latin1_text (gender inp)" and "latin1_text (city inp)"
    using assms(1) by (auto simp: widget_form_def ui_cities_def)
  show "latin1_text (recommend_doctor d (city inp))"
    using assms(1) ui_city_doctor_ascii ascii_latin1 by (auto simp: widget_form_def)
  show "\<forall>s \<in> set (selected_symptoms inp). latin1_text s"
    using assms(1,5) by (auto simp: widget_form_def)
qed (use assms in simp_all)

lemma enum_lines_length [simp]: "length (enum_lines i ps) = length ps"
  by (induction ps arbitrary: i) simp_all

lemma DownloadLink_notin_enum_lines [simp]: "DownloadLink r \<notin> set (enum_lines i ps)"
  by (induction ps arbitrary: i) simp_all

lemma enum_lines_nth:
  "j < length ps \<Longrightarrow> enum_lines i ps ! j = Write (show_nat (i + j) @ ''. '' @ cell_text (ps ! j))"
  by (induction ps arbitrary: i j) (auto simp: nth_Cons split: nat.splits)

lemma predict_click_db_inv:
  assumes "db_inv (db st)" and "history_table (db st) \<noteq> None"
    and "predict_click env inp st = (out, st')"
  shows "db_inv (db st') \<and> history_table (db st') \<noteq> None"
  using predict_click_cases [OF assms(3)]
proof (elim disjE exE conjE)
  fix d c v p doc r db'
  assume store: "store_patient_history (patient_name inp) (gender inp) (selected_symptoms inp) d p doc
            (city inp) (clock_now env) (db st) = Inr db'"
    and st': "st' = \<lparr>db = db', tmp = \<lparr>tmp_files = tmp_files (tmp st) @ [r]\<rparr>\<rparr>"
  show ?thesis using store_inv [OF assms(1) store] st' by simp
next
  fix d c v p doc r db'
  assume store: "store_patient_history (patient_name inp) (gender inp) (selected_symptoms inp) d p doc
            (city inp) (clock_now env) (db st) = Inr db'"
    and st': "st' = \<lparr>db = db', tmp = \<lparr>tmp_files = tmp_files (tmp st) @ [[]]\<rparr>\<rparr>"
  show ?thesis using store_inv [OF assms(1) store] st' by simp
qed (use assms in simp_all)

lemma app_reachable_inv:
  "app_reachable st \<Longrightarrow> db_inv (db st) \<and> history_table (db st) \<noteq> None"
proof (induction rule: app_reachable.induct)
  case (start d t)
  then show ?case
    using db_inv_initialize [OF start] by (auto simp: app_start_def initialize_db_def split: option.splits)
next
  case (click st env inp out st')
  then show ?case using predict_click_db_inv by blast
qed

lemma early_failure [simp]:
  "e \<noteq> UnicodeEncodeError \<Longrightarrow> \<not> is_stored (Failed e) \<and> leftover_files (Failed e) = []"
  by (cases e) simp_all

lemma predict_click_growth:
  assumes "predict_click env inp st = (out, st')" and "history_table (db st) = Some rows"
  shows "\<exists>new. history_table (db st') = Some (rows @ new)
           \<and> length new = (if is_stored out then 1 else 0)
           \<and> (\<forall>x \<in> set new. row_date x = strftime_ymdhm (clock_now env))
           \<and> tmp_files (tmp st') = tmp_files (tmp st) @ leftover_files out"
  using predict_click_cases [OF assms(1)]
proof (elim disjE exE conjE)
  fix d c v p doc r db'
  assume store: "store_patient_history (patient_name inp) (gender inp) (selected_symptoms inp) d p doc
            (city inp) (clock_now env) (db st) = Inr db'"
    and out: "out = Reported d c p doc r"
    and st': "st' = \<lparr>db = db', tmp = \<lparr>tmp_files = tmp_files (tmp st) @ [r]\<rparr>\<rparr>"
  from store assms(2) obtain row where "history_table db' = Some (rows @ [row])"
    and "row_date row = strftime_ymdhm (clock_now env)"
    by (auto simp: store_patient_history_Inr)
  with out st' show ?thesis by auto
next
  fix d c v p doc r db'
  assume store: "store_patient_history (patient_name inp) (gender inp) (selected_symptoms inp) d p doc
            (city inp) (clock_now env) (db st) = Inr db'"
    and out: "out = Failed UnicodeEncodeError"
    and st': "st' = \<lparr>db = db', tmp = \<lparr>tmp_files = tmp_files (tmp st) @ [[]]\<rparr>\<rparr>"
  from store assms(2) obtain row where "history_table db' = Some (rows @ [row])"
    and "row_date row = strftime_ymdhm (clock_now env)"
    by (auto simp: store_patient_history_Inr)
  with out st' show ?thesis by auto
qed (use assms(2) in auto)

lemma run_clicks_growth:
  "run_clicks reqs st = (outs, st') \<Longrightarrow> history_table (db st) = Some rows \<Longrightarrow>
   \<exists>new. history_table (db st') = Some (rows @ new) \<and> length new = length (filter is_stored outs)
     \<and> (\<forall>x \<in> set new. \<exists>e \<in> set (map fst reqs). row_date x = strftime_ymdhm (clock_now e))
     \<and> tmp_files (tmp st') = tmp_files (tmp st) @ concat (map leftover_files outs)"
proof (induction reqs arbitrary: st rows outs)
  case Nil
  then show ?case by simp
next
  case (Cons req reqs)
  obtain env inp where req: "req = (env, inp)" by (cases req)
  obtain out st1 where one: "predict_click env inp st = (out, st1)"
    by (cases "predict_click env inp st")
  obtain outs1 where rest: "run_clicks reqs st1 = (outs1, st')" and outs: "outs = out # outs1"
    using Cons.prems(1) by (auto simp: req one split: prod.splits)
  from predict_click_growth [OF one Cons.prems(2)] obtain new1 where
    n1: "history_table (db st1) = Some (rows @ new1)"
    and l1: "length new1 = (if is_stored out then 1 else 0)"
    and d1: "\<forall>x \<in> set new1. row_date x = strftime_ymdhm (clock_now env)"
    and t1: "tmp_files (tmp st1) = tmp_files (tmp st) @ leftover_files out"
    by blast
  from Cons.IH [OF rest n1] obtain new2 where
    n2: "history_table (db st') = Some ((rows @ new1) @ new2)"
    and l2: "length new2 = length (filter is_stored outs1)"
    and d2: "\<forall>x \<in> set new2. \<exists>e \<in> set (map fst reqs). row_date x = strftime_ymdhm (clock_now e)"
    and t2: "tmp_files (tmp st') = tmp_files (tmp st1) @ concat (map leftover_files outs1)"
    by blast
  show ?case
    by (rule exI [of _ "new1 @ new2"]) (use n2 l1 l2 d1 d2 t1 t2 outs req in auto)
qed

lemma sorted_wrt_le_one: "length xs \<le> 1 \<Longrightarrow> sorted_wrt R xs"
  by (cases xs) auto

lemma predict_click_ids:
  assumes "predict_click env inp st = (out, st')" and "history_table (db st) = Some rows"
    and "map row_id rows = [1..<Suc (sqlite_seq (db st))]"
  shows "\<exists>rows'. history_table (db st') = Some rows' \<and> map row_id rows' = [1..<Suc (sqlite_seq (db st'))]"
  using predict_click_cases [OF assms(1)] assms(2,3) store_ids by fastforce

lemma run_clicks_ids:
  "run_clicks reqs st = (outs, st') \<Longrightarrow> history_table (db st) = Some rows \<Longrightarrow>
   map row_id rows = [1..<Suc (sqlite_seq (db st))] \<Longrightarrow>
   \<exists>rows'. history_table (db st') = Some rows' \<and> map row_id rows' = [1..<Suc (sqlite_seq (db st'))]"
proof (induction reqs arbitrary: st rows outs)
  case Nil
  then show ?case by simp
next
  case (Cons req reqs)
  obtain env inp where req: "req = (env, inp)" by (cases req)
  obtain out st1 where one: "predict_click env inp st = (out, st1)"
    by (cases "predict_click env inp st")
  obtain outs1 where rest: "run_clicks reqs st1 = (outs1, st')"
    using Cons.prems(1) by (auto simp: req one split: prod.splits)
  from predict_click_ids [OF one Cons.prems(2,3)] obtain rows1 where
    "history_table (db st1) = Some rows1" and "map row_id rows1 = [1..<Suc (sqlite_seq (db st1))]"
    by blast
  from Cons.IH [OF rest this] show ?case .
qed

lemma run_clicks_sorted:
  "run_clicks reqs st = (outs, st') \<Longrightarrow> history_table (db st) = Some rows \<Longrightarrow>
   sorted_wrt (\<lambda>a b. row_date a < row_date b) rows \<Longrightarrow>
   (\<forall>r \<in> set rows. \<forall>e \<in> set reqs. row_date r < strftime_ymdhm (clock_now (fst e))) \<Longrightarrow>
   (\<forall>e \<in> set reqs. valid_datetime (clock_now (fst e))) \<Longrightarrow>
   sorted_wrt (\<lambda>e1 e2. dt_key (clock_now (fst e1)) < dt_key (clock_now (fst e2))) reqs \<Longrightarrow>
   \<exists>rows'. history_table (db st') = Some rows' \<and> sorted_wrt (\<lambda>a b. row_date a < row_date b) rows'"
proof (induction reqs arbitrary: st rows outs)
  case Nil
  then show ?case by simp
next
  case (Cons req reqs)
  obtain env inp where req: "req = (env, inp)" by (cases req)
  obtain out st1 where one: "predict_click env inp st = (out, st1)"
    by (cases "predict_click env inp st")
  obtain outs1 where rest: "run_clicks reqs st1 = (outs1, st')"
    using Cons.prems(1) by (auto simp: req one split: prod.splits)
  from predict_click_growth [OF one Cons.prems(2)] obtain new1 where
    n1: "history_table (db st1) = Some (rows @ new1)"
    and l1: "length new1 \<le> 1"
    and d1: "\<forall>x \<in> set new1. row_date x = strftime_ymdhm (clock_now env)"
    by (auto split: if_splits)
  have old_lt: "\<forall>r \<in> set rows. row_date r < strftime_ymdhm (clock_now env)"
    using Cons.prems(4) req by auto
  have sorted1: "sorted_wrt (\<lambda>a b. row_date a < row_date b) (rows @ new1)"
    using Cons.prems(3) sorted_wrt_le_one [OF l1] old_lt d1 by (auto simp: sorted_wrt_append)
  have later: "\<forall>e \<in> set reqs. strftime_ymdhm (clock_now env) < strftime_ymdhm (clock_now (fst e))"
  proof
    fix e assume e: "e \<in> set reqs"
    have "valid_datetime (clock_now env)" and "valid_datetime (clock_now (fst e))"
      using Cons.prems(5) e req by auto
    moreover have "dt_key (clock_now env) < dt_key (clock_now (fst e))"
      using Cons.prems(6) e req by auto
    ultimately show "strftime_ymdhm (clock_now env) < strftime_ymdhm (clock_now (fst e))"
      by (simp add: strftime_ymdhm_less_iff)
  qed
  have bound1: "\<forall>r \<in> set (rows @ new1). \<forall>e \<in> set reqs. row_date r < strftime_ymdhm (clock_now (fst e))"
    using Cons.prems(4) later d1 by auto
  show ?case
    using Cons.IH [OF rest n1 sorted1 bound1] Cons.prems(5,6) by simp
qed

subsection \<open>Properties of the request handler\<close>

text \<open>C5: A press of the button with an empty name or no selected symptom only shows the
  warning: the state (history and temporary files) is unchanged, and the outcome does not
  depend on the classifier, which is never consulted.\<close>

theorem predict_click_validation:
  assumes "patient_name inp = [] \<or> selected_symptoms inp = []"
  shows "predict_click env inp st = (ValidationWarning, st)
         \<and> predict_click (env\<lparr>model := m\<rparr>) inp st = predict_click env inp st"
  using assms by (auto simp: predict_click_eq)

theorem predict_click_validation_witness:
  "predict_click demo_env (demo_form []) demo_state = (ValidationWarning, demo_state)
   \<and> predict_click (demo_env\<lparr>model := \<lparr>predict = (\<lambda>v. ''Migraine''), predict_proba = (\<lambda>v. [])\<rparr>\<rparr>)
       (demo_form []) demo_state
     = predict_click demo_env (demo_form []) demo_state"
  using predict_click_validation [of "demo_form []" demo_env demo_state
      "\<lparr>predict = (\<lambda>v. ''Migraine''), predict_proba = (\<lambda>v. [])\<rparr>"]
  by simp

text \<open>C4: A request that fails changes nothing when it fails before the store: no history
  row is written and no temporary file is left. The one failure after the store is PyFPDF's
  \<open>UnicodeEncodeError\<close> at \<^verbatim>\<open>pdf.output\<close>: then exactly one row, with the patient's
  name, has been committed and one empty temporary file is left behind.\<close>

theorem predict_click_failure_effects:
  assumes "predict_click env inp st = (Failed e, st')"
  shows "(e \<noteq> UnicodeEncodeError \<longrightarrow> st' = st)
         \<and> (e = UnicodeEncodeError \<longrightarrow>
              (\<exists>rows row. history_table (db st) = Some rows
                 \<and> history_table (db st') = Some (rows @ [row]) \<and> row_name row = patient_name inp)
              \<and> tmp_files (tmp st') = tmp_files (tmp st) @ [[]])"
  using predict_click_cases [OF assms]
proof (elim disjE exE conjE)
  fix d c v p doc r db'
  assume store: "store_patient_history (patient_name inp) (gender inp) (selected_symptoms inp) d p doc
            (city inp) (clock_now env) (db st) = Inr db'"
    and out: "Failed e = Failed UnicodeEncodeError"
    and st': "st' = \<lparr>db = db', tmp = \<lparr>tmp_files = tmp_files (tmp st) @ [[]]\<rparr>\<rparr>"
  from store obtain rows precs where "history_table (db st) = Some rows"
    and "history_table db' = Some (rows @ [new_row (Suc (sqlite_seq (db st))) (patient_name inp)
           (gender inp) (selected_symptoms inp) d precs doc (city inp) (clock_now env)])"
    by (auto simp: store_patient_history_Inr)
  with out st' show ?thesis by auto
qed auto

theorem predict_click_failure_effects_witness:
  "\<exists>st'. predict_click (demo_env\<lparr>precautions_df := []\<rparr>)
      ((demo_form [''cough''])\<lparr>patient_name := utf8 [216, 185, 217, 132, 219, 140]\<rparr>) demo_state
      = (Failed UnicodeEncodeError, st')
    \<and> (\<exists>row. history_table (db st') = Some [row]) \<and> tmp_files (tmp st') = [[]]"
proof -
  obtain st' where eq: "predict_click (demo_env\<lparr>precautions_df := []\<rparr>)
      ((demo_form [''cough''])\<lparr>patient_name := utf8 [216, 185, 217, 132, 219, 140]\<rparr>) demo_state
      = (Failed UnicodeEncodeError, st')"
    using demo_click_render_failure by blast
  show ?thesis using predict_click_failure_effects [OF eq] eq by auto
qed

text \<open>C14: Code bug: a patient name outside Latin-1 (any non-Latin script) passes the
  validation, is classified and stored, and only then makes PyFPDF raise
  \<open>UnicodeEncodeError\<close> at \<^verbatim>\<open>pdf.output\<close>: the history holds the row, the page shows the
  prediction and the exception and no download link, and an empty temporary file is left.\<close>

theorem nonlatin_name_partial_record:
  assumes "patient_name inp \<noteq> []" and "selected_symptoms inp \<noteq> []"
    and "classify_request (model env) (all_symptoms env) (selected_symptoms inp) = Inr (d, c, v)"
    and "store_patient_history (patient_name inp) (gender inp) (selected_symptoms inp) d
           (get_precautions (precautions_df env) d) (recommend_doctor d (city inp))
           (city inp) (clock_now env) (db st) = Inr db'"
    and "\<not> latin1_text (patient_name inp)"
  shows "predict_click env inp st
           = (Failed UnicodeEncodeError, \<lparr>db = db', tmp = \<lparr>tmp_files = tmp_files (tmp st) @ [[]]\<rparr>\<rparr>)
         \<and> Success (success_msg d c) \<in> set (screen_of env inp st)
         \<and> last (screen_of env inp st) = Exception UnicodeEncodeError
         \<and> (\<forall>r. DownloadLink r \<notin> set (screen_of env inp st))"
  using predict_handler_render_failure [OF assms] by (auto simp: screen_of_def predict_click_def)

theorem nonlatin_name_partial_record_witness:
  "\<exists>db'. predict_click (demo_env\<lparr>precautions_df := []\<rparr>)
      ((demo_form [''cough''])\<lparr>patient_name := utf8 [216, 185, 217, 132, 219, 140]\<rparr>) demo_state
      = (Failed UnicodeEncodeError, \<lparr>db = db', tmp = \<lparr>tmp_files = [[]]\<rparr>\<rparr>)
    \<and> history_table db' \<noteq> Some []"
proof -
  obtain db' where st: "store_patient_history (utf8 [216, 185, 217, 132, 219, 140]) ''Male'' [''cough''] ''Flu'' []
      (recommend_doctor ''Flu'' ''Lahore'') ''Lahore'' demo_time \<lparr>history_table = Some [], sqlite_seq = 0\<rparr> = Inr db'"
    using demo_store_ok by blast
  have ne: "history_table db' \<noteq> Some []" using st by (auto simp: store_patient_history_Inr)
  have "predict_click (demo_env\<lparr>precautions_df := []\<rparr>)
      ((demo_form [''cough''])\<lparr>patient_name := utf8 [216, 185, 217, 132, 219, 140]\<rparr>) demo_state
      = (Failed UnicodeEncodeError, \<lparr>db = db', tmp = \<lparr>tmp_files = [[]]\<rparr>\<rparr>)"
    using nonlatin_name_partial_record [where inp = "(demo_form [''cough''])\<lparr>patient_name := utf8 [216, 185, 217, 132, 219, 140]\<rparr>"
        and env = "demo_env\<lparr>precautions_df := []\<rparr>" and d = "''Flu''" and c = 75 and v = "[1, 0, 0]"
        and st = demo_state and db' = db'] demo_cough_classified st urdu_name_not_latin1
    by (simp add: get_precautions_def utf8_def)
  with ne show ?thesis by blast
qed

text \<open>C1: A request that produces a report has appended exactly one history row (with the
  patient's name and city, the predicted disease, the recommended doctor and the clock's
  timestamp) and left exactly that report as one more temporary file; its precautions
  contain no \<open>NaN\<close>, and its doctor is \<^verbatim>\<open>recommend_doctor\<close> of the disease and
  city.\<close>

theorem predict_click_success:
  assumes "predict_click env inp st = (Reported d c p doc r, st')"
  shows "\<exists>rows row. history_table (db st) = Some rows \<and> history_table (db st') = Some (rows @ [row])
           \<and> row_name row = patient_name inp \<and> row_city row = city inp
           \<and> row_predicted_disease row = d \<and> row_doctor row = doc
           \<and> row_date row = strftime_ymdhm (clock_now env)
           \<and> tmp_files (tmp st') = tmp_files (tmp st) @ [r]
           \<and> NaN \<notin> set p \<and> doc = recommend_doctor d (city inp)"
proof -
  from predict_click_cases [OF assms] obtain v db' where
    p: "p = get_precautions (precautions_df env) d" and doc: "doc = recommend_doctor d (city inp)"
    and store: "store_patient_history (patient_name inp) (gender inp) (selected_symptoms inp) d p doc
            (city inp) (clock_now env) (db st) = Inr db'"
    and st': "st' = \<lparr>db = db', tmp = \<lparr>tmp_files = tmp_files (tmp st) @ [r]\<rparr>\<rparr>"
    by auto
  from store obtain rows precs where rows: "history_table (db st) = Some rows"
    and j: "py_join_cells '', '' p = Inr precs"
    and db': "history_table db' = Some (rows @ [new_row (Suc (sqlite_seq (db st))) (patient_name inp)
                 (gender inp) (selected_symptoms inp) d precs doc (city inp) (clock_now env)])"
    by (auto simp: store_patient_history_Inr)
  from j have "NaN \<notin> set p"
    by (auto simp: py_join_cells_def cell_strs_None_iff [symmetric] split: option.splits)
  with rows db' st' doc show ?thesis by auto
qed

theorem predict_click_success_witness:
  "\<exists>d c p doc r st'. predict_click (demo_env\<lparr>precautions_df := []\<rparr>) (demo_form [''cough'']) demo_state
      = (Reported d c p doc r, st')
    \<and> (\<exists>row. history_table (db st') = Some [row] \<and> row_name row = ''Ali''
         \<and> row_city row = ''Lahore'' \<and> row_predicted_disease row = d
         \<and> row_date row = strftime_ymdhm demo_time)
    \<and> tmp_files (tmp st') = [r]"
proof -
  obtain d c p doc r st' where eq: "predict_click (demo_env\<lparr>precautions_df := []\<rparr>)
      (demo_form [''cough'']) demo_state = (Reported d c p doc r, st')"
    using demo_click_reported by blast
  show ?thesis using predict_click_success [OF eq] eq by auto
qed

text \<open>C2: Code bug: when the predicted disease's row in the precaution table has an empty
  cell (read by pandas as \<open>NaN\<close>), the request fails with \<open>TypeError\<close> in
  \<^verbatim>\<open>store_patient_history\<close>: nothing is stored and no report is produced, although
  prediction, precautions and doctor were all computed.\<close>

theorem nan_precaution_blocks_report:
  assumes "patient_name inp \<noteq> []" and "selected_symptoms inp \<noteq> []"
    and "classify_request (model env) (all_symptoms env) (selected_symptoms inp) = Inr (d, c, v)"
    and "NaN \<in> set (get_precautions (precautions_df env) d)"
  shows "predict_click env inp st = (Failed TypeError, st)"
  using assms by (simp add: predict_click_eq store_patient_history_def py_join_cells_NaN)

theorem nan_precaution_blocks_report_witness:
  "classify_request (model demo_env) (all_symptoms demo_env) [''fever''] = Inr (''Flu'', 75, [0, 1, 0])
   \<and> NaN \<in> set (get_precautions (precautions_df demo_env) ''Flu'')
   \<and> predict_click demo_env (demo_form [''fever'']) demo_state = (Failed TypeError, demo_state)"
proof -
  have h3: "classify_request (model demo_env) (all_symptoms demo_env)
      (selected_symptoms (demo_form [''fever''])) = Inr (''Flu'', 75, [0, 1, 0])"
    by (simp add: classify_request_def mlb_transform_def confidence_score_def)
  have h4: "NaN \<in> set (get_precautions (precautions_df demo_env) ''Flu'')"
    by code_simp
  have "predict_click demo_env (demo_form [''fever'']) demo_state = (Failed TypeError, demo_state)"
    by (rule nan_precaution_blocks_report [OF _ _ h3 h4]) simp_all
  with h3 h4 show ?thesis by simp
qed

text \<open>C6: In every state a running app can reach (start-up on any database that satisfies
  the invariant, then any sequence of requests) the history table exists and the database
  invariant holds, so \<^verbatim>\<open>store_patient_history\<close> never meets a missing table.\<close>

theorem app_reachable_db_inv:
  "app_reachable st \<Longrightarrow> db_inv (db st) \<and> history_table (db st) \<noteq> None"
  by (rule app_reachable_inv)

theorem app_reachable_db_inv_witness:
  "app_reachable (app_start \<lparr>history_table = None, sqlite_seq = 0\<rparr> \<lparr>tmp_files = []\<rparr>)
   \<and> history_table (db (app_start \<lparr>history_table = None, sqlite_seq = 0\<rparr> \<lparr>tmp_files = []\<rparr>)) = Some []"
proof -
  have r: "app_reachable (app_start \<lparr>history_table = None, sqlite_seq = 0\<rparr> \<lparr>tmp_files = []\<rparr>)"
    by (rule app_reachable.start) (simp add: db_inv_def sqlite_max_rowid_def)
  show ?thesis using app_reachable_db_inv [OF r] r by (simp add: app_start_def initialize_db_def)
qed

text \<open>C10: Progress: in every reachable state, a form of the page's widgets whose
  symptoms the model classifies, whose disease has no empty precaution cell, whose rowid
  counter is below SQLite's bound, and whose texts PyFPDF can encode (Latin-1 name,
  vocabulary, disease and precautions, and a valid date) always gets its report: the
  request cannot fail later in the handler.\<close>

theorem predict_click_progress:
  assumes "app_reachable st" and "widget_form (all_symptoms env) inp"
    and "patient_name inp \<noteq> []" and "selected_symptoms inp \<noteq> []"
    and "classify_request (model env) (all_symptoms env) (selected_symptoms inp) = Inr (d, c, v)"
    and "NaN \<notin> set (get_precautions (precautions_df env) d)"
    and "sqlite_seq (db st) < sqlite_max_rowid"
    and "valid_datetime (clock_today env)" and "latin1_text (patient_name inp)" and "latin1_text d"
    and "\<forall>s \<in> set (all_symptoms env). latin1_text s"
    and "\<forall>p \<in> set (get_precautions (precautions_df env) d). latin1_text (cell_text p)"
  shows "\<exists>r st'. predict_click env inp st
           = (Reported d c (get_precautions (precautions_df env) d) (recommend_doctor d (city inp)) r, st')"
proof -
  obtain rows where rows: "history_table (db st) = Some rows"
    using app_reachable_inv [OF assms(1)] by auto
  obtain precs where precs: "py_join_cells '', '' (get_precautions (precautions_df env) d) = Inr precs"
    using py_join_cells_Inr [OF assms(6)] by blast
  obtain db' where st: "store_patient_history (patient_name inp) (gender inp) (selected_symptoms inp) d
      (get_precautions (precautions_df env) d) (recommend_doctor d (city inp))
      (city inp) (clock_now env) (db st) = Inr db'"
    using rows precs assms(7) by (simp add: store_patient_history_Inr)
  from predict_click_reported [OF assms(3,4,5) st widget_form_text_ok [OF assms(2,8-12)]]
  show ?thesis by blast
qed

theorem predict_click_progress_witness:
  "app_reachable (app_start \<lparr>history_table = None, sqlite_seq = 0\<rparr> \<lparr>tmp_files = []\<rparr>)
   \<and> (\<exists>r st'. predict_click (demo_env\<lparr>precautions_df := []\<rparr>) (demo_form [''cough''])
          (app_start \<lparr>history_table = None, sqlite_seq = 0\<rparr> \<lparr>tmp_files = []\<rparr>)
        = (Reported ''Flu'' 75 [] (recommend_doctor ''Flu'' ''Lahore'') r, st'))"
proof -
  let ?st = "app_start \<lparr>history_table = None, sqlite_seq = 0\<rparr> \<lparr>tmp_files = []\<rparr>"
  let ?e = "demo_env\<lparr>precautions_df := []\<rparr>"
  have reach: "app_reachable ?st"
    by (rule app_reachable.start) (simp add: db_inv_def sqlite_max_rowid_def)
  have w: "widget_form (all_symptoms ?e) (demo_form [''cough''])" by code_simp
  have cl: "classify_request (model ?e) (all_symptoms ?e) (selected_symptoms (demo_form [''cough'']))
      = Inr (''Flu'', 75, [1, 0, 0])"
    using demo_cough_classified by simp
  have nan: "NaN \<notin> set (get_precautions (precautions_df ?e) ''Flu'')"
    by (simp add: get_precautions_def)
  have seq: "sqlite_seq (db ?st) < sqlite_max_rowid"
    by (simp add: app_start_def initialize_db_def sqlite_max_rowid_def)
  have vd: "valid_datetime (clock_today ?e)" by (simp add: valid_datetime_def days_in_month_def)
  show ?thesis
    using predict_click_progress [OF reach w _ _ cl nan seq vd] reach by (simp add: get_precautions_def)
qed


text \<open>C19: Over any sequence of requests, the history grows by exactly one row per request
  that got past the store (a report, or a report that failed to encode), keeping the earlier
  rows, and the temporary directory keeps, in order, the PDF of every report (with the
  patient's data) and an empty file for every report that failed to encode.\<close>

theorem run_clicks_counts:
  assumes "run_clicks reqs st = (outs, st')" and "history_table (db st) = Some rows"
  shows "\<exists>new. history_table (db st') = Some (rows @ new)
           \<and> length new = length (filter is_stored outs)
           \<and> tmp_files (tmp st') = tmp_files (tmp st) @ concat (map leftover_files outs)"
  using run_clicks_growth [OF assms] by blast

theorem run_clicks_counts_witness:
  "history_table (db demo_state) = Some []
   \<and> (\<exists>new. history_table (db (snd (run_clicks [(demo_env, demo_form [''cough''])] demo_state)))
              = Some ([] @ new)
        \<and> length new = length (filter is_stored (fst (run_clicks [(demo_env, demo_form [''cough''])] demo_state)))
        \<and> tmp_files (tmp (snd (run_clicks [(demo_env, demo_form [''cough''])] demo_state)))
          = tmp_files (tmp demo_state)
            @ concat (map leftover_files (fst (run_clicks [(demo_env, demo_form [''cough''])] demo_state))))"
proof -
  have h: "history_table (db demo_state) = Some []" by simp
  show ?thesis
    using run_clicks_counts [OF prod.collapse [symmetric] h] h by (simp del: run_clicks.simps)
qed

text \<open>C18: The spec's "N appends then listAll yields the N records in reverse insertion
  order" holds when the clock advances by at least a minute between requests: on an empty
  table, after any sequence of requests whose clock readings are valid and strictly
  increasing to the minute, the table holds one row per stored request (a report, or a
  report that failed to encode after the store) and the only admissible
  result of the listing query is the table reversed.\<close>

theorem run_clicks_reverse_insertion:
  assumes "run_clicks reqs st = (outs, st')" and "history_table (db st) = Some []"
    and "\<forall>e \<in> set reqs. valid_datetime (clock_now (fst e))"
    and "sorted_wrt (\<lambda>e1 e2. dt_key (clock_now (fst e1)) < dt_key (clock_now (fst e2))) reqs"
  shows "\<exists>rows. history_table (db st') = Some rows \<and> length rows = length (filter is_stored outs)
           \<and> (\<forall>out. history_listing (db st') out \<longleftrightarrow> out = rev rows)"
proof -
  obtain rows where rows: "history_table (db st') = Some rows"
    and len: "length rows = length (filter is_stored outs)"
    using run_clicks_growth [OF assms(1,2)] by auto
  obtain rows' where rows': "history_table (db st') = Some rows'"
    and sorted: "sorted_wrt (\<lambda>a b. row_date a < row_date b) rows'"
    using run_clicks_sorted [OF assms(1,2) _ _ assms(3,4)] by auto
  from rows rows' have "rows' = rows" by simp
  with rows len sorted show ?thesis
    using history_listing_unique [OF rows] by auto
qed

abbreviation demo_time2 :: datetime where
  "demo_time2 \<equiv> \<lparr>dt_year = 2025, dt_month = 6, dt_day = 1, dt_hour = 10, dt_minute = 31\<rparr>"

theorem run_clicks_reverse_insertion_witness:
  "history_table (db demo_state) = Some []
   \<and> valid_datetime demo_time \<and> valid_datetime demo_time2
   \<and> dt_key demo_time < dt_key demo_time2
   \<and> (\<exists>rows. history_table (db (snd (run_clicks
          [(demo_env\<lparr>precautions_df := []\<rparr>, demo_form [''cough'']),
           (demo_env\<lparr>precautions_df := [], clock_now := demo_time2\<rparr>, demo_form [''fever''])]
          demo_state))) = Some rows)"
proof -
  let ?reqs = "[(demo_env\<lparr>precautions_df := []\<rparr>, demo_form [''cough'']),
           (demo_env\<lparr>precautions_df := [], clock_now := demo_time2\<rparr>, demo_form [''fever''])]"
  have h2: "history_table (db demo_state) = Some []" by simp
  have v1: "valid_datetime demo_time" and v2: "valid_datetime demo_time2"
    by (simp_all add: valid_datetime_def days_in_month_def)
  have lt: "dt_key demo_time < dt_key demo_time2" by (simp add: dt_key_def)
  have h3: "\<forall>e \<in> set ?reqs. valid_datetime (clock_now (fst e))" using v1 v2 by simp
  have h4: "sorted_wrt (\<lambda>e1 e2. dt_key (clock_now (fst e1)) < dt_key (clock_now (fst e2))) ?reqs"
    using lt by simp
  show ?thesis
    using run_clicks_reverse_insertion [OF prod.collapse [symmetric] h2 h3 h4] h2 v1 v2 lt
    by (auto simp del: run_clicks.simps)
qed

text \<open>C13: Every row a run stores in a fresh table is well formed: the rowids are exactly
  \<open>1 .. n\<close> in table order (AUTOINCREMENT from an empty table), and every date is the
  \<^verbatim>\<open>%Y-%m-%d %H:%M\<close> text of a valid instant, so the \<^verbatim>\<open>date\<close> column only holds
  timestamps of the one fixed format.\<close>

theorem run_clicks_rows_well_formed:
  assumes "run_clicks reqs \<lparr>db = \<lparr>history_table = Some [], sqlite_seq = 0\<rparr>, tmp = t\<rparr> = (outs, st')"
    and "\<forall>e \<in> set reqs. valid_datetime (clock_now (fst e))"
  shows "\<exists>rows. history_table (db st') = Some rows \<and> map row_id rows = [1..<Suc (length rows)]
           \<and> (\<forall>x \<in> set rows. \<exists>c. valid_datetime c \<and> row_date x = strftime_ymdhm c)"
proof -
  obtain rows where rows: "history_table (db st') = Some rows"
    and ids: "map row_id rows = [1..<Suc (sqlite_seq (db st'))]"
    using run_clicks_ids [OF assms(1)] by auto
  have len: "length rows = sqlite_seq (db st')"
    using arg_cong [OF ids, of length] by simp
  obtain new where "history_table (db st') = Some ([] @ new)"
    and dates: "\<forall>x \<in> set new. \<exists>e \<in> set (map fst reqs). row_date x = strftime_ymdhm (clock_now e)"
    using run_clicks_growth [OF assms(1)] by auto
  with rows have "new = rows" by simp
  with dates assms(2) have "\<forall>x \<in> set rows. \<exists>c. valid_datetime c \<and> row_date x = strftime_ymdhm c"
    by fastforce
  with rows ids len show ?thesis by auto
qed

theorem run_clicks_rows_well_formed_witness:
  "valid_datetime demo_time
   \<and> (\<exists>rows. history_table (db (snd (run_clicks [(demo_env\<lparr>precautions_df := []\<rparr>, demo_form [''cough''])]
          demo_state))) = Some rows \<and> map row_id rows = [1..<Suc (length rows)])"
proof -
  have v: "valid_datetime demo_time" by (simp add: valid_datetime_def days_in_month_def)
  have h: "\<forall>e \<in> set [(demo_env\<lparr>precautions_df := []\<rparr>, demo_form [''cough''])].
      valid_datetime (clock_now (fst e))" using v by simp
  show ?thesis
    using run_clicks_rows_well_formed [where t = "\<lparr>tmp_files = []\<rparr>", OF prod.collapse [symmetric] h] v
    by blast
qed

subsection \<open>What the page shows\<close>

text \<open>C11: The page after a failed store: the prediction (disease and confidence), the
  numbered precautions and the doctor are already on the page when
  \<^verbatim>\<open>store_patient_history\<close> raises, so the user sees a diagnosis that was not recorded,
  followed by the exception and no download link.\<close>

theorem screen_store_failure:
  assumes "patient_name inp \<noteq> []" and "selected_symptoms inp \<noteq> []"
    and "classify_request (model env) (all_symptoms env) (selected_symptoms inp) = Inr (d, c, v)"
    and "store_patient_history (patient_name inp) (gender inp) (selected_symptoms inp) d
           (get_precautions (precautions_df env) d) (recommend_doctor d (city inp))
           (city inp) (clock_now env) (db st) = Inl e"
  shows "Success (success_msg d c) \<in> set (screen_of env inp st)
         \<and> Info (recommend_doctor d (city inp)) \<in> set (screen_of env inp st)
         \<and> take (length (get_precautions (precautions_df env) d) + 1) (tl (screen_of env inp st))
             = Markdown precautions_heading # enum_lines 1 (get_precautions (precautions_df env) d)
         \<and> last (screen_of env inp st) = Exception e
         \<and> (\<forall>r. DownloadLink r \<notin> set (screen_of env inp st))
         \<and> predict_click env inp st = (Failed e, st)"
  using predict_handler_store_Inl [OF assms] by (auto simp: screen_of_def predict_click_def)

theorem screen_store_failure_witness:
  "last (screen_of demo_env (demo_form [''fever'']) demo_state) = Exception TypeError
   \<and> Success (success_msg ''Flu'' 75) \<in> set (screen_of demo_env (demo_form [''fever'']) demo_state)
   \<and> predict_click demo_env (demo_form [''fever'']) demo_state = (Failed TypeError, demo_state)"
proof -
  have h3: "classify_request (model demo_env) (all_symptoms demo_env)
      (selected_symptoms (demo_form [''fever''])) = Inr (''Flu'', 75, [0, 1, 0])"
    by (simp add: classify_request_def mlb_transform_def confidence_score_def)
  have h4: "NaN \<in> set (get_precautions (precautions_df demo_env) ''Flu'')"
    by code_simp
  have h5: "store_patient_history (patient_name (demo_form [''fever''])) (gender (demo_form [''fever'']))
      (selected_symptoms (demo_form [''fever''])) ''Flu'' (get_precautions (precautions_df demo_env) ''Flu'')
      (recommend_doctor ''Flu'' (city (demo_form [''fever'']))) (city (demo_form [''fever'']))
      (clock_now demo_env) (db demo_state) = Inl TypeError"
    unfolding store_patient_history_def py_join_cells_NaN [OF h4] by simp
  show ?thesis using screen_store_failure [OF _ _ h3 h5] by simp
qed

text \<open>C12: The page after a successful request shows, in order, the prediction, the
  precaution heading, the precautions numbered from 1 as \<open>"i. p"\<close>, the doctor heading
  and the doctor, a rule, the report heading and the download link; the link carries the
  document that was left in the temporary directory.\<close>

theorem screen_success:
  assumes "predict_handler env inp st = (ui, Reported d c p doc r, st')"
  shows "ui = Success (success_msg d c) # Markdown precautions_heading # enum_lines 1 p
              @ [Markdown doctor_heading, Info doc, Markdown ''---'', Markdown report_heading,
                 DownloadLink r]
         \<and> tmp_files (tmp st') = tmp_files (tmp st) @ [r]
         \<and> (\<forall>j < length p. ui ! (2 + j) = Write (show_nat (Suc j) @ ''. '' @ cell_text (p ! j)))"
proof -
  have ui: "ui = Success (success_msg d c) # Markdown precautions_heading # enum_lines 1 p
              @ [Markdown doctor_heading, Info doc, Markdown ''---'', Markdown report_heading,
                 DownloadLink r]"
   and t: "tmp_files (tmp st') = tmp_files (tmp st) @ [r]"
    using assms by (auto simp: predict_handler_def save_report_def Let_def
        split: if_splits sum.splits prod.splits)
  have "\<forall>j < length p. ui ! (2 + j) = Write (show_nat (Suc j) @ ''. '' @ cell_text (p ! j))"
    using ui by (auto simp: nth_append enum_lines_nth)
  with ui t show ?thesis by blast
qed

theorem screen_success_witness:
  "\<exists>ui d c p doc r st'. predict_handler (demo_env\<lparr>precautions_df := []\<rparr>) (demo_form [''cough'']) demo_state
      = (ui, Reported d c p doc r, st')
    \<and> last ui = DownloadLink r \<and> tmp_files (tmp st') = [r]"
proof -
  obtain d c p doc r st' where "predict_click (demo_env\<lparr>precautions_df := []\<rparr>)
      (demo_form [''cough'']) demo_state = (Reported d c p doc r, st')"
    using demo_click_reported by blast
  then have eq: "predict_handler (demo_env\<lparr>precautions_df := []\<rparr>) (demo_form [''cough'']) demo_state
      = (fst (predict_handler (demo_env\<lparr>precautions_df := []\<rparr>) (demo_form [''cough'']) demo_state),
         Reported d c p doc r, st')"
    by (metis predict_click_def prod.collapse)
  show ?thesis using screen_success [OF eq] eq by fastforce
qed

text \<open>C34: For a model whose class probabilities form a distribution, the confidence the
  page prints is a number from \<open>"0.00"\<close> to \<open>"100.00"\<close> with two decimals and
  no sign.\<close>

theorem confidence_text_bounded:
  assumes "classify_request m voc syms = Inr (d, c, v)" and "valid_proba (predict_proba m v)"
  shows "\<exists>k \<le> 10000. success_msg d c = utf8 [226, 156, 133] @ '' **'' @ d @ ''** detected with **''
           @ show_nat (k div 100) @ ''.'' @ zpad 2 (k mod 100) @ ''%** confidence.''"
proof -
  from assms(1) have "confidence_score m v = Inr c" unfolding classify_request_Inr by blast
  from confidence_score_range [OF this assms(2)] have "0 \<le> c" and "c \<le> 100" by simp_all
  from fmt_2f_range [OF this] show ?thesis by (auto simp: success_msg_def)
qed

theorem confidence_text_bounded_witness:
  "\<exists>k \<le> 10000. success_msg ''Flu'' 75 = utf8 [226, 156, 133] @ '' **Flu** detected with **''
      @ show_nat (k div 100) @ ''.'' @ zpad 2 (k mod 100) @ ''%** confidence.''"
proof -
  have h1: "classify_request demo_model [''cough'', ''fever'', ''headache''] [''fever'', ''cough'']
     = Inr (''Flu'', 75, [1, 1, 0])"
    by (simp add: classify_request_def mlb_transform_def confidence_score_def)
  have h2: "valid_proba (predict_proba demo_model [1, 1, 0])" by (simp add: valid_proba_def)
  show ?thesis using confidence_text_bounded [OF h1 h2] by simp
qed

end
