(* ===== verification/Sidebar.thy ===== *)
theory Sidebar
  imports Py_Base "HOL-Library.Multiset"
begin

text \<open>
  The sidebar's chart data, \<^verbatim>\<open>src/main.py\<close> lines 143-147:
  \<^verbatim>\<open>disease_data['Disease'].value_counts().head(10)\<close>.  The column is a list of CSV
  cells; \<^verbatim>\<open>value_counts\<close> drops \<open>NaN\<close>, counts each distinct value and sorts by count,
  largest first.  pandas does not fix the order of equal counts, so the contract is the
  relation \<open>value_counts_listing\<close> (every admissible result), and \<open>value_counts\<close> is one
  executable result of it (a stable sort on the negated count).  \<open>top_diseases\<close> is
  \<^verbatim>\<open>.head(10)\<close> applied to the result of \<^verbatim>\<open>value_counts()\<close>, so its properties can be
  stated for every admissible result.  The bar chart itself is presentation and is not
  modelled.
\<close>

definition column_values :: "cell list \<Rightarrow> string list" where
  "column_values col = concat (map (\<lambda>c. case c of Str s \<Rightarrow> [s] | NaN \<Rightarrow> []) col)"

definition value_counts_listing :: "cell list \<Rightarrow> (string \<times> nat) list \<Rightarrow> bool" where
  "value_counts_listing col out \<longleftrightarrow>
     distinct (map fst out) \<and> set (map fst out) = set (column_values col)
     \<and> list_all (\<lambda>(v, n). n = count_list (column_values col) v) out
     \<and> sorted_wrt (\<lambda>a b. snd b \<le> snd a) out"

definition value_counts :: "cell list \<Rightarrow> (string \<times> nat) list" where
  "value_counts col =
     (let vals = column_values col
      in sort_key (\<lambda>p. - int (snd p)) (map (\<lambda>v. (v, count_list vals v)) (remdups vals)))"

definition top_diseases :: "(string \<times> nat) list \<Rightarrow> (string \<times> nat) list" where
  "top_diseases counts = take 10 counts"

subsection \<open>Properties of the chart data\<close>

lemma sorted_wrt_desc_sort_key:
  "sorted_wrt (\<lambda>a b. snd b \<le> snd a) (sort_key (\<lambda>p. - int (snd p)) xs)"
proof -
  have "sorted (map (\<lambda>p. - int (snd p)) (sort_key (\<lambda>p. - int (snd p)) xs))"
    by (rule sorted_sort_key)
  then show ?thesis by (simp add: sorted_map sorted_wrt_iff_nth_less)
qed

text \<open>The executable \<open>value_counts\<close> is an admissible result of pandas'
  \<^verbatim>\<open>value_counts()\<close>: every non-NaN value once, with its number of occurrences, counts
  non-increasing.\<close>

lemma value_counts_refines:
  "value_counts_listing col (value_counts col)"
proof -
  let ?vals = "column_values col"
  let ?xs = "map (\<lambda>v. (v, count_list ?vals v)) (remdups ?vals)"
  have m: "mset (map fst (sort_key (\<lambda>p. - int (snd p)) ?xs)) = mset (map fst ?xs)"
    by (simp only: mset_map mset_sort)
  have s: "set (sort_key (\<lambda>p. - int (snd p)) ?xs) = set ?xs" by (rule set_sort)
  have "distinct (map fst ?xs)" by (simp add: comp_def)
  then have "distinct (map fst (sort_key (\<lambda>p. - int (snd p)) ?xs))"
    using mset_eq_imp_distinct_iff [OF m] by simp
  moreover have "set (map fst (sort_key (\<lambda>p. - int (snd p)) ?xs)) = set ?vals"
    using s by (auto simp: image_iff)
  moreover have "list_all (\<lambda>(v, n). n = count_list ?vals v) (sort_key (\<lambda>p. - int (snd p)) ?xs)"
    using s by (auto simp: list_all_iff)
  ultimately show ?thesis
    by (simp add: value_counts_listing_def value_counts_def Let_def sorted_wrt_desc_sort_key)
qed

text \<open>C35: Whatever order pandas gives equal counts, the chart data
  \<^verbatim>\<open>value_counts().head(10)\<close> are the ten most frequent diseases (or all of them when
  there are fewer than ten distinct ones) with their exact counts: every disease left out
  occurs at most as often as every disease shown.\<close>

theorem top_diseases_correct:
  assumes "value_counts_listing col full"
  shows "length (top_diseases full) = min 10 (card (set (column_values col)))
         \<and> list_all (\<lambda>(v, n). n = count_list (column_values col) v) (top_diseases full)
         \<and> (\<forall>v \<in> set (column_values col). v \<notin> set (map fst (top_diseases full)) \<longrightarrow>
              (\<forall>p \<in> set (top_diseases full). count_list (column_values col) v \<le> snd p))"
proof -
  let ?vals = "column_values col"
  let ?out = "top_diseases full"
  from assms(1) have d: "distinct (map fst full)" and st: "set (map fst full) = set ?vals"
    and cnt: "list_all (\<lambda>(v, n). n = count_list ?vals v) full"
    and srt: "sorted_wrt (\<lambda>a b. snd b \<le> snd a) full"
    by (simp_all add: value_counts_listing_def)
  have out: "?out = take 10 full" by (simp add: top_diseases_def)
  have len: "length full = card (set ?vals)"
    using distinct_card [OF d] st by simp
  have c_out: "list_all (\<lambda>(v, n). n = count_list ?vals v) ?out"
    using cnt out by (simp add: list_all_iff) (meson in_set_takeD)
  have rest: "\<forall>v \<in> set ?vals. v \<notin> set (map fst ?out) \<longrightarrow> (\<forall>p \<in> set ?out. count_list ?vals v \<le> snd p)"
  proof (intro ballI impI)
    fix v p assume v: "v \<in> set ?vals" and nv: "v \<notin> set (map fst ?out)" and p: "p \<in> set ?out"
    from v st have "v \<in> fst ` set full" by simp
    then obtain q where q: "q \<in> set full" and fq: "fst q = v" by blast
    have "q \<in> set (drop 10 full)"
      using q nv fq out by (metis append_take_drop_id Un_iff set_append image_eqI set_map)
    moreover have "sorted_wrt (\<lambda>a b. snd b \<le> snd a) (take 10 full @ drop 10 full)"
      using srt by simp
    then have "\<forall>x \<in> set (take 10 full). \<forall>y \<in> set (drop 10 full). snd y \<le> snd x"
      by (simp only: sorted_wrt_append) blast
    moreover have "p \<in> set (take 10 full)" using p out by simp
    ultimately have "snd q \<le> snd p" by blast
    moreover have "snd q = count_list ?vals v"
      using cnt q fq by (auto simp: list_all_iff)
    ultimately show "count_list ?vals v \<le> snd p" by simp
  qed
  show ?thesis using len c_out rest out by simp
qed

theorem top_diseases_correct_witness:
  "value_counts_listing [Str ''Flu'', Str ''Cold'', Str ''Flu'', NaN] [(''Flu'', 2), (''Cold'', 1)]
   \<and> length (top_diseases [(''Flu'', 2), (''Cold'', 1)])
       = min 10 (card (set (column_values [Str ''Flu'', Str ''Cold'', Str ''Flu'', NaN])))"
proof -
  have h: "value_counts_listing [Str ''Flu'', Str ''Cold'', Str ''Flu'', NaN] [(''Flu'', 2), (''Cold'', 1)]"
    by (auto simp: value_counts_listing_def column_values_def)
  show ?thesis using top_diseases_correct [OF h] h by blast
qed

end
