(* ===== verification/Page.thy ===== *)
theory Page
  imports App Sidebar
begin

text \<open>
  One run of the Streamlit script \<^verbatim>\<open>src/main.py\<close>.  Streamlit re-runs the whole script
  on every interaction: the page configuration (line 13), the CSS (lines 27-73), the title
  (lines 140-141), the sidebar chart (lines 144-147), the form widgets (lines 150-161) and
  the button (line 164) are rendered on every run, and the handler runs only on the run
  that follows a click (\<^verbatim>\<open>st.button\<close> returns \<open>True\<close> once).  \<open>page_layout\<close> is
  the fixed part of the page, \<open>script_run\<close> one run, \<open>script_runs\<close> a session of
  runs after the import (\<open>app_import\<close>).  Each run re-executes lines 20-24 and reads the
  clock afresh, so every event of a session carries its own environment (model, vocabulary,
  precaution table, logo, the two clock readings) and its own disease column, besides the
  widget values and whether the button was clicked.
\<close>

definition css_lines :: "string list" where
  "css_lines =
     [''    <style>'',
      ''    body {'',
      ''        background-color: #f9f9f9;'',
      ''        font-family: '' @ [CHR 0x27] @ ''Segoe UI'' @ [CHR 0x27] @ '', sans-serif;'',
      ''    }'',
      ''    .main {'',
      ''        background-color: #ffffff;'',
      ''        padding: 2rem;'',
      ''        border-radius: 10px;'',
      ''        box-shadow: 0 4px 12px rgba(0,0,0,0.05);'',
      ''    }'',
      ''    .stButton>button {'',
      ''        background-color: #0047AB;'',
      ''        color: white;'',
      ''        font-weight: bold;'',
      ''        border-radius: 6px;'',
      ''        border: none;'',
      ''        padding: 0.6em 1.2em;'',
      ''    }'',
      ''    .stButton>button:hover {'',
      ''        background-color: #6495ED;'',
      ''    }'',
      ''    .stDownloadButton>button {'',
      ''        background-color: #009688;'',
      ''        color: white;'',
      ''        border-radius: 5px;'',
      ''        font-weight: bold;'',
      ''    }'',
      ''    .stDownloadButton>button:hover {'',
      ''        background-color: #00796B;'',
      ''    }'',
      ''    .download-button {'',
      ''        display: inline-block;'',
      ''        padding: 10px 20px;'',
      ''        font-size: 15px;'',
      ''        font-weight: bold;'',
      ''        color: white;'',
      ''        background-color: #0047AB;'',
      ''        border-radius: 8px;'',
      ''        text-decoration: none;'',
      ''    }'',
      ''    .download-button:hover {'',
      ''        background-color: #6495ED;'',
      ''    }'',
      ''    </style>'']"

definition custom_css :: string where
  "custom_css = CHR 0x0A # concat (map (\<lambda>l. l @ [CHR 0x0A]) css_lines)"

definition page_config :: ui_elem where
  "page_config = PageConfig ''MediVision AI'' ''wide''"

definition page_layout :: "(string \<times> nat) list \<Rightarrow> string list \<Rightarrow> ui_elem list" where
  "page_layout chart vocab =
     [page_config,
      Html custom_css,
      Html (''<h1 style='' @ [CHR 0x27] @ ''color:#0047AB'' @ [CHR 0x27] @ ''>'' @ utf8 [240, 159, 164, 150]
            @ '' MediVision AI - Disease Predictor</h1>''),
      Html (''<p style='' @ [CHR 0x27] @ ''color:#555;'' @ [CHR 0x27]
            @ ''>Select symptoms to get an AI-powered disease prediction, treatment advice, and doctor recommendation.</p>''),
      Sidebar [Markdown (''### '' @ utf8 [240, 159, 147, 138] @ '' Top 10 Common Diseases''), BarChart chart],
      Markdown (''### '' @ utf8 [240, 159, 167, 190] @ '' Patient Details''),
      Columns
        [TextInput (utf8 [240, 159, 145, 164] @ '' Name''),
         NumberInput (utf8 [240, 159, 142, 130] @ '' Age'') 1 120 25]
        [Radio (utf8 [226, 154, 167, 239, 184, 143] @ '' Gender'') [''Male'', ''Female'', ''Other''],
         Selectbox (utf8 [240, 159, 147, 141] @ '' City'') ui_cities],
      Markdown (''### '' @ utf8 [240, 159, 164, 146] @ '' Select Symptoms''),
      Multiselect ''Click to select symptoms'' (sort vocab),
      Button (utf8 [240, 159, 148, 141] @ '' Predict Disease'')]"

definition script_run ::
  "app_env \<Rightarrow> cell list \<Rightarrow> form_input \<Rightarrow> bool \<Rightarrow> app_state \<Rightarrow> ui_elem list \<times> app_state" where
  "script_run env disease_column inp clicked st =
     (let page = page_layout (top_diseases (value_counts disease_column)) (all_symptoms env)
      in if clicked
         then (case predict_handler env inp st of (shown, out, st') \<Rightarrow> (page @ shown, st'))
         else (page, st))"

type_synonym script_event = "app_env \<times> cell list \<times> form_input \<times> bool"

fun script_runs :: "script_event list \<Rightarrow> app_state \<Rightarrow> ui_elem list list \<times> app_state" where
  "script_runs [] st = ([], st)"
| "script_runs ((env, col, inp, clicked) # evs) st =
     (let (page, st') = script_run env col inp clicked st;
          (pages, st'') = script_runs evs st'
      in (page # pages, st''))"

definition clicked_requests :: "script_event list \<Rightarrow> (app_env \<times> form_input) list" where
  "clicked_requests evs = map (\<lambda>(env, col, inp, clicked). (env, inp)) (filter (\<lambda>(env, col, inp, clicked). clicked) evs)"

subsection \<open>Runs and sessions\<close>

lemma script_run_state:
  "snd (script_run env col inp clicked st) = (if clicked then snd (predict_click env inp st) else st)"
  by (simp add: script_run_def predict_click_def Let_def split: prod.split)

lemma script_runs_state:
  "snd (script_runs evs st) = snd (run_clicks (clicked_requests evs) st)"
proof (induction evs arbitrary: st)
  case Nil
  then show ?case by (simp add: clicked_requests_def)
next
  case (Cons ev evs)
  obtain env col inp clicked where ev: "ev = (env, col, inp, clicked)" by (cases ev)
  obtain page st1 where one: "script_run env col inp clicked st = (page, st1)"
    by (cases "script_run env col inp clicked st")
  have st1: "st1 = (if clicked then snd (predict_click env inp st) else st)"
    using script_run_state [of env col inp clicked st] one by simp
  have lhs: "snd (script_runs (ev # evs) st) = snd (script_runs evs st1)"
    by (simp add: ev one split: prod.split)
  have rhs: "snd (run_clicks (clicked_requests (ev # evs)) st)
      = snd (run_clicks (clicked_requests evs) st1)"
  proof (cases clicked)
    case True
    then obtain out where p: "predict_click env inp st = (out, st1)"
      using st1 by (metis prod.collapse)
    with True show ?thesis by (simp add: ev clicked_requests_def split: prod.split)
  next
    case False
    with st1 show ?thesis by (simp add: ev clicked_requests_def)
  qed
  show ?case using lhs rhs Cons.IH [of st1] by simp
qed

lemma script_runs_length: "length (fst (script_runs evs st)) = length evs"
proof (induction evs arbitrary: st)
  case (Cons ev evs)
  then show ?case by (cases ev) (simp add: split_def Let_def)
qed simp

lemma run_clicks_reachable: "app_reachable st \<Longrightarrow> app_reachable (snd (run_clicks reqs st))"
proof (induction reqs arbitrary: st)
  case Nil
  then show ?case by simp
next
  case (Cons req reqs)
  obtain env inp where req: "req = (env, inp)" by (cases req)
  obtain out st1 where one: "predict_click env inp st = (out, st1)"
    by (cases "predict_click env inp st")
  have "app_reachable st1" using app_reachable.click [OF Cons.prems one] .
  from Cons.IH [OF this] show ?case by (simp add: req one split_def Let_def)
qed

subsection \<open>Properties of the script\<close>

text \<open>C15: A session (the import, then any sequence of script runs, each with its own
  clock readings, loaded data, widget values and click) starts only when the hard-coded database directory exists; its state
  is the state of the clicked requests alone, run in order from start-up, so it is a
  reachable state, and the history table exists throughout.\<close>

theorem session_refines_clicks:
  assumes "db_inv d" and "app_import ok d t = Inr st"
    and "script_runs evs st = (pages, st')"
  shows "ok \<and> length pages = length evs
         \<and> st' = snd (run_clicks (clicked_requests evs) (app_start d t))
         \<and> app_reachable st' \<and> history_table (db st') \<noteq> None"
proof -
  from assms(2) have ok: ok and st: "st = app_start d t"
    by (simp_all add: app_import_def split: if_splits)
  have st': "st' = snd (run_clicks (clicked_requests evs) (app_start d t))"
    using script_runs_state [of evs st] assms(3) st by simp
  have "app_reachable (app_start d t)" using assms(1) by (rule app_reachable.start)
  then have r: "app_reachable st'" using st' run_clicks_reachable by simp
  have "length pages = length evs" using script_runs_length [of evs st] assms(3) by simp
  with ok st' r show ?thesis using app_reachable_inv [OF r] by simp
qed

theorem session_refines_clicks_witness:
  "db_inv \<lparr>history_table = None, sqlite_seq = 0\<rparr>
   \<and> app_import True \<lparr>history_table = None, sqlite_seq = 0\<rparr> \<lparr>tmp_files = []\<rparr>
       = Inr (app_start \<lparr>history_table = None, sqlite_seq = 0\<rparr> \<lparr>tmp_files = []\<rparr>)
   \<and> app_reachable (snd (script_runs
        [(demo_env, [Str ''Flu''], demo_form [''cough''], False),
         (demo_env\<lparr>precautions_df := [], clock_now := demo_time2, clock_today := demo_time2\<rparr>,
          [Str ''Flu''], demo_form [''cough''], True)]
        (app_start \<lparr>history_table = None, sqlite_seq = 0\<rparr> \<lparr>tmp_files = []\<rparr>)))"
proof -
  have h1: "db_inv \<lparr>history_table = None, sqlite_seq = 0\<rparr>"
    by (simp add: db_inv_def sqlite_max_rowid_def)
  have h2: "app_import True \<lparr>history_table = None, sqlite_seq = 0\<rparr> \<lparr>tmp_files = []\<rparr>
       = Inr (app_start \<lparr>history_table = None, sqlite_seq = 0\<rparr> \<lparr>tmp_files = []\<rparr>)"
    by (simp add: app_import_def)
  show ?thesis
    using session_refines_clicks [OF h1 h2 prod.collapse [symmetric]] h1 h2 by blast
qed

end
