(* ===== verification/Spec2Isabelle.thy ===== *)
theory Spec2Isabelle
  imports Page
begin

text \<open>
  \<^bold>\<open>MediVision AI disease predictor: a verification development.\<close>

  \<^bold>\<open>The program.\<close>  A Streamlit page (\<^verbatim>\<open>src/main.py\<close>) collects a patient's name,
  age, gender, city and a set of symptoms.  On "Predict Disease" it encodes the symptoms
  with a pre-trained multi-label encoder, asks a pre-trained classifier for the disease
  and its probability, looks up four precautions in a CSV table (\<^verbatim>\<open>get_precautions\<close>),
  asks \<^verbatim>\<open>recommend_doctor\<close> (\<^verbatim>\<open>src/backend/patient_data.py\<close>) for a doctor in the
  patient's city, appends a row to the SQLite table \<^verbatim>\<open>history\<close>
  (\<^verbatim>\<open>store_patient_history\<close>) and renders a PDF report (\<^verbatim>\<open>generate_pdf\<close>) that it
  offers as a download.  The only state that outlives a request is the database (created
  by \<^verbatim>\<open>initialize_db\<close> when the backend module is imported) and, as the model shows,
  the temporary directory, where every report is left behind.

  \<^bold>\<open>The theories, in import order.\<close>
  \<^item> \<open>Py_Base\<close>: the Python built-ins the code relies on: exceptions as \<open>py_exc\<close>
    and results as \<open>py_exc + 'a\<close>; \<^verbatim>\<open>str.lower/upper/title/strip\<close> on ASCII,
    \<^verbatim>\<open>dict.get\<close>, \<^verbatim>\<open>str.join\<close> (with the \<open>TypeError\<close> on a non-string item,
    for pandas \<open>NaN\<close> cells), decimal printing and zero padding.  Its lemmas: the case
    functions are idempotent and \<^verbatim>\<open>strip\<close> commutes with \<^verbatim>\<open>title\<close>.  Strings are
    the UTF-8 bytes of the text; \<open>is_ascii\<close> and \<open>latin1_text\<close> say whether a
    text is ASCII, or decodes to code points below U+0100 (what Latin-1 can encode).  Joining with
    \<^verbatim>\<open>', '\<close> is injective on comma-free items; equal-width zero-padded numerals compare
    as strings like the numbers.
  \<^item> \<open>Doctors\<close>: \<^verbatim>\<open>doctors_by_city\<close>, \<^verbatim>\<open>specialist_map\<close> and
    \<^verbatim>\<open>recommend_doctor\<close> (with its three steps \<open>city_norm\<close>, \<open>specialty_of\<close> and
    the guarded lookup).  Lemmas: known cities give the directory doctor, the "no
    specialist" default is dead code, unknown cities give the fallback naming specialty and
    normalised city, and the answer is invariant under the input normalisation.
  \<^item> \<open>Timestamp\<close>: \<^verbatim>\<open>datetime.now().strftime("%Y-%m-%d %H:%M")\<close> over the record
    \<open>datetime\<close>.  Lemmas: the text has 16 characters and orders like time
    (\<open>dt_key\<close>), which is what makes \<^verbatim>\<open>ORDER BY date\<close> chronological.
  \<^item> \<open>History\<close>: the database as \<open>db_state\<close> (the \<^verbatim>\<open>history\<close> rows in rowid
    order, \<open>None\<close> before \<^verbatim>\<open>CREATE TABLE\<close>, and the AUTOINCREMENT counter);
    \<open>initialize_db\<close>, \<open>store_patient_history\<close> (three exception paths: \<open>TypeError\<close>
    from the join, missing table, \<open>SQLITE_FULL\<close>), and the query of
    \<^verbatim>\<open>get_patient_history\<close> as the relation \<open>history_listing\<close> (SQLite leaves the
    order of equal dates open) with \<open>get_patient_history\<close> one evaluation of it, which
    raises pandas' \<open>DatabaseError\<close> when the table is missing.  Lemmas:
    success and error behaviour, the invariant \<open>db_inv\<close> (rowids positive, strictly
    increasing, bounded by the counter, counter within the 64-bit rowid range), append-only
    with fresh keys, newest-first under a later timestamp, the same-minute tie (a new row
    need not be listed first), and injectivity of the \<^verbatim>\<open>', '\<close> serialisation.
  \<^item> \<open>Precautions\<close>: the CSV rows and \<^verbatim>\<open>get_precautions\<close>.  Lemmas: zero or four
    entries, the first case-insensitive match, invariance under the case of the label.
  \<^item> \<open>Classifier\<close>: the two artifacts as an interface (the record \<open>classifier\<close>, so
    every lemma holds for any trained model) and the encoder \<open>mlb_transform\<close>, modelled
    on scikit-learn's \<^verbatim>\<open>MultiLabelBinarizer.transform\<close> (a library object, not code of
    the repository): the 0/1 vector over the vocabulary, a label outside it ignored;
    \<open>classify_request\<close> is main.py lines 168-171.  Lemmas: the vector has one entry per
    vocabulary item and one 1 per selected symptom, the only error is \<open>ValueError\<close> of an
    empty probability array (unknown labels are dropped, not rejected), and the confidence
    lies in \<open>[100/k, 100]\<close> for a probability distribution over \<open>k\<close> classes.
  \<^item> \<open>Report\<close>: \<^verbatim>\<open>generate_pdf\<close> as the list of FPDF calls (\<open>pdf_op\<close>),
    \<^verbatim>\<open>f"{x:.2f}"\<close> as \<open>fmt_2f\<close> (round half to even on the exact value), and the
    temporary file as \<open>save_report\<close> on \<open>tmp_state\<close>: PyFPDF 1.7 encodes the text
    as Latin-1 at \<^verbatim>\<open>pdf.output\<close> (line 128), so a text outside Latin-1
    (\<open>pdf_text_ok\<close>) raises \<open>UnicodeEncodeError\<close> there and leaves the empty file
    \<^verbatim>\<open>NamedTemporaryFile(delete=False)\<close> created.  Lemmas: the report text in order (both
    section headings always present), the logo is optional, which texts encode (all fields
    Latin-1 and a valid month) and that a name outside Latin-1 never does, and the printed
    confidence has two decimals.
  \<^item> \<open>App\<close>: the handler of the Predict button as \<open>predict_handler\<close>, which
    returns the Streamlit elements the run puts on the page (\<open>ui_elem\<close>: the warning,
    the success message with the confidence, the numbered precautions, the doctor, the
    download link, or the exception that ends the run), the outcome, and the new
    \<open>app_state\<close> (database and temporary directory) under \<open>app_env\<close> (artifacts,
    table, logo, clock); \<open>predict_click\<close> is its outcome and state and
    \<open>screen_of\<close> its page.  Start-up is \<open>app_start\<close>, the reachable states
    \<open>app_reachable\<close> (an inductive predicate), runs \<open>run_clicks\<close>.  Lemmas: the
    validation guard, the effects of a failure (none before the store; after it, the stored
    row and an empty file), the effect of a successful request, the \<open>NaN\<close> precaution bug,
    the partial record of a name outside Latin-1, the invariant on reachable states by rule
    induction, progress (a widget form with encodable texts that can succeed does), the
    page on success and on a failed store, the printed confidence bounds, row and
    leftover-file counts over runs, rowids \<open>1..n\<close> and well-formed dates, and reverse
    insertion order of the listing when the clock advances.
  \<^item> \<open>Sidebar\<close>: the sidebar's chart data,
    \<^verbatim>\<open>disease_data['Disease'].value_counts().head(10)\<close>: the relation
    \<open>value_counts_listing\<close> of admissible pandas results (ties in any order) and the
    executable \<open>value_counts\<close>; \<open>top_diseases\<close> is \<^verbatim>\<open>.head(10)\<close> of its result.
    Lemmas: the executable result is admissible, and \<open>top_diseases\<close> of any admissible
    result holds the most frequent diseases with exact counts.
  \<^item> \<open>Page\<close>: the script as Streamlit runs it: \<open>page_layout\<close> is the fixed page of
    every run (\<^verbatim>\<open>set_page_config\<close>, the CSS block \<open>css_lines\<close> verbatim, the title,
    the sidebar chart, the form widgets with their labels, options and bounds, the button),
    \<open>script_run\<close> one run (the handler only after a click), \<open>script_runs\<close> a session
    of re-runs, each event with its own environment (the script reloads its data and reads
    the clock on every run).  Lemmas: a session starts only when the hard-coded database directory exists
    (\<open>app_import\<close>, App) and its state is that of the clicked requests alone, hence
    reachable.
  \<^item> This theory: properties that span components: the form's city list against the
    recommender, and the agreement of the report with the stored record.

  \<^bold>\<open>Bounds and choices.\<close>  Python's integers are \<open>nat\<close>/\<open>int\<close> and floats are exact
  rationals (\<open>rat\<close>), so \<open>fmt_2f\<close> formats the float's exact value as CPython does.
  The only machine bound the code can reach is SQLite's largest rowid
  \<open>sqlite_max_rowid = 2^63 - 1\<close>, kept as an explicit guard.  Valid instants are those of
  Python's \<^verbatim>\<open>datetime\<close> (years 1-9999); \<open>%Y\<close> is taken as four zero-padded
  digits.  No loop of the program can diverge: the code's loops run over finite lists
  (\<^verbatim>\<open>for s in symptoms\<close>, \<^verbatim>\<open>enumerate(precautions)\<close>, \<^verbatim>\<open>range(1, 5)\<close>) and
  every recursion of the model is structural (\<open>show_nat\<close> by \<open>n div 10\<close>, accepted by
  the function package), so no fuel is needed and no termination property is stated.

  \<^bold>\<open>Findings.\<close>  A precaution row with an empty cell makes every prediction of that
  disease fail in \<^verbatim>\<open>store_patient_history\<close> (\<open>nan_precaution_blocks_report\<close>); a
  patient name outside Latin-1 is stored and then fails the report, leaving a record without
  report and an empty temporary file (\<open>nonlatin_name_partial_record\<close>);
  every report leaves its PDF in the temporary directory (\<open>run_clicks_counts\<close>); a
  failed store comes after the diagnosis is already on the page
  (\<open>screen_store_failure\<close>); the
  listing's "newest first" only holds across minutes
  (\<open>listing_same_minute_tie\<close>); the spec's \<open>UnknownSymptom\<close> never occurs, the encoder
  drops an unknown label (\<open>classify_request_errors\<close>); the "no specialist" answer is unreachable
  (\<open>recommend_never_no_specialist\<close>); the fallback quotes the normalised, not the
  given, city (the witness of \<open>recommend_unknown_city\<close>); the precaution list has zero
  or four entries, never one to three (\<open>get_precautions_shape\<close>); every database call
  connects to a hard-coded Windows path, so the app does not start where that directory is
  missing (\<open>session_refines_clicks\<close>).

  \<^bold>\<open>Not modelled.\<close>  How Streamlit renders the page's elements (markdown, HTML,
  CSS, the bar chart, the widgets, the traceback of an exception): the page is the list of
  elements each run emits, in order.  Streamlit's session mechanics beyond "a run re-executes
  the script; the button is true on the run after a click".  The training of the
  artifacts and their file formats.  sqlite3 connection handling beyond the import: each
  call is one atomic transaction on one database, and the database directory, checked at
  import, is assumed not to disappear while the app runs.  The PDF byte stream and the
  base64 link (the document is its list of layout calls; of FPDF's encoding only the
  Latin-1 check at output is modelled).  scikit-learn's warning on an unknown label.
  Strings outside ASCII in the case functions.
\<close>

subsection \<open>Properties across components\<close>

lemma city_norm_ui_cities: "\<forall>c \<in> set ui_cities. city_norm c = c"
  by code_simp

text \<open>C25: For every city of the form's selectbox except "Other" the recommendation is a
  doctor of the directory; for "Other" it is always the fallback naming the specialty and
  "Other".\<close>

theorem ui_city_recommendation:
  assumes "c \<in> set ui_cities"
  shows "(c \<noteq> ''Other'' \<longrightarrow> take 4 (recommend_doctor d c) = ''Dr. '')
         \<and> (c = ''Other'' \<longrightarrow> recommend_doctor d c = no_doctor_msg (specialty_of d) ''Other'')"
proof -
  have norm: "city_norm c = c" using assms city_norm_ui_cities by blast
  show ?thesis
  proof (cases "c = ''Other''")
    case True
    then have "map_of doctors_by_city (city_norm c) = None"
      using norm by (simp add: doctors_by_city_def)
    with True norm show ?thesis by (simp add: recommend_doctor_unknown)
  next
    case False
    with assms obtain docs where docs: "map_of doctors_by_city (city_norm c) = Some docs"
      using norm by (auto simp: ui_cities_def doctors_by_city_def)
    then have "recommend_doctor d c \<in> ran (map_of docs)"
      using recommend_doctor_known_entry [OF docs] by (auto simp: ran_def)
    with docs False show ?thesis by (auto dest: directory_entry)
  qed
qed

theorem ui_city_recommendation_witness:
  "''Karachi'' \<in> set ui_cities \<and> take 4 (recommend_doctor ''Migraine'' ''Karachi'') = ''Dr. ''
   \<and> recommend_doctor ''Migraine'' ''Other'' = no_doctor_msg (specialty_of ''Migraine'') ''Other''"
proof -
  have k: "''Karachi'' \<in> set ui_cities" by (simp add: ui_cities_def)
  have o: "''Other'' \<in> set ui_cities" by (simp add: ui_cities_def)
  show ?thesis
    using ui_city_recommendation [OF k, of "''Migraine''"] ui_city_recommendation [OF o, of "''Migraine''"] k
    by simp
qed

text \<open>C26: The report a successful request offers agrees with the row it stored: the
  report shows the stored patient name, the stored predicted disease and the stored doctor,
  and the row's city is the form's.\<close>

theorem report_matches_history:
  assumes "predict_click env inp st = (Reported d c p doc r, st')"
  shows "\<exists>rows row. history_table (db st') = Some (rows @ [row])
           \<and> (''Patient Name: '' @ row_name row) \<in> set (report_text r)
           \<and> (''Predicted Disease: '' @ row_predicted_disease row) \<in> set (report_text r)
           \<and> row_doctor row \<in> set (report_text r) \<and> row_city row = city inp"
proof -
  from predict_click_cases [OF assms] obtain v db' where
    store: "store_patient_history (patient_name inp) (gender inp) (selected_symptoms inp) d p doc
            (city inp) (clock_now env) (db st) = Inr db'"
    and r: "r = generate_pdf (logo_exists env) (clock_today env) (patient_name inp) (age inp)
              (gender inp) (city inp) d c (selected_symptoms inp) p doc"
    and st': "st' = \<lparr>db = db', tmp = \<lparr>tmp_files = tmp_files (tmp st) @ [r]\<rparr>\<rparr>"
    by auto
  from store obtain rows precs where
    db': "history_table db' = Some (rows @ [new_row (Suc (sqlite_seq (db st))) (patient_name inp)
            (gender inp) (selected_symptoms inp) d precs doc (city inp) (clock_now env)])"
    by (auto simp: store_patient_history_Inr)
  have "(''Patient Name: '' @ patient_name inp) \<in> set (report_text r)"
    and "(''Predicted Disease: '' @ d) \<in> set (report_text r)"
    and "doc \<in> set (report_text r)"
    using report_text_fields by (simp_all add: r)
  with db' st' show ?thesis by auto
qed

theorem report_matches_history_witness:
  "\<exists>d c p doc r st'. predict_click (demo_env\<lparr>precautions_df := []\<rparr>) (demo_form [''cough'']) demo_state
      = (Reported d c p doc r, st')
    \<and> (\<exists>rows row. history_table (db st') = Some (rows @ [row])
         \<and> (''Patient Name: '' @ row_name row) \<in> set (report_text r)
         \<and> row_doctor row \<in> set (report_text r) \<and> row_city row = ''Lahore'')"
proof -
  obtain d c p doc r st' where eq: "predict_click (demo_env\<lparr>precautions_df := []\<rparr>)
      (demo_form [''cough'']) demo_state = (Reported d c p doc r, st')"
    using demo_click_reported by blast
  show ?thesis using report_matches_history [OF eq] eq by auto
qed

end
